theory Spec2Isabelle
  imports Complex_Main
begin

section \<open>JavaScript strings and the builtins the services call\<close>

text \<open>
  A JavaScript string is a sequence of UTF-16 code units; \<^verbatim>\<open>length\<close>, \<^verbatim>\<open>substring\<close>,
  \<^verbatim>\<open>includes\<close> and \<^verbatim>\<open>replace\<close> all count and compare code units. The tables of the
  services are written with their code units; text of the Basic Latin block is written as an
  Isabelle string through \<open>ascii\<close>.
\<close>

type_synonym jstring = "nat list"

definition ascii :: "string \<Rightarrow> jstring" where
  "ascii s = map of_char s"

text \<open>
  \<^verbatim>\<open>\s\<close> in a regular expression and \<^verbatim>\<open>String.prototype.trim\<close> use the same class:
  WhiteSpace together with LineTerminator.
\<close>

definition isSpace :: "nat \<Rightarrow> bool" where
  "isSpace c \<longleftrightarrow>
     c \<in> {0x9, 0xA, 0xB, 0xC, 0xD, 0x20, 0xA0, 0x1680, 0x2028, 0x2029, 0x202F, 0x205F, 0x3000, 0xFEFF}
     \<or> (0x2000 \<le> c \<and> c \<le> 0x200A)"

definition trim :: "jstring \<Rightarrow> jstring" where
  "trim s = rev (dropWhile isSpace (rev (dropWhile isSpace s)))"

text \<open>\<^verbatim>\<open>xs.join(sep)\<close> on an array of strings.\<close>

fun join :: "jstring \<Rightarrow> jstring list \<Rightarrow> jstring" where
  "join sep [] = []"
| "join sep [x] = x"
| "join sep (x # y # ys) = x @ sep @ join sep (y # ys)"

text \<open>
  \<^verbatim>\<open>s.split(/[class]/)\<close>: every code unit of the class is a separator, so two adjacent
  separators enclose an empty piece, and the empty string gives one empty piece.
\<close>

fun splitOn :: "(nat \<Rightarrow> bool) \<Rightarrow> jstring \<Rightarrow> jstring list" where
  "splitOn p [] = [[]]"
| "splitOn p (c # cs) =
     (if p c then [] # splitOn p cs
      else (case splitOn p cs of [] \<Rightarrow> [[c]] | t # ts \<Rightarrow> (c # t) # ts))"

text \<open>
  \<^verbatim>\<open>s.split(/[class]+/)\<close>: a maximal run of the class is one separator. The flag says
  that the previous code unit already belonged to the current separator.
\<close>

fun splitRunsFrom :: "(nat \<Rightarrow> bool) \<Rightarrow> bool \<Rightarrow> jstring \<Rightarrow> jstring list" where
  "splitRunsFrom p b [] = [[]]"
| "splitRunsFrom p b (c # cs) =
     (if p c then (if b then splitRunsFrom p True cs else [] # splitRunsFrom p True cs)
      else (case splitRunsFrom p False cs of [] \<Rightarrow> [[c]] | t # ts \<Rightarrow> (c # t) # ts))"

definition splitRuns :: "(nat \<Rightarrow> bool) \<Rightarrow> jstring \<Rightarrow> jstring list" where
  "splitRuns p s = splitRunsFrom p False s"

text \<open>\<^verbatim>\<open>s.split(/\s+/)\<close>.\<close>

definition splitWhitespace :: "jstring \<Rightarrow> jstring list" where
  "splitWhitespace s = splitRuns isSpace s"

text \<open>
  \<^verbatim>\<open>s.split(/\r?\n/)\<close>: a line feed is a separator and takes a carriage return right
  before it into the separator; a carriage return elsewhere is ordinary text.
\<close>

fun splitLines :: "jstring \<Rightarrow> jstring list" where
  "splitLines [] = [[]]"
| "splitLines (c # cs) =
     (if c = 0xA then [] # splitLines cs
      else if c = 0xD \<and> take 1 cs = [0xA] then splitLines cs
      else (case splitLines cs of [] \<Rightarrow> [[c]] | t # ts \<Rightarrow> (c # t) # ts))"

text \<open>\<^verbatim>\<open>s.startsWith(p)\<close>, and the first occurrence of a substring with what is before and after it.\<close>

fun startsWith :: "jstring \<Rightarrow> jstring \<Rightarrow> bool" where
  "startsWith s [] = True"
| "startsWith [] (p # ps) = False"
| "startsWith (c # cs) (p # ps) = (c = p \<and> startsWith cs ps)"

fun findSub :: "jstring \<Rightarrow> jstring \<Rightarrow> (jstring \<times> jstring) option" where
  "findSub [] x = (if x = [] then Some ([], []) else None)"
| "findSub (c # cs) x =
     (if startsWith (c # cs) x then Some ([], drop (length x) (c # cs))
      else map_option (\<lambda>(b, a). (c # b, a)) (findSub cs x))"

definition includesStr :: "jstring \<Rightarrow> jstring \<Rightarrow> bool" where
  "includesStr s x = (findSub s x \<noteq> None)"

text \<open>
  A replacement string is not inserted as it is: \<^verbatim>\<open>replace\<close> expands \<^verbatim>\<open>$$\<close> to a dollar
  sign, \<^verbatim>\<open>$&\<close> to the matched text, \<^verbatim>\<open>$`\<close> to the text before the match and
  \<^verbatim>\<open>$'\<close> to the text after it. The patterns replaced by the services have no capture
  group, so \<^verbatim>\<open>$1\<close> to \<^verbatim>\<open>$99\<close> and \<^verbatim>\<open>$<\<close> stay as they are.
\<close>

fun expandReplacement :: "jstring \<Rightarrow> jstring \<Rightarrow> jstring \<Rightarrow> jstring \<Rightarrow> jstring" where
  "expandReplacement [] m b a = []"
| "expandReplacement [c] m b a = [c]"
| "expandReplacement (c # d # r) m b a =
     (if c = 0x24 \<and> d = 0x24 then 0x24 # expandReplacement r m b a
      else if c = 0x24 \<and> d = 0x26 then m @ expandReplacement r m b a
      else if c = 0x24 \<and> d = 0x60 then b @ expandReplacement r m b a
      else if c = 0x24 \<and> d = 0x27 then a @ expandReplacement r m b a
      else c # expandReplacement (d # r) m b a)"

text \<open>\<^verbatim>\<open>s.replace(pat, repl)\<close> with a string pattern: the first occurrence only.\<close>

definition replaceFirst :: "jstring \<Rightarrow> jstring \<Rightarrow> jstring \<Rightarrow> jstring" where
  "replaceFirst s pat repl =
     (case findSub s pat of
        None \<Rightarrow> s
      | Some (b, a) \<Rightarrow> b @ expandReplacement repl pat b a @ a)"

text \<open>
  \<^verbatim>\<open>s.replace(new RegExp(lit, 'g'), repl)\<close> for a regular expression that matches the
  non-empty literal text \<open>pat\<close>: every occurrence, left to right, without overlap. The
  first argument counts the code units still covered by the last match, the second holds
  the text already passed (for \<^verbatim>\<open>$`\<close>).
\<close>

fun replaceAllFrom :: "nat \<Rightarrow> jstring \<Rightarrow> jstring \<Rightarrow> jstring \<Rightarrow> jstring \<Rightarrow> jstring" where
  "replaceAllFrom k pre [] pat repl = []"
| "replaceAllFrom k pre (c # cs) pat repl =
     (if 0 < k then replaceAllFrom (k - 1) (pre @ [c]) cs pat repl
      else if startsWith (c # cs) pat
        then expandReplacement repl pat pre (drop (length pat) (c # cs))
             @ replaceAllFrom (length pat - 1) (pre @ [c]) cs pat repl
      else c # replaceAllFrom 0 (pre @ [c]) cs pat repl)"

definition replaceAll :: "jstring \<Rightarrow> jstring \<Rightarrow> jstring \<Rightarrow> jstring" where
  "replaceAll s pat repl = replaceAllFrom 0 [] s pat repl"

text \<open>The decimal digits of a number, as a template literal writes it.\<close>

function decimal :: "nat \<Rightarrow> jstring" where
  "decimal n = (if n < 10 then [0x30 + n] else decimal (n div 10) @ [0x30 + n mod 10])"
  by pat_completeness auto
termination
  by (relation "measure id") auto

section \<open>The regular expressions of the pattern rules\<close>

text \<open>
  The rules use anchored patterns built from single code units (compared without regard
  to case, flag \<^verbatim>\<open>i\<close>), classes, greedy \<^verbatim>\<open>*\<close>, \<^verbatim>\<open>+\<close> and \<^verbatim>\<open>?\<close>, the lazy
  \<^verbatim>\<open>+?\<close>, alternatives and groups. A code unit of a class is described by \<open>cls\<close>; the
  letters of the patterns are Basic Latin, Devanagari or Sinhala, so under flag \<^verbatim>\<open>i\<close> a
  Basic Latin letter matches its two cases and nothing else, and the other letters match
  themselves only.
\<close>

datatype cls =
    Lit nat
  | AnyOf "nat list"
  | Space
  | Dot

fun upperAscii :: "nat \<Rightarrow> nat" where
  "upperAscii c = (if 0x61 \<le> c \<and> c \<le> 0x7A then c - 0x20 else c)"

fun inCls :: "cls \<Rightarrow> nat \<Rightarrow> bool" where
  "inCls (Lit l) c = (upperAscii c = upperAscii l)"
| "inCls (AnyOf ls) c = (c \<in> set ls)"
| "inCls Space c = isSpace c"
| "inCls Dot c = (c \<notin> {0xA, 0xD, 0x2028, 0x2029})"

datatype rx =
    One cls
  | Star cls
  | Plus cls
  | LazyPlus cls
  | Opt rx
  | Alt "rx list"
  | Seq "rx list"
  | Cap rx

text \<open>
  The remainders after a greedy run of a class, longest run first, and after a lazy run,
  shortest first: the order in which a backtracking matcher tries them.
\<close>

fun greedyRests :: "cls \<Rightarrow> jstring \<Rightarrow> jstring list" where
  "greedyRests k [] = [[]]"
| "greedyRests k (c # cs) = (if inCls k c then greedyRests k cs @ [c # cs] else [c # cs])"

fun lazyRests :: "cls \<Rightarrow> jstring \<Rightarrow> jstring list" where
  "lazyRests k [] = [[]]"
| "lazyRests k (c # cs) = (if inCls k c then (c # cs) # lazyRests k cs else [c # cs])"

text \<open>
  \<open>run r s\<close> lists every way \<open>r\<close> matches a prefix of \<open>s\<close>, in the matcher's order of
  preference: the text captured by the groups closed so far, and the rest of the input.
\<close>

fun run :: "rx \<Rightarrow> jstring \<Rightarrow> (jstring list \<times> jstring) list"
  and runSeq :: "rx list \<Rightarrow> jstring \<Rightarrow> (jstring list \<times> jstring) list"
  and runAlt :: "rx list \<Rightarrow> jstring \<Rightarrow> (jstring list \<times> jstring) list"
where
  "run (One k) s = (case s of [] \<Rightarrow> [] | c # cs \<Rightarrow> (if inCls k c then [([], cs)] else []))"
| "run (Star k) s = map (Pair []) (greedyRests k s)"
| "run (Plus k) s =
     (case s of [] \<Rightarrow> [] | c # cs \<Rightarrow> (if inCls k c then map (Pair []) (greedyRests k cs) else []))"
| "run (LazyPlus k) s =
     (case s of [] \<Rightarrow> [] | c # cs \<Rightarrow> (if inCls k c then map (Pair []) (lazyRests k cs) else []))"
| "run (Opt r) s = run r s @ [([], s)]"
| "run (Alt rs) s = runAlt rs s"
| "run (Seq rs) s = runSeq rs s"
| "run (Cap r) s = map (\<lambda>(gs, rest). (take (length s - length rest) s # gs, rest)) (run r s)"
| "runSeq [] s = [([], s)]"
| "runSeq (r # rs) s =
     concat (map (\<lambda>(gs, rest). map (\<lambda>(gs', rest'). (gs @ gs', rest')) (runSeq rs rest)) (run r s))"
| "runAlt [] s = []"
| "runAlt (r # rs) s = run r s @ runAlt rs s"

text \<open>
  \<^verbatim>\<open>s.match(/^...$/i)\<close>: the pattern is tried at the start only and must reach the end
  of the input; the first way that does gives the groups \<^verbatim>\<open>m[1]\<close>, \<^verbatim>\<open>m[2]\<close>, ...
\<close>

definition matchAnchored :: "rx list \<Rightarrow> jstring \<Rightarrow> jstring list option" where
  "matchAnchored rs s =
     (case filter (\<lambda>(gs, rest). rest = []) (runSeq rs s) of
        [] \<Rightarrow> None
      | (gs, rest) # more \<Rightarrow> Some gs)"

text \<open>A word of a pattern, one code unit after the other.\<close>

definition word :: "jstring \<Rightarrow> rx" where
  "word w = Seq (map (\<lambda>c. One (Lit c)) w)"

section \<open>Values, plain objects and the host\<close>

text \<open>
  The services keep their tables in plain objects and read them as \<^verbatim>\<open>table[key]\<close>. Such a
  read finds the table's own entry, and for a key the table does not have it goes on to
  \<^verbatim>\<open>Object.prototype\<close>, whose members (functions, and the prototype itself under
  \<^verbatim>\<open>__proto__\<close>) are all truthy and are not strings. A value read from a table is
  therefore a string, an inherited member, or \<^verbatim>\<open>undefined\<close>.
\<close>

datatype jsval =
    Str jstring
  | Inherited jstring
  | Undefined

definition prototypeMembers :: "jstring list" where
  "prototypeMembers =
     [ascii ''constructor'', ascii ''__defineGetter__'', ascii ''__defineSetter__'',
      ascii ''hasOwnProperty'', ascii ''__lookupGetter__'', ascii ''__lookupSetter__'',
      ascii ''isPrototypeOf'', ascii ''propertyIsEnumerable'', ascii ''toString'',
      ascii ''valueOf'', ascii ''__proto__'', ascii ''toLocaleString'']"

text \<open>
  An object literal that writes a key twice keeps the key at its first place with the value
  written last; \<^verbatim>\<open>Object.entries\<close> lists the entries in that order (no table of the
  services has a key that is an array index, which would come first).
\<close>

fun objectLiteral :: "(jstring \<times> 'v) list \<Rightarrow> (jstring \<times> 'v) list" where
  "objectLiteral [] = []"
| "objectLiteral ((k, v) # kvs) =
     (k, case map_of (rev kvs) k of None \<Rightarrow> v | Some v' \<Rightarrow> v')
       # objectLiteral (filter (\<lambda>(k', v'). k' \<noteq> k) kvs)"

text \<open>\<^verbatim>\<open>table[key]\<close> on a table of strings.\<close>

definition getProperty :: "(jstring \<times> jstring) list \<Rightarrow> jstring \<Rightarrow> jsval" where
  "getProperty table key =
     (case map_of table key of
        Some v \<Rightarrow> Str v
      | None \<Rightarrow> (if key \<in> set prototypeMembers then Inherited key else Undefined))"

text \<open>The test \<^verbatim>\<open>if (v)\<close>: the empty string and \<^verbatim>\<open>undefined\<close> are falsy.\<close>

fun truthy :: "jsval \<Rightarrow> bool" where
  "truthy (Str s) = (s \<noteq> [])"
| "truthy (Inherited k) = True"
| "truthy Undefined = False"

text \<open>
  What the services take from the JavaScript engine and the Unicode tables behind it:
  \<^verbatim>\<open>String.prototype.toLowerCase\<close>, the code points of the general categories Letter and
  Number (\<^verbatim>\<open>\p{L}\<close>, \<^verbatim>\<open>\p{N}\<close>), and the text an inherited member turns into when it is
  joined into a string.
\<close>

record host =
  toLowerCase :: "jstring \<Rightarrow> jstring"
  letterOrNumber :: "nat \<Rightarrow> bool"
  memberText :: "jstring \<Rightarrow> jstring"

text \<open>String conversion, as \<^verbatim>\<open>Array.prototype.join\<close> and a template literal do it.\<close>

fun toStr :: "host \<Rightarrow> jsval \<Rightarrow> jstring" where
  "toStr h (Str s) = s"
| "toStr h (Inherited k) = memberText h k"
| "toStr h Undefined = ascii ''undefined''"

text \<open>\<^verbatim>\<open>join\<close> on an array of values: \<^verbatim>\<open>undefined\<close> is joined as the empty string.\<close>

fun joinStr :: "host \<Rightarrow> jsval \<Rightarrow> jstring" where
  "joinStr h Undefined = []"
| "joinStr h v = toStr h v"

text \<open>
  \<^verbatim>\<open>s.replace(/[^\p{L}\p{N}]/gu, '')\<close>: with flag \<^verbatim>\<open>u\<close> the text is read by code point,
  a surrogate pair being one code point.
\<close>

definition isHighSurrogate :: "nat \<Rightarrow> bool" where
  "isHighSurrogate c \<longleftrightarrow> 0xD800 \<le> c \<and> c \<le> 0xDBFF"

definition isLowSurrogate :: "nat \<Rightarrow> bool" where
  "isLowSurrogate c \<longleftrightarrow> 0xDC00 \<le> c \<and> c \<le> 0xDFFF"

fun keepLettersAndNumbers :: "host \<Rightarrow> jstring \<Rightarrow> jstring" where
  "keepLettersAndNumbers h [] = []"
| "keepLettersAndNumbers h [c] = (if letterOrNumber h c then [c] else [])"
| "keepLettersAndNumbers h (c # d # r) =
     (if isHighSurrogate c \<and> isLowSurrogate d
      then (if letterOrNumber h (0x10000 + (c - 0xD800) * 0x400 + (d - 0xDC00)) then [c, d] else [])
           @ keepLettersAndNumbers h r
      else (if letterOrNumber h c then [c] else []) @ keepLettersAndNumbers h (d # r))"

text \<open>
  A host for evaluating the services on text of the Basic Latin block: it lowers
  \<^verbatim>\<open>A\<close> to \<^verbatim>\<open>Z\<close>, counts the Basic Latin letters and digits, and writes a native function
  the way V8 does. Every engine agrees with it on such text.
\<close>

definition lowerAscii :: "nat \<Rightarrow> nat" where
  "lowerAscii c = (if 0x41 \<le> c \<and> c \<le> 0x5A then c + 0x20 else c)"

definition latinHost :: host where
  "latinHost = \<lparr>
     toLowerCase = map lowerAscii,
     letterOrNumber = (\<lambda>c. (0x30 \<le> c \<and> c \<le> 0x39) \<or> (0x41 \<le> c \<and> c \<le> 0x5A) \<or> (0x61 \<le> c \<and> c \<le> 0x7A)),
     memberText = (\<lambda>k. if k = ascii ''__proto__'' then ascii ''[object Object]''
                        else ascii ''function '' @ (if k = ascii ''constructor'' then ascii ''Object'' else k)
                             @ ascii ''() { [native code] }'') \<rparr>"

section \<open>The fallback translation service: its tables\<close>

text \<open>
  The lexicon store \<^verbatim>\<open>translations\<close> of \<^verbatim>\<open>FallbackTranslationService\<close>, table by table
  in the order of the source, every entry as it is written there. The store writes the
  keys \<^verbatim>\<open>es-en\<close>, \<^verbatim>\<open>en-es\<close>, \<^verbatim>\<open>en-pt\<close>, \<^verbatim>\<open>pt-en\<close>, \<^verbatim>\<open>en-fr\<close> and
  \<^verbatim>\<open>fr-en\<close> twice. No table repeats a key of its own.
\<close>

type_synonym lexicon = "(jstring \<times> jstring) list"

text \<open>The \<^verbatim>\<open>'en-hi'\<close> table, 92 entries as written.\<close>

definition lex_en_hi :: "lexicon" where
  "lex_en_hi = [
    (ascii ''hello'', [0x928, 0x92E, 0x938, 0x94D, 0x924, 0x947]),
    (ascii ''hi'', [0x939, 0x948, 0x932, 0x94B]),
    (ascii ''goodbye'', [0x905, 0x932, 0x935, 0x93F, 0x926, 0x93E]),
    (ascii ''bye'', [0x92C, 0x93E, 0x92F]),
    (ascii ''thank you'', [0x927, 0x928, 0x94D, 0x92F, 0x935, 0x93E, 0x926]),
    (ascii ''thanks'', [0x927, 0x928, 0x94D, 0x92F, 0x935, 0x93E, 0x926]),
    (ascii ''sorry'', [0x92E, 0x93E, 0x92B, 0x20, 0x915, 0x930, 0x947, 0x902]),
    (ascii ''please'', [0x915, 0x943, 0x92A, 0x92F, 0x93E]),
    (ascii ''yes'', [0x939, 0x93E, 0x901]), (ascii ''no'', [0x928, 0x939, 0x940, 0x902]),
    (ascii ''ok'', [0x920, 0x940, 0x915, 0x20, 0x939, 0x948]),
    (ascii ''okay'', [0x920, 0x940, 0x915, 0x20, 0x939, 0x948]),
    (ascii ''good'', [0x905, 0x91A, 0x94D, 0x91B, 0x93E]),
    (ascii ''bad'', [0x92C, 0x941, 0x930, 0x93E]),
    (ascii ''water'', [0x92A, 0x93E, 0x928, 0x940]),
    (ascii ''food'', [0x916, 0x93E, 0x928, 0x93E]),
    (ascii ''eat'', [0x916, 0x93E, 0x928, 0x93E]), (ascii ''home'', [0x918, 0x930]),
    (ascii ''house'', [0x918, 0x930]), (ascii ''school'', [0x938, 0x94D, 0x915, 0x942, 0x932]),
    (ascii ''work'', [0x915, 0x93E, 0x92E]),
    (ascii ''job'', [0x928, 0x94C, 0x915, 0x930, 0x940]),
    (ascii ''time'', [0x938, 0x92E, 0x92F]), (ascii ''money'', [0x92A, 0x948, 0x938, 0x93E]),
    (ascii ''friend'', [0x926, 0x94B, 0x938, 0x94D, 0x924]),
    (ascii ''family'', [0x92A, 0x930, 0x93F, 0x935, 0x93E, 0x930]),
    (ascii ''love'', [0x92A, 0x94D, 0x930, 0x947, 0x92E]),
    (ascii ''like'', [0x92A, 0x938, 0x902, 0x926]),
    (ascii ''want'', [0x91A, 0x93E, 0x939, 0x924, 0x947, 0x20, 0x939, 0x948, 0x902]),
    (ascii ''need'', [0x91C, 0x930, 0x942, 0x930, 0x924]), (ascii ''come'', [0x906, 0x913]),
    (ascii ''go'', [0x91C, 0x93E, 0x913]), (ascii ''see'', [0x926, 0x947, 0x916, 0x94B]),
    (ascii ''look'', [0x926, 0x947, 0x916, 0x94B]), (ascii ''give'', [0x926, 0x94B]),
    (ascii ''take'', [0x932, 0x94B]), (ascii ''help'', [0x92E, 0x926, 0x926]),
    (ascii ''stop'', [0x930, 0x941, 0x915, 0x94B]),
    (ascii ''wait'', [0x907, 0x902, 0x924, 0x91C, 0x93C, 0x93E, 0x930, 0x20, 0x915, 0x930, 0x94B]),
    (ascii ''morning'', [0x938, 0x941, 0x92C, 0x939]),
    (ascii ''evening'', [0x936, 0x93E, 0x92E]), (ascii ''night'', [0x930, 0x93E, 0x924]),
    (ascii ''day'', [0x926, 0x93F, 0x928]), (ascii ''today'', [0x906, 0x91C]),
    (ascii ''tomorrow'', [0x915, 0x932]), (ascii ''yesterday'', [0x915, 0x932]),
    (ascii ''now'', [0x905, 0x92D, 0x940]), (ascii ''here'', [0x92F, 0x939, 0x93E, 0x901]),
    (ascii ''there'', [0x935, 0x939, 0x93E, 0x901]),
    (ascii ''where'', [0x915, 0x939, 0x93E, 0x901]),
    (ascii ''what'', [0x915, 0x94D, 0x92F, 0x93E]), (ascii ''who'', [0x915, 0x94C, 0x928]),
    (ascii ''when'', [0x915, 0x92C]), (ascii ''why'', [0x915, 0x94D, 0x92F, 0x94B, 0x902]),
    (ascii ''how'', [0x915, 0x948, 0x938, 0x947]), (ascii ''i'', [0x92E, 0x948, 0x902]),
    (ascii ''you'', [0x906, 0x92A]), (ascii ''he'', [0x935, 0x939]),
    (ascii ''she'', [0x935, 0x939]), (ascii ''we'', [0x939, 0x92E]),
    (ascii ''they'', [0x935, 0x947]), (ascii ''my'', [0x92E, 0x947, 0x930, 0x93E]),
    (ascii ''your'', [0x906, 0x92A, 0x915, 0x93E]),
    (ascii ''his'', [0x909, 0x938, 0x915, 0x93E]),
    (ascii ''her'', [0x909, 0x938, 0x915, 0x93E]), (ascii ''am'', [0x939, 0x942, 0x901]),
    (ascii ''is'', [0x939, 0x948]), (ascii ''are'', [0x939, 0x948, 0x902]),
    (ascii ''was'', [0x925, 0x93E]), (ascii ''were'', [0x925, 0x947]),
    (ascii ''will'', [0x939, 0x94B, 0x917, 0x93E]),
    (ascii ''can'', [0x938, 0x915, 0x924, 0x947, 0x20, 0x939, 0x948, 0x902]),
    (ascii ''could'', [0x938, 0x915, 0x924, 0x947, 0x20, 0x925, 0x947]),
    (ascii ''should'', [0x91A, 0x93E, 0x939, 0x93F, 0x90F]), (ascii ''and'', [0x914, 0x930]),
    (ascii ''or'', [0x92F, 0x93E]), (ascii ''but'', [0x932, 0x947, 0x915, 0x93F, 0x928]),
    (ascii ''if'', [0x905, 0x917, 0x930]), (ascii ''then'', [0x924, 0x94B]),
    (ascii ''how are you'', [0x906, 0x92A, 0x20, 0x915, 0x948, 0x938, 0x947, 0x20, 0x939, 0x948, 0x902]),
    (ascii ''how are you?'', [0x906, 0x92A, 0x20, 0x915, 0x948, 0x938, 0x947, 0x20, 0x939, 0x948, 0x902, 0x3F]),
    (ascii ''what is your name'', [0x906, 0x92A, 0x915, 0x93E, 0x20, 0x928, 0x93E, 0x92E, 0x20, 0x915, 0x94D, 0x92F, 0x93E, 0x20, 0x939, 0x948]),
    (ascii ''my name is'', [0x92E, 0x947, 0x930, 0x93E, 0x20, 0x928, 0x93E, 0x92E, 0x20, 0x939, 0x948]),
    (ascii ''nice to meet you'', [0x906, 0x92A, 0x938, 0x947, 0x20, 0x92E, 0x93F, 0x932, 0x915, 0x930, 0x20, 0x916, 0x941, 0x936, 0x940, 0x20, 0x939, 0x941, 0x908]),
    (ascii ''see you later'', [0x92C, 0x93E, 0x926, 0x20, 0x92E, 0x947, 0x902, 0x20, 0x92E, 0x93F, 0x932, 0x924, 0x947, 0x20, 0x939, 0x948, 0x902]),
    (ascii ''good morning'', [0x936, 0x941, 0x92D, 0x20, 0x92A, 0x94D, 0x930, 0x92D, 0x93E, 0x924]),
    (ascii ''good evening'', [0x936, 0x941, 0x92D, 0x20, 0x938, 0x902, 0x927, 0x94D, 0x92F, 0x93E]),
    (ascii ''good night'', [0x936, 0x941, 0x92D, 0x20, 0x930, 0x93E, 0x924, 0x94D, 0x930, 0x93F]),
    (ascii ''excuse me'', [0x92E, 0x93E, 0x92B, 0x20, 0x915, 0x930, 0x93F, 0x90F]),
    (ascii ''i love you'', [0x92E, 0x948, 0x902, 0x20, 0x906, 0x92A, 0x938, 0x947, 0x20, 0x92A, 0x94D, 0x930, 0x947, 0x92E, 0x20, 0x915, 0x930, 0x924, 0x93E, 0x20, 0x939, 0x942, 0x901]),
    (ascii ''i am fine'', [0x92E, 0x948, 0x902, 0x20, 0x920, 0x940, 0x915, 0x20, 0x939, 0x942, 0x901]),
    (ascii ''i am good'', [0x92E, 0x948, 0x902, 0x20, 0x905, 0x91A, 0x94D, 0x91B, 0x93E, 0x20, 0x939, 0x942, 0x901])
  ]"


text \<open>The \<^verbatim>\<open>'hi-en'\<close> table, 47 entries as written.\<close>

definition lex_hi_en :: "lexicon" where
  "lex_hi_en = [
    ([0x928, 0x92E, 0x938, 0x94D, 0x924, 0x947], ascii ''hello''),
    ([0x939, 0x948, 0x932, 0x94B], ascii ''hi''),
    ([0x905, 0x932, 0x935, 0x93F, 0x926, 0x93E], ascii ''goodbye''),
    ([0x92C, 0x93E, 0x92F], ascii ''bye''),
    ([0x927, 0x928, 0x94D, 0x92F, 0x935, 0x93E, 0x926], ascii ''thank you''),
    ([0x92E, 0x93E, 0x92B, 0x20, 0x915, 0x930, 0x947, 0x902], ascii ''sorry''),
    ([0x915, 0x943, 0x92A, 0x92F, 0x93E], ascii ''please''),
    ([0x939, 0x93E, 0x901], ascii ''yes''), ([0x928, 0x939, 0x940, 0x902], ascii ''no''),
    ([0x920, 0x940, 0x915, 0x20, 0x939, 0x948], ascii ''okay''),
    ([0x905, 0x91A, 0x94D, 0x91B, 0x93E], ascii ''good''),
    ([0x92C, 0x941, 0x930, 0x93E], ascii ''bad''),
    ([0x92A, 0x93E, 0x928, 0x940], ascii ''water''),
    ([0x916, 0x93E, 0x928, 0x93E], ascii ''food''), ([0x918, 0x930], ascii ''home''),
    ([0x938, 0x94D, 0x915, 0x942, 0x932], ascii ''school''),
    ([0x915, 0x93E, 0x92E], ascii ''work''), ([0x938, 0x92E, 0x92F], ascii ''time''),
    ([0x92A, 0x948, 0x938, 0x93E], ascii ''money''),
    ([0x926, 0x94B, 0x938, 0x94D, 0x924], ascii ''friend''),
    ([0x92A, 0x930, 0x93F, 0x935, 0x93E, 0x930], ascii ''family''),
    ([0x92A, 0x94D, 0x930, 0x947, 0x92E], ascii ''love''),
    ([0x92A, 0x938, 0x902, 0x926], ascii ''like''),
    ([0x91A, 0x93E, 0x939, 0x924, 0x947, 0x20, 0x939, 0x948, 0x902], ascii ''want''),
    ([0x91C, 0x930, 0x942, 0x930, 0x924], ascii ''need''), ([0x906, 0x913], ascii ''come''),
    ([0x91C, 0x93E, 0x913], ascii ''go''), ([0x926, 0x947, 0x916, 0x94B], ascii ''see''),
    ([0x926, 0x94B], ascii ''give''), ([0x932, 0x94B], ascii ''take''),
    ([0x92E, 0x926, 0x926], ascii ''help''), ([0x930, 0x941, 0x915, 0x94B], ascii ''stop''),
    ([0x906, 0x91C], ascii ''today''), ([0x915, 0x932], ascii ''tomorrow''),
    ([0x92F, 0x939, 0x93E, 0x901], ascii ''here''),
    ([0x935, 0x939, 0x93E, 0x901], ascii ''there''),
    ([0x915, 0x94D, 0x92F, 0x93E], ascii ''what''), ([0x915, 0x94C, 0x928], ascii ''who''),
    ([0x92E, 0x948, 0x902], ascii ''i''), ([0x906, 0x92A], ascii ''you''),
    ([0x935, 0x939], ascii ''he''), ([0x939, 0x92E], ascii ''we''),
    ([0x935, 0x947], ascii ''they''), ([0x914, 0x930], ascii ''and''),
    ([0x92F, 0x93E], ascii ''or''), ([0x932, 0x947, 0x915, 0x93F, 0x928], ascii ''but''),
    ([0x905, 0x917, 0x930], ascii ''if'')
  ]"


text \<open>The \<^verbatim>\<open>'en-es'\<close> table, 40 entries as written.\<close>

definition lex_en_es :: "lexicon" where
  "lex_en_es = [
    (ascii ''hello'', ascii ''hola''), (ascii ''hi'', ascii ''hola''),
    (ascii ''goodbye'', [0x61, 0x64, 0x69, 0xF3, 0x73]),
    (ascii ''bye'', [0x61, 0x64, 0x69, 0xF3, 0x73]), (ascii ''thank you'', ascii ''gracias''),
    (ascii ''thanks'', ascii ''gracias''), (ascii ''sorry'', ascii ''lo siento''),
    (ascii ''please'', ascii ''por favor''), (ascii ''yes'', [0x73, 0xED]),
    (ascii ''no'', ascii ''no''),
    (ascii ''okay'', [0x65, 0x73, 0x74, 0xE1, 0x20, 0x62, 0x69, 0x65, 0x6E]),
    (ascii ''good'', ascii ''bueno''), (ascii ''bad'', ascii ''malo''),
    (ascii ''water'', ascii ''agua''), (ascii ''food'', ascii ''comida''),
    (ascii ''home'', ascii ''casa''), (ascii ''school'', ascii ''escuela''),
    (ascii ''work'', ascii ''trabajo''), (ascii ''time'', ascii ''tiempo''),
    (ascii ''money'', ascii ''dinero''), (ascii ''friend'', ascii ''amigo''),
    (ascii ''family'', ascii ''familia''), (ascii ''love'', ascii ''amor''),
    (ascii ''i'', ascii ''yo''), (ascii ''you'', [0x74, 0xFA]), (ascii ''he'', [0xE9, 0x6C]),
    (ascii ''she'', ascii ''ella''), (ascii ''we'', ascii ''nosotros''),
    (ascii ''what'', [0x71, 0x75, 0xE9]), (ascii ''where'', [0x64, 0xF3, 0x6E, 0x64, 0x65]),
    (ascii ''when'', [0x63, 0x75, 0xE1, 0x6E, 0x64, 0x6F]),
    (ascii ''how'', [0x63, 0xF3, 0x6D, 0x6F]), (ascii ''and'', ascii ''y''),
    (ascii ''or'', ascii ''o''), (ascii ''but'', ascii ''pero''), (ascii ''if'', ascii ''si''),
    (ascii ''how are you'', [0x63, 0xF3, 0x6D, 0x6F, 0x20, 0x65, 0x73, 0x74, 0xE1, 0x73]),
    (ascii ''my name is'', ascii ''mi nombre es''),
    (ascii ''good morning'', [0x62, 0x75, 0x65, 0x6E, 0x6F, 0x73, 0x20, 0x64, 0xED, 0x61, 0x73]),
    (ascii ''good night'', ascii ''buenas noches'')
  ]"


text \<open>The \<^verbatim>\<open>'es-en'\<close> table, 26 entries as written.\<close>

definition lex_es_en :: "lexicon" where
  "lex_es_en = [
    (ascii ''hola'', ascii ''hello''), ([0x61, 0x64, 0x69, 0xF3, 0x73], ascii ''goodbye''),
    (ascii ''gracias'', ascii ''thank you''), (ascii ''lo siento'', ascii ''sorry''),
    (ascii ''por favor'', ascii ''please''), ([0x73, 0xED], ascii ''yes''),
    (ascii ''no'', ascii ''no''), (ascii ''bueno'', ascii ''good''),
    (ascii ''malo'', ascii ''bad''), (ascii ''agua'', ascii ''water''),
    (ascii ''comida'', ascii ''food''), (ascii ''casa'', ascii ''home''),
    (ascii ''escuela'', ascii ''school''), (ascii ''trabajo'', ascii ''work''),
    (ascii ''tiempo'', ascii ''time''), (ascii ''dinero'', ascii ''money''),
    (ascii ''amigo'', ascii ''friend''), (ascii ''familia'', ascii ''family''),
    (ascii ''amor'', ascii ''love''), (ascii ''yo'', ascii ''i''),
    ([0x74, 0xFA], ascii ''you''), ([0xE9, 0x6C], ascii ''he''),
    (ascii ''ella'', ascii ''she''), (ascii ''nosotros'', ascii ''we''),
    ([0x71, 0x75, 0xE9], ascii ''what''), ([0x64, 0xF3, 0x6E, 0x64, 0x65], ascii ''where'')
  ]"


text \<open>The \<^verbatim>\<open>'en-fr'\<close> table, 14 entries as written.\<close>

definition lex_en_fr :: "lexicon" where
  "lex_en_fr = [
    (ascii ''hello'', ascii ''bonjour''), (ascii ''hi'', ascii ''salut''),
    (ascii ''goodbye'', ascii ''au revoir''), (ascii ''thank you'', ascii ''merci''),
    (ascii ''sorry'', [0x64, 0xE9, 0x73, 0x6F, 0x6C, 0xE9]),
    (ascii ''please'', [0x73, 0x27, 0x69, 0x6C, 0x20, 0x76, 0x6F, 0x75, 0x73, 0x20, 0x70, 0x6C, 0x61, 0xEE, 0x74]),
    (ascii ''yes'', ascii ''oui''), (ascii ''no'', ascii ''non''),
    (ascii ''water'', ascii ''eau''), (ascii ''food'', ascii ''nourriture''),
    (ascii ''home'', ascii ''maison''), (ascii ''love'', ascii ''amour''),
    (ascii ''good morning'', ascii ''bonjour''), (ascii ''good night'', ascii ''bonne nuit'')
  ]"


text \<open>The \<^verbatim>\<open>'fr-en'\<close> table, 9 entries as written.\<close>

definition lex_fr_en :: "lexicon" where
  "lex_fr_en = [
    (ascii ''bonjour'', ascii ''hello''), (ascii ''salut'', ascii ''hi''),
    (ascii ''au revoir'', ascii ''goodbye''), (ascii ''merci'', ascii ''thank you''),
    ([0x64, 0xE9, 0x73, 0x6F, 0x6C, 0xE9], ascii ''sorry''), (ascii ''oui'', ascii ''yes''),
    (ascii ''non'', ascii ''no''), (ascii ''eau'', ascii ''water''),
    (ascii ''amour'', ascii ''love'')
  ]"


text \<open>The \<^verbatim>\<open>'en-pt'\<close> table, 9 entries as written.\<close>

definition lex_en_pt :: "lexicon" where
  "lex_en_pt = [
    (ascii ''hello'', [0x6F, 0x6C, 0xE1]), (ascii ''goodbye'', ascii ''tchau''),
    (ascii ''thank you'', ascii ''obrigado''), (ascii ''sorry'', ascii ''desculpa''),
    (ascii ''yes'', ascii ''sim''), (ascii ''no'', [0x6E, 0xE3, 0x6F]),
    (ascii ''water'', [0xE1, 0x67, 0x75, 0x61]), (ascii ''love'', ascii ''amor''),
    (ascii ''good morning'', ascii ''bom dia'')
  ]"


text \<open>The \<^verbatim>\<open>'pt-en'\<close> table, 7 entries as written.\<close>

definition lex_pt_en :: "lexicon" where
  "lex_pt_en = [
    ([0x6F, 0x6C, 0xE1], ascii ''hello''), (ascii ''tchau'', ascii ''goodbye''),
    (ascii ''obrigado'', ascii ''thank you''), (ascii ''desculpa'', ascii ''sorry''),
    (ascii ''sim'', ascii ''yes''), ([0x6E, 0xE3, 0x6F], ascii ''no''),
    ([0xE1, 0x67, 0x75, 0x61], ascii ''water'')
  ]"


text \<open>The \<^verbatim>\<open>'en-ne'\<close> table, 25 entries as written.\<close>

definition lex_en_ne :: "lexicon" where
  "lex_en_ne = [
    (ascii ''hello'', [0x928, 0x92E, 0x938, 0x94D, 0x924, 0x947]),
    (ascii ''hi'', [0x928, 0x92E, 0x938, 0x94D, 0x924, 0x947]),
    (ascii ''goodbye'', [0x92C, 0x93F, 0x926, 0x93E, 0x908]),
    (ascii ''thank you'', [0x927, 0x928, 0x94D, 0x92F, 0x935, 0x93E, 0x926]),
    (ascii ''thanks'', [0x927, 0x928, 0x94D, 0x92F, 0x935, 0x93E, 0x926]),
    (ascii ''sorry'', [0x92E, 0x93E, 0x92B, 0x20, 0x917, 0x930, 0x94D, 0x928, 0x941, 0x939, 0x94B, 0x938, 0x94D]),
    (ascii ''please'', [0x915, 0x943, 0x92A, 0x92F, 0x93E]), (ascii ''yes'', [0x939, 0x94B]),
    (ascii ''no'', [0x939, 0x94B, 0x907, 0x928]),
    (ascii ''water'', [0x92A, 0x93E, 0x928, 0x940]),
    (ascii ''food'', [0x916, 0x93E, 0x928, 0x93E]), (ascii ''home'', [0x918, 0x930]),
    (ascii ''house'', [0x918, 0x930]),
    (ascii ''school'', [0x935, 0x93F, 0x926, 0x94D, 0x92F, 0x93E, 0x932, 0x92F]),
    (ascii ''work'', [0x915, 0x93E, 0x92E]), (ascii ''job'', [0x915, 0x93E, 0x92E]),
    (ascii ''time'', [0x938, 0x92E, 0x92F]), (ascii ''money'', [0x92A, 0x948, 0x938, 0x93E]),
    (ascii ''friend'', [0x92E, 0x93F, 0x924, 0x94D, 0x930]),
    (ascii ''family'', [0x92A, 0x930, 0x93F, 0x935, 0x93E, 0x930]),
    (ascii ''love'', [0x92A, 0x94D, 0x930, 0x947, 0x92E]),
    (ascii ''happiness'', [0x916, 0x941, 0x936, 0x940]),
    (ascii ''sadness'', [0x926, 0x941, 0x903, 0x916]),
    (ascii ''health'', [0x938, 0x94D, 0x935, 0x93E, 0x938, 0x94D, 0x925, 0x94D, 0x92F]),
    (ascii ''education'', [0x936, 0x93F, 0x915, 0x94D, 0x937, 0x93E])
  ]"


text \<open>The \<^verbatim>\<open>'ne-en'\<close> table, 21 entries as written.\<close>

definition lex_ne_en :: "lexicon" where
  "lex_ne_en = [
    ([0x928, 0x92E, 0x938, 0x94D, 0x924, 0x947], ascii ''Hello''),
    ([0x92C, 0x93F, 0x926, 0x93E, 0x908], ascii ''Goodbye''),
    ([0x927, 0x928, 0x94D, 0x92F, 0x935, 0x93E, 0x926], ascii ''Thank you''),
    ([0x92E, 0x93E, 0x92B, 0x20, 0x917, 0x930, 0x94D, 0x928, 0x941, 0x939, 0x94B, 0x938, 0x94D], ascii ''Sorry''),
    ([0x915, 0x943, 0x92A, 0x92F, 0x93E], ascii ''Please''), ([0x939, 0x94B], ascii ''Yes''),
    ([0x939, 0x94B, 0x907, 0x928], ascii ''No''),
    ([0x92A, 0x93E, 0x928, 0x940], ascii ''Water''),
    ([0x916, 0x93E, 0x928, 0x93E], ascii ''Food''), ([0x918, 0x930], ascii ''Home''),
    ([0x935, 0x93F, 0x926, 0x94D, 0x92F, 0x93E, 0x932, 0x92F], ascii ''School''),
    ([0x915, 0x93E, 0x92E], ascii ''Work''), ([0x938, 0x92E, 0x92F], ascii ''Time''),
    ([0x92A, 0x948, 0x938, 0x93E], ascii ''Money''),
    ([0x92E, 0x93F, 0x924, 0x94D, 0x930], ascii ''Friend''),
    ([0x92A, 0x930, 0x93F, 0x935, 0x93E, 0x930], ascii ''Family''),
    ([0x92A, 0x94D, 0x930, 0x947, 0x92E], ascii ''Love''),
    ([0x916, 0x941, 0x936, 0x940], ascii ''Happiness''),
    ([0x926, 0x941, 0x903, 0x916], ascii ''Sadness''),
    ([0x938, 0x94D, 0x935, 0x93E, 0x938, 0x94D, 0x925, 0x94D, 0x92F], ascii ''Health''),
    ([0x936, 0x93F, 0x915, 0x94D, 0x937, 0x93E], ascii ''Education'')
  ]"


text \<open>The \<^verbatim>\<open>'en-si'\<close> table, 31 entries as written.\<close>

definition lex_en_si :: "lexicon" where
  "lex_en_si = [
    (ascii ''hello'', [0xD86, 0xDBA, 0xDD4, 0xDB6, 0xDDD, 0xDC0, 0xDB1, 0xDCA]),
    (ascii ''hi'', [0xD86, 0xDBA, 0xDD4, 0xDB6, 0xDDD, 0xDC0, 0xDB1, 0xDCA]),
    (ascii ''goodbye'', [0xD9C, 0xDD2, 0xDC4, 0xDD2, 0xDB1, 0xDCA, 0x20, 0xD91, 0xDB1, 0xDCA, 0xDB1]),
    (ascii ''thank you'', [0xDC3, 0xDCA, 0xDAD, 0xDD6, 0xDAD, 0xDD2, 0xDBA, 0xDD2]),
    (ascii ''thanks'', [0xDC3, 0xDCA, 0xDAD, 0xDD6, 0xDAD, 0xDD2, 0xDBA, 0xDD2]),
    (ascii ''sorry'', [0xDC3, 0xDB8, 0xDCF, 0xDC0, 0xDB1, 0xDCA, 0xDB1]),
    (ascii ''please'', [0xD9A, 0xDBB, 0xDD4, 0xDAB, 0xDCF, 0xD9A, 0xDBB]),
    (ascii ''yes'', [0xD94, 0xDC0, 0xDCA]), (ascii ''no'', [0xDB1, 0xDD0, 0xDC4, 0xDD0]),
    (ascii ''water'', [0xDC0, 0xDAD, 0xDD4, 0xDBB]), (ascii ''food'', [0xD9A, 0xDD1, 0xDB8]),
    (ascii ''home'', [0xD9C, 0xDD9, 0xDAF, 0xDBB]),
    (ascii ''house'', [0xD9C, 0xDD9, 0xDAF, 0xDBB]),
    (ascii ''school'', [0xDB4, 0xDCF, 0xDC3, 0xDBD]), (ascii ''work'', [0xDC0, 0xDD0, 0xDA9]),
    (ascii ''job'', [0xDBB, 0xDD0, 0xD9A, 0xDD2, 0xDBA, 0xDCF, 0xDC0]),
    (ascii ''time'', [0xDC0, 0xDD9, 0xDBD, 0xDCF, 0xDC0]),
    (ascii ''money'', [0xDB4, 0xDD2, 0xDC3, 0xDD4]),
    (ascii ''friend'', [0xDBA, 0xDCF, 0xDC5, 0xDD4, 0xDC0, 0xDCF]),
    (ascii ''family'', [0xDB4, 0xDC0, 0xDD4, 0xDBD]),
    (ascii ''love'', [0xD86, 0xDAF, 0xDBB, 0xDBA]),
    (ascii ''happiness'', [0xDC3, 0xDAD, 0xDD4, 0xDA7]),
    (ascii ''sadness'', [0xDAF, 0xDD4, 0xD9A]),
    (ascii ''health'', [0xDC3, 0xDDE, 0xD9B, 0xDCA, 0x200D, 0xDBA, 0xDBA]),
    (ascii ''education'', [0xD85, 0xDB0, 0xDCA, 0x200D, 0xDBA, 0xDCF, 0xDB4, 0xDB1, 0xDBA]),
    (ascii ''good morning'', [0xDC3, 0xDD4, 0xDB7, 0x20, 0xD8B, 0xDAF, 0xDD1, 0xDC3, 0xDB1, 0xD9A, 0xDCA]),
    (ascii ''good evening'', [0xDC3, 0xDD4, 0xDB7, 0x20, 0xDC3, 0xDB1, 0xDCA, 0xDB0, 0xDCA, 0x200D, 0xDBA, 0xDCF, 0xDC0, 0xD9A, 0xDCA]),
    (ascii ''good night'', [0xDC3, 0xDD4, 0xDB7, 0x20, 0xDBB, 0xDCF, 0xDAD, 0xDCA, 0x200D, 0xDBB, 0xDD2, 0xDBA, 0xD9A, 0xDCA]),
    (ascii ''how are you'', [0xD94, 0xDBA, 0xDCF, 0x20, 0xD9A, 0xDDC, 0xDC4, 0xDDC, 0xDB8, 0xDAF]),
    (ascii ''my name is'', [0xDB8, 0xD9C, 0xDDA, 0x20, 0xDB1, 0xDB8]),
    (ascii ''nice to meet you'', [0xD94, 0xDBA, 0xDCF, 0xDC0, 0x20, 0xDB8, 0xDD4, 0xDAB, 0xD9C, 0xDD0, 0xDC3, 0xDD3, 0xDB8, 0x20, 0xDC3, 0xDAD, 0xDD4, 0xDA7, 0xD9A, 0xDCA])
  ]"


text \<open>The \<^verbatim>\<open>'si-en'\<close> table, 30 entries as written.\<close>

definition lex_si_en :: "lexicon" where
  "lex_si_en = [
    ([0xD86, 0xDBA, 0xDD4, 0xDB6, 0xDDD, 0xDC0, 0xDB1, 0xDCA], ascii ''Hello''),
    ([0xD9C, 0xDD2, 0xDC4, 0xDD2, 0xDB1, 0xDCA, 0x20, 0xD91, 0xDB1, 0xDCA, 0xDB1], ascii ''Goodbye''),
    ([0xDC3, 0xDCA, 0xDAD, 0xDD6, 0xDAD, 0xDD2, 0xDBA, 0xDD2], ascii ''Thank you''),
    ([0xDC3, 0xDB8, 0xDCF, 0xDC0, 0xDB1, 0xDCA, 0xDB1], ascii ''Sorry''),
    ([0xD9A, 0xDBB, 0xDD4, 0xDAB, 0xDCF, 0xD9A, 0xDBB], ascii ''Please''),
    ([0xD94, 0xDC0, 0xDCA], ascii ''Yes''), ([0xDB1, 0xDD0, 0xDC4, 0xDD0], ascii ''No''),
    ([0xDC0, 0xDAD, 0xDD4, 0xDBB], ascii ''Water''), ([0xD9A, 0xDD1, 0xDB8], ascii ''Food''),
    ([0xD9C, 0xDD9, 0xDAF, 0xDBB], ascii ''Home''),
    ([0xDB4, 0xDCF, 0xDC3, 0xDBD], ascii ''School''), ([0xDC0, 0xDD0, 0xDA9], ascii ''Work''),
    ([0xDBB, 0xDD0, 0xD9A, 0xDD2, 0xDBA, 0xDCF, 0xDC0], ascii ''Job''),
    ([0xDC0, 0xDD9, 0xDBD, 0xDCF, 0xDC0], ascii ''Time''),
    ([0xDB4, 0xDD2, 0xDC3, 0xDD4], ascii ''Money''),
    ([0xDBA, 0xDCF, 0xDC5, 0xDD4, 0xDC0, 0xDCF], ascii ''Friend''),
    ([0xDB4, 0xDC0, 0xDD4, 0xDBD], ascii ''Family''),
    ([0xD86, 0xDAF, 0xDBB, 0xDBA], ascii ''Love''),
    ([0xDC3, 0xDAD, 0xDD4, 0xDA7], ascii ''Happiness''),
    ([0xDAF, 0xDD4, 0xD9A], ascii ''Sadness''),
    ([0xDC3, 0xDDE, 0xDB1, 0xDCA, 0x200D, 0xDBA, 0xDBA], ascii ''Health''),
    ([0xD85, 0xDB0, 0xDCA, 0x200D, 0xDBA, 0xDCF, 0xDB4, 0xDB1, 0xDBA], ascii ''Education''),
    ([0xDC3, 0xDD4, 0xDB7, 0x20, 0xD8B, 0xDAF, 0xDD1, 0xDC3, 0xDB1, 0xD9A, 0xDCA], ascii ''Good morning''),
    ([0xDC3, 0xDD4, 0xDB7, 0x20, 0xDC3, 0xDB1, 0xDCA, 0xDB0, 0xDCA, 0x200D, 0xDBA, 0xDCF, 0xDC0, 0xD9A, 0xDCA], ascii ''Good evening''),
    ([0xDC3, 0xDD4, 0xDB7, 0x20, 0xDBB, 0xDCF, 0xDAD, 0xDCA, 0x200D, 0xDBB, 0xDD2, 0xDBA, 0xD9A, 0xDCA], ascii ''Good night''),
    ([0xD94, 0xDBA, 0xDCF, 0x20, 0xD9A, 0xDDC, 0xDC4, 0xDDC, 0xDB8, 0xDAF], ascii ''How are you''),
    ([0xDB8, 0xD9C, 0xDDA, 0x20, 0xDB1, 0xDB8], ascii ''My name is''),
    ([0xDB8, 0xDB8, 0x20, 0xDC3, 0xDD2, 0xD82, 0xDC4, 0xDBD, 0x20, 0xD9A, 0xDAD, 0xDCF, 0x20, 0xD9A, 0xDBB, 0xDB1, 0xDC0, 0xDCF], ascii ''I speak Sinhala''),
    ([0xD94, 0xDBA, 0xDCF, 0xDC0, 0x20, 0xDB8, 0xDD4, 0xDAB, 0xD9C, 0xDD0, 0xDC3, 0xDD3, 0xDB8, 0x20, 0xDC3, 0xDAD, 0xDD4, 0xDA7, 0xD9A, 0xDCA], ascii ''Nice to meet you''),
    ([0xDB8, 0xDDA, 0xD9A, 0x20, 0xD9A, 0xDD3, 0xDBA, 0xDAF], ascii ''How much is this'')
  ]"


text \<open>The \<^verbatim>\<open>'es-en'\<close> table (repeated key, occurrence 2), 16 entries as written.\<close>

definition lex_es_en_2 :: "lexicon" where
  "lex_es_en_2 = [
    (ascii ''hola'', ascii ''hello''), (ascii ''gracias'', ascii ''thank you''),
    (ascii ''lo siento'', ascii ''sorry''), (ascii ''por favor'', ascii ''please''),
    ([0x73, 0xED], ascii ''yes''), (ascii ''no'', ascii ''no''),
    (ascii ''agua'', ascii ''water''), (ascii ''comida'', ascii ''food''),
    (ascii ''casa'', ascii ''home''), (ascii ''escuela'', ascii ''school''),
    (ascii ''trabajo'', ascii ''work''), (ascii ''tiempo'', ascii ''time''),
    (ascii ''dinero'', ascii ''money''), (ascii ''amigo'', ascii ''friend''),
    (ascii ''familia'', ascii ''family''), (ascii ''amor'', ascii ''love'')
  ]"


text \<open>The \<^verbatim>\<open>'en-es'\<close> table (repeated key, occurrence 2), 17 entries as written.\<close>

definition lex_en_es_2 :: "lexicon" where
  "lex_en_es_2 = [
    (ascii ''hello'', ascii ''hola''), (ascii ''hi'', ascii ''hola''),
    (ascii ''thank you'', ascii ''gracias''), (ascii ''sorry'', ascii ''lo siento''),
    (ascii ''please'', ascii ''por favor''), (ascii ''yes'', [0x73, 0xED]),
    (ascii ''no'', ascii ''no''), (ascii ''water'', ascii ''agua''),
    (ascii ''food'', ascii ''comida''), (ascii ''home'', ascii ''casa''),
    (ascii ''school'', ascii ''escuela''), (ascii ''work'', ascii ''trabajo''),
    (ascii ''time'', ascii ''tiempo''), (ascii ''money'', ascii ''dinero''),
    (ascii ''friend'', ascii ''amigo''), (ascii ''family'', ascii ''familia''),
    (ascii ''love'', ascii ''amor'')
  ]"


text \<open>The \<^verbatim>\<open>'en-pt'\<close> table (repeated key, occurrence 2), 25 entries as written.\<close>

definition lex_en_pt_2 :: "lexicon" where
  "lex_en_pt_2 = [
    (ascii ''hello'', [0x6F, 0x6C, 0xE1]), (ascii ''hi'', ascii ''oi''),
    (ascii ''goodbye'', ascii ''tchau''), (ascii ''thank you'', ascii ''obrigado''),
    (ascii ''thanks'', ascii ''obrigado''), (ascii ''sorry'', ascii ''desculpa''),
    (ascii ''please'', ascii ''por favor''), (ascii ''yes'', ascii ''sim''),
    (ascii ''no'', [0x6E, 0xE3, 0x6F]), (ascii ''water'', [0xE1, 0x67, 0x75, 0x61]),
    (ascii ''food'', ascii ''comida''), (ascii ''home'', ascii ''casa''),
    (ascii ''house'', ascii ''casa''), (ascii ''school'', ascii ''escola''),
    (ascii ''work'', ascii ''trabalho''), (ascii ''job'', ascii ''trabalho''),
    (ascii ''time'', ascii ''tempo''), (ascii ''money'', ascii ''dinheiro''),
    (ascii ''friend'', ascii ''amigo''),
    (ascii ''family'', [0x66, 0x61, 0x6D, 0xED, 0x6C, 0x69, 0x61]),
    (ascii ''love'', ascii ''amor''), (ascii ''happiness'', ascii ''felicidade''),
    (ascii ''sadness'', ascii ''tristeza''),
    (ascii ''health'', [0x73, 0x61, 0xFA, 0x64, 0x65]),
    (ascii ''education'', [0x65, 0x64, 0x75, 0x63, 0x61, 0xE7, 0xE3, 0x6F])
  ]"


text \<open>The \<^verbatim>\<open>'pt-en'\<close> table (repeated key, occurrence 2), 22 entries as written.\<close>

definition lex_pt_en_2 :: "lexicon" where
  "lex_pt_en_2 = [
    ([0x6F, 0x6C, 0xE1], ascii ''hello''), (ascii ''oi'', ascii ''hi''),
    (ascii ''tchau'', ascii ''goodbye''), (ascii ''obrigado'', ascii ''thank you''),
    (ascii ''desculpa'', ascii ''sorry''), (ascii ''por favor'', ascii ''please''),
    (ascii ''sim'', ascii ''yes''), ([0x6E, 0xE3, 0x6F], ascii ''no''),
    ([0xE1, 0x67, 0x75, 0x61], ascii ''water''), (ascii ''comida'', ascii ''food''),
    (ascii ''casa'', ascii ''home''), (ascii ''escola'', ascii ''school''),
    (ascii ''trabalho'', ascii ''work''), (ascii ''tempo'', ascii ''time''),
    (ascii ''dinheiro'', ascii ''money''), (ascii ''amigo'', ascii ''friend''),
    ([0x66, 0x61, 0x6D, 0xED, 0x6C, 0x69, 0x61], ascii ''family''),
    (ascii ''amor'', ascii ''love''), (ascii ''felicidade'', ascii ''happiness''),
    (ascii ''tristeza'', ascii ''sadness''),
    ([0x73, 0x61, 0xFA, 0x64, 0x65], ascii ''health''),
    ([0x65, 0x64, 0x75, 0x63, 0x61, 0xE7, 0xE3, 0x6F], ascii ''education'')
  ]"


text \<open>The \<^verbatim>\<open>'en-fr'\<close> table (repeated key, occurrence 2), 25 entries as written.\<close>

definition lex_en_fr_2 :: "lexicon" where
  "lex_en_fr_2 = [
    (ascii ''hello'', ascii ''bonjour''), (ascii ''hi'', ascii ''salut''),
    (ascii ''goodbye'', ascii ''au revoir''), (ascii ''thank you'', ascii ''merci''),
    (ascii ''thanks'', ascii ''merci''),
    (ascii ''sorry'', [0x64, 0xE9, 0x73, 0x6F, 0x6C, 0xE9]),
    (ascii ''please'', [0x73, 0x27, 0x69, 0x6C, 0x20, 0x76, 0x6F, 0x75, 0x73, 0x20, 0x70, 0x6C, 0x61, 0xEE, 0x74]),
    (ascii ''yes'', ascii ''oui''), (ascii ''no'', ascii ''non''),
    (ascii ''water'', ascii ''eau''), (ascii ''food'', ascii ''nourriture''),
    (ascii ''home'', ascii ''maison''), (ascii ''house'', ascii ''maison''),
    (ascii ''school'', [0xE9, 0x63, 0x6F, 0x6C, 0x65]), (ascii ''work'', ascii ''travail''),
    (ascii ''job'', ascii ''emploi''), (ascii ''time'', ascii ''temps''),
    (ascii ''money'', ascii ''argent''), (ascii ''friend'', ascii ''ami''),
    (ascii ''family'', ascii ''famille''), (ascii ''love'', ascii ''amour''),
    (ascii ''happiness'', ascii ''bonheur''), (ascii ''sadness'', ascii ''tristesse''),
    (ascii ''health'', [0x73, 0x61, 0x6E, 0x74, 0xE9]),
    (ascii ''education'', [0xE9, 0x64, 0x75, 0x63, 0x61, 0x74, 0x69, 0x6F, 0x6E])
  ]"


text \<open>The \<^verbatim>\<open>'fr-en'\<close> table (repeated key, occurrence 2), 23 entries as written.\<close>

definition lex_fr_en_2 :: "lexicon" where
  "lex_fr_en_2 = [
    (ascii ''bonjour'', ascii ''hello''), (ascii ''salut'', ascii ''hi''),
    (ascii ''au revoir'', ascii ''goodbye''), (ascii ''merci'', ascii ''thank you''),
    ([0x64, 0xE9, 0x73, 0x6F, 0x6C, 0xE9], ascii ''sorry''),
    ([0x73, 0x27, 0x69, 0x6C, 0x20, 0x76, 0x6F, 0x75, 0x73, 0x20, 0x70, 0x6C, 0x61, 0xEE, 0x74], ascii ''please''),
    (ascii ''oui'', ascii ''yes''), (ascii ''non'', ascii ''no''),
    (ascii ''eau'', ascii ''water''), (ascii ''nourriture'', ascii ''food''),
    (ascii ''maison'', ascii ''home''), ([0xE9, 0x63, 0x6F, 0x6C, 0x65], ascii ''school''),
    (ascii ''travail'', ascii ''work''), (ascii ''emploi'', ascii ''job''),
    (ascii ''temps'', ascii ''time''), (ascii ''argent'', ascii ''money''),
    (ascii ''ami'', ascii ''friend''), (ascii ''famille'', ascii ''family''),
    (ascii ''amour'', ascii ''love''), (ascii ''bonheur'', ascii ''happiness''),
    (ascii ''tristesse'', ascii ''sadness''),
    ([0x73, 0x61, 0x6E, 0x74, 0xE9], ascii ''health''),
    ([0xE9, 0x64, 0x75, 0x63, 0x61, 0x74, 0x69, 0x6F, 0x6E], ascii ''education'')
  ]"


text \<open>The \<^verbatim>\<open>'en-de'\<close> table, 25 entries as written.\<close>

definition lex_en_de :: "lexicon" where
  "lex_en_de = [
    (ascii ''hello'', ascii ''hallo''), (ascii ''hi'', ascii ''hallo''),
    (ascii ''goodbye'', ascii ''auf wiedersehen''), (ascii ''thank you'', ascii ''danke''),
    (ascii ''thanks'', ascii ''danke''), (ascii ''sorry'', ascii ''entschuldigung''),
    (ascii ''please'', ascii ''bitte''), (ascii ''yes'', ascii ''ja''),
    (ascii ''no'', ascii ''nein''), (ascii ''water'', ascii ''wasser''),
    (ascii ''food'', ascii ''essen''), (ascii ''home'', ascii ''zuhause''),
    (ascii ''house'', ascii ''haus''), (ascii ''school'', ascii ''schule''),
    (ascii ''work'', ascii ''arbeit''), (ascii ''job'', ascii ''job''),
    (ascii ''time'', ascii ''zeit''), (ascii ''money'', ascii ''geld''),
    (ascii ''friend'', ascii ''freund''), (ascii ''family'', ascii ''familie''),
    (ascii ''love'', ascii ''liebe''), (ascii ''happiness'', [0x67, 0x6C, 0xFC, 0x63, 0x6B]),
    (ascii ''sadness'', ascii ''traurigkeit''), (ascii ''health'', ascii ''gesundheit''),
    (ascii ''education'', ascii ''bildung'')
  ]"


text \<open>The \<^verbatim>\<open>'de-en'\<close> table, 23 entries as written.\<close>

definition lex_de_en :: "lexicon" where
  "lex_de_en = [
    (ascii ''hallo'', ascii ''hello''), (ascii ''auf wiedersehen'', ascii ''goodbye''),
    (ascii ''danke'', ascii ''thank you''), (ascii ''entschuldigung'', ascii ''sorry''),
    (ascii ''bitte'', ascii ''please''), (ascii ''ja'', ascii ''yes''),
    (ascii ''nein'', ascii ''no''), (ascii ''wasser'', ascii ''water''),
    (ascii ''essen'', ascii ''food''), (ascii ''zuhause'', ascii ''home''),
    (ascii ''haus'', ascii ''house''), (ascii ''schule'', ascii ''school''),
    (ascii ''arbeit'', ascii ''work''), (ascii ''job'', ascii ''job''),
    (ascii ''zeit'', ascii ''time''), (ascii ''geld'', ascii ''money''),
    (ascii ''freund'', ascii ''friend''), (ascii ''familie'', ascii ''family''),
    (ascii ''liebe'', ascii ''love''), ([0x67, 0x6C, 0xFC, 0x63, 0x6B], ascii ''happiness''),
    (ascii ''traurigkeit'', ascii ''sadness''), (ascii ''gesundheit'', ascii ''health''),
    (ascii ''bildung'', ascii ''education'')
  ]"


text \<open>The \<^verbatim>\<open>'en-bn'\<close> table, 25 entries as written.\<close>

definition lex_en_bn :: "lexicon" where
  "lex_en_bn = [
    (ascii ''hello'', [0x9B9, 0x9CD, 0x9AF, 0x9BE, 0x9B2, 0x9CB]),
    (ascii ''hi'', [0x9B9, 0x9BE, 0x987]),
    (ascii ''goodbye'', [0x9AC, 0x9BF, 0x9A6, 0x9BE, 0x9AF, 0x9BC]),
    (ascii ''thank you'', [0x9A7, 0x9A8, 0x9CD, 0x9AF, 0x9AC, 0x9BE, 0x9A6]),
    (ascii ''thanks'', [0x9A7, 0x9A8, 0x9CD, 0x9AF, 0x9AC, 0x9BE, 0x9A6]),
    (ascii ''sorry'', [0x9A6, 0x9C1, 0x983, 0x996, 0x9BF, 0x9A4]),
    (ascii ''please'', [0x985, 0x9A8, 0x9C1, 0x997, 0x9CD, 0x9B0, 0x9B9, 0x20, 0x995, 0x9B0, 0x9C7]),
    (ascii ''yes'', [0x9B9, 0x9CD, 0x9AF, 0x9BE, 0x981]), (ascii ''no'', [0x9A8, 0x9BE]),
    (ascii ''water'', [0x9AA, 0x9BE, 0x9A8, 0x9BF]),
    (ascii ''food'', [0x996, 0x9BE, 0x9AC, 0x9BE, 0x9B0]),
    (ascii ''home'', [0x9AC, 0x9BE, 0x9A1, 0x9BC, 0x9BF]),
    (ascii ''house'', [0x9AC, 0x9BE, 0x9A1, 0x9BC, 0x9BF]),
    (ascii ''school'', [0x9B8, 0x9CD, 0x995, 0x9C1, 0x9B2]),
    (ascii ''work'', [0x995, 0x9BE, 0x99C]),
    (ascii ''job'', [0x99A, 0x9BE, 0x995, 0x9B0, 0x9BF]),
    (ascii ''time'', [0x9B8, 0x9AE, 0x9AF, 0x9BC]),
    (ascii ''money'', [0x99F, 0x9BE, 0x995, 0x9BE]),
    (ascii ''friend'', [0x9AC, 0x9A8, 0x9CD, 0x9A7, 0x9C1]),
    (ascii ''family'', [0x9AA, 0x9B0, 0x9BF, 0x9AC, 0x9BE, 0x9B0]),
    (ascii ''love'', [0x9AD, 0x9BE, 0x9B2, 0x9CB, 0x9AC, 0x9BE, 0x9B8, 0x9BE]),
    (ascii ''happiness'', [0x996, 0x9C1, 0x9B6, 0x9BF]),
    (ascii ''sadness'', [0x9A6, 0x9C1, 0x983, 0x996]),
    (ascii ''health'', [0x9B8, 0x9CD, 0x9AC, 0x9BE, 0x9B8, 0x9CD, 0x9A5, 0x9CD, 0x9AF]),
    (ascii ''education'', [0x9B6, 0x9BF, 0x995, 0x9CD, 0x9B7, 0x9BE])
  ]"


text \<open>The \<^verbatim>\<open>'bn-en'\<close> table, 23 entries as written.\<close>

definition lex_bn_en :: "lexicon" where
  "lex_bn_en = [
    ([0x9B9, 0x9CD, 0x9AF, 0x9BE, 0x9B2, 0x9CB], ascii ''hello''),
    ([0x9B9, 0x9BE, 0x987], ascii ''hi''),
    ([0x9AC, 0x9BF, 0x9A6, 0x9BE, 0x9AF, 0x9BC], ascii ''goodbye''),
    ([0x9A7, 0x9A8, 0x9CD, 0x9AF, 0x9AC, 0x9BE, 0x9A6], ascii ''thank you''),
    ([0x9A6, 0x9C1, 0x983, 0x996, 0x9BF, 0x9A4], ascii ''sorry''),
    ([0x985, 0x9A8, 0x9C1, 0x997, 0x9CD, 0x9B0, 0x9B9, 0x20, 0x995, 0x9B0, 0x9C7], ascii ''please''),
    ([0x9B9, 0x9CD, 0x9AF, 0x9BE, 0x981], ascii ''yes''), ([0x9A8, 0x9BE], ascii ''no''),
    ([0x9AA, 0x9BE, 0x9A8, 0x9BF], ascii ''water''),
    ([0x996, 0x9BE, 0x9AC, 0x9BE, 0x9B0], ascii ''food''),
    ([0x9AC, 0x9BE, 0x9A1, 0x9BC, 0x9BF], ascii ''home''),
    ([0x9B8, 0x9CD, 0x995, 0x9C1, 0x9B2], ascii ''school''),
    ([0x995, 0x9BE, 0x99C], ascii ''work''),
    ([0x99A, 0x9BE, 0x995, 0x9B0, 0x9BF], ascii ''job''),
    ([0x9B8, 0x9AE, 0x9AF, 0x9BC], ascii ''time''),
    ([0x99F, 0x9BE, 0x995, 0x9BE], ascii ''money''),
    ([0x9AC, 0x9A8, 0x9CD, 0x9A7, 0x9C1], ascii ''friend''),
    ([0x9AA, 0x9B0, 0x9BF, 0x9AC, 0x9BE, 0x9B0], ascii ''family''),
    ([0x9AD, 0x9BE, 0x9B2, 0x9CB, 0x9AC, 0x9BE, 0x9B8, 0x9BE], ascii ''love''),
    ([0x996, 0x9C1, 0x9B6, 0x9BF], ascii ''happiness''),
    ([0x9A6, 0x9C1, 0x983, 0x996], ascii ''sadness''),
    ([0x9B8, 0x9CD, 0x9AC, 0x9BE, 0x9B8, 0x9CD, 0x9A5, 0x9CD, 0x9AF], ascii ''health''),
    ([0x9B6, 0x9BF, 0x995, 0x9CD, 0x9B7, 0x9BE], ascii ''education'')
  ]"


text \<open>The \<^verbatim>\<open>'en-ta'\<close> table, 25 entries as written.\<close>

definition lex_en_ta :: "lexicon" where
  "lex_en_ta = [
    (ascii ''hello'', [0xBB5, 0xBA3, 0xB95, 0xBCD, 0xB95, 0xBAE, 0xBCD]),
    (ascii ''hi'', [0xBB9, 0xBBE, 0xBAF, 0xBCD]),
    (ascii ''goodbye'', [0xBAA, 0xBBF, 0xBB0, 0xBBF, 0xBAF, 0xBBE, 0xBB5, 0xBBF, 0xB9F, 0xBC8]),
    (ascii ''thank you'', [0xBA8, 0xBA9, 0xBCD, 0xBB1, 0xBBF]),
    (ascii ''thanks'', [0xBA8, 0xBA9, 0xBCD, 0xBB1, 0xBBF]),
    (ascii ''sorry'', [0xBAE, 0xBA9, 0xBCD, 0xBA9, 0xBBF, 0xB95, 0xBCD, 0xB95, 0xBB5, 0xBC1, 0xBAE, 0xBCD]),
    (ascii ''please'', [0xBA4, 0xBAF, 0xBB5, 0xBC1, 0xB9A, 0xBC6, 0xBAF, 0xBCD, 0xBA4, 0xBC1]),
    (ascii ''yes'', [0xB86, 0xBAE, 0xBCD]),
    (ascii ''no'', [0xB87, 0xBB2, 0xBCD, 0xBB2, 0xBC8]),
    (ascii ''water'', [0xBA4, 0xBA3, 0xBCD, 0xBA3, 0xBC0, 0xBB0, 0xBCD]),
    (ascii ''food'', [0xB89, 0xBA3, 0xBB5, 0xBC1]),
    (ascii ''home'', [0xBB5, 0xBC0, 0xB9F, 0xBC1]),
    (ascii ''house'', [0xBB5, 0xBC0, 0xB9F, 0xBC1]),
    (ascii ''school'', [0xBAA, 0xBB3, 0xBCD, 0xBB3, 0xBBF]),
    (ascii ''work'', [0xBB5, 0xBC7, 0xBB2, 0xBC8]),
    (ascii ''job'', [0xBB5, 0xBC7, 0xBB2, 0xBC8]),
    (ascii ''time'', [0xBA8, 0xBC7, 0xBB0, 0xBAE, 0xBCD]),
    (ascii ''money'', [0xBAA, 0xBA3, 0xBAE, 0xBCD]),
    (ascii ''friend'', [0xBA8, 0xBA3, 0xBCD, 0xBAA, 0xBB0, 0xBCD]),
    (ascii ''family'', [0xB95, 0xBC1, 0xB9F, 0xBC1, 0xBAE, 0xBCD, 0xBAA, 0xBAE, 0xBCD]),
    (ascii ''love'', [0xB85, 0xBA9, 0xBCD, 0xBAA, 0xBC1]),
    (ascii ''happiness'', [0xBAE, 0xB95, 0xBBF, 0xBB4, 0xBCD, 0xB9A, 0xBCD, 0xB9A, 0xBBF]),
    (ascii ''sadness'', [0xBA4, 0xBC1, 0xB95, 0xBCD, 0xB95, 0xBAE, 0xBCD]),
    (ascii ''health'', [0xB89, 0xB9F, 0xBB2, 0xBCD, 0xBA8, 0xBB2, 0xBAE, 0xBCD]),
    (ascii ''education'', [0xB95, 0xBB2, 0xBCD, 0xBB5, 0xBBF])
  ]"


text \<open>The \<^verbatim>\<open>'ta-en'\<close> table, 22 entries as written.\<close>

definition lex_ta_en :: "lexicon" where
  "lex_ta_en = [
    ([0xBB5, 0xBA3, 0xB95, 0xBCD, 0xB95, 0xBAE, 0xBCD], ascii ''hello''),
    ([0xBB9, 0xBBE, 0xBAF, 0xBCD], ascii ''hi''),
    ([0xBAA, 0xBBF, 0xBB0, 0xBBF, 0xBAF, 0xBBE, 0xBB5, 0xBBF, 0xB9F, 0xBC8], ascii ''goodbye''),
    ([0xBA8, 0xBA9, 0xBCD, 0xBB1, 0xBBF], ascii ''thank you''),
    ([0xBAE, 0xBA9, 0xBCD, 0xBA9, 0xBBF, 0xB95, 0xBCD, 0xB95, 0xBB5, 0xBC1, 0xBAE, 0xBCD], ascii ''sorry''),
    ([0xBA4, 0xBAF, 0xBB5, 0xBC1, 0xB9A, 0xBC6, 0xBAF, 0xBCD, 0xBA4, 0xBC1], ascii ''please''),
    ([0xB86, 0xBAE, 0xBCD], ascii ''yes''),
    ([0xB87, 0xBB2, 0xBCD, 0xBB2, 0xBC8], ascii ''no''),
    ([0xBA4, 0xBA3, 0xBCD, 0xBA3, 0xBC0, 0xBB0, 0xBCD], ascii ''water''),
    ([0xB89, 0xBA3, 0xBB5, 0xBC1], ascii ''food''),
    ([0xBB5, 0xBC0, 0xB9F, 0xBC1], ascii ''home''),
    ([0xBAA, 0xBB3, 0xBCD, 0xBB3, 0xBBF], ascii ''school''),
    ([0xBB5, 0xBC7, 0xBB2, 0xBC8], ascii ''work''),
    ([0xBA8, 0xBC7, 0xBB0, 0xBAE, 0xBCD], ascii ''time''),
    ([0xBAA, 0xBA3, 0xBAE, 0xBCD], ascii ''money''),
    ([0xBA8, 0xBA3, 0xBCD, 0xBAA, 0xBB0, 0xBCD], ascii ''friend''),
    ([0xB95, 0xBC1, 0xB9F, 0xBC1, 0xBAE, 0xBCD, 0xBAA, 0xBAE, 0xBCD], ascii ''family''),
    ([0xB85, 0xBA9, 0xBCD, 0xBAA, 0xBC1], ascii ''love''),
    ([0xBAE, 0xB95, 0xBBF, 0xBB4, 0xBCD, 0xB9A, 0xBCD, 0xB9A, 0xBBF], ascii ''happiness''),
    ([0xBA4, 0xBC1, 0xB95, 0xBCD, 0xB95, 0xBAE, 0xBCD], ascii ''sadness''),
    ([0xB89, 0xB9F, 0xBB2, 0xBCD, 0xBA8, 0xBB2, 0xBAE, 0xBCD], ascii ''health''),
    ([0xB95, 0xBB2, 0xBCD, 0xBB5, 0xBBF], ascii ''education'')
  ]"


text \<open>The \<^verbatim>\<open>'en-te'\<close> table, 10 entries as written.\<close>

definition lex_en_te :: "lexicon" where
  "lex_en_te = [
    (ascii ''hello'', [0xC39, 0xC32, 0xC4B]), (ascii ''hi'', [0xC39, 0xC3E, 0xC2F, 0xC4D]),
    (ascii ''thank you'', [0xC27, 0xC28, 0xC4D, 0xC2F, 0xC35, 0xC3E, 0xC26, 0xC3E, 0xC32, 0xC41]),
    (ascii ''sorry'', [0xC15, 0xC4D, 0xC37, 0xC2E, 0xC3F, 0xC02, 0xC1A, 0xC02, 0xC21, 0xC3F]),
    (ascii ''please'', [0xC26, 0xC2F, 0xC1A, 0xC47, 0xC38, 0xC3F]),
    (ascii ''yes'', [0xC05, 0xC35, 0xC41, 0xC28, 0xC41]),
    (ascii ''no'', [0xC32, 0xC47, 0xC26, 0xC41]),
    (ascii ''water'', [0xC28, 0xC40, 0xC30, 0xC41]),
    (ascii ''food'', [0xC06, 0xC39, 0xC3E, 0xC30, 0xC02]),
    (ascii ''home'', [0xC07, 0xC32, 0xC4D, 0xC32, 0xC41])
  ]"


text \<open>The \<^verbatim>\<open>'te-en'\<close> table, 4 entries as written.\<close>

definition lex_te_en :: "lexicon" where
  "lex_te_en = [
    ([0xC39, 0xC32, 0xC4B], ascii ''hello''), ([0xC39, 0xC3E, 0xC2F, 0xC4D], ascii ''hi''),
    ([0xC27, 0xC28, 0xC4D, 0xC2F, 0xC35, 0xC3E, 0xC26, 0xC3E, 0xC32, 0xC41], ascii ''thank you''),
    ([0xC15, 0xC4D, 0xC37, 0xC2E, 0xC3F, 0xC02, 0xC1A, 0xC02, 0xC21, 0xC3F], ascii ''sorry'')
  ]"


text \<open>The \<^verbatim>\<open>'en-ur'\<close> table, 10 entries as written.\<close>

definition lex_en_ur :: "lexicon" where
  "lex_en_ur = [
    (ascii ''hello'', [0x6C1, 0x6CC, 0x644, 0x648]),
    (ascii ''hi'', [0x633, 0x644, 0x627, 0x645]),
    (ascii ''thank you'', [0x634, 0x6A9, 0x631, 0x6CC, 0x6C1]),
    (ascii ''sorry'', [0x645, 0x639, 0x627, 0x641, 0x20, 0x6A9, 0x631, 0x6CC, 0x6BA]),
    (ascii ''please'', [0x628, 0x631, 0x627, 0x6C1, 0x20, 0x6A9, 0x631, 0x645]),
    (ascii ''yes'', [0x6C1, 0x627, 0x6BA]), (ascii ''no'', [0x646, 0x6C1, 0x6CC, 0x6BA]),
    (ascii ''water'', [0x67E, 0x627, 0x646, 0x6CC]),
    (ascii ''food'', [0x6A9, 0x6BE, 0x627, 0x646, 0x627]),
    (ascii ''home'', [0x6AF, 0x6BE, 0x631])
  ]"


text \<open>The \<^verbatim>\<open>'ur-en'\<close> table, 4 entries as written.\<close>

definition lex_ur_en :: "lexicon" where
  "lex_ur_en = [
    ([0x6C1, 0x6CC, 0x644, 0x648], ascii ''hello''),
    ([0x633, 0x644, 0x627, 0x645], ascii ''hi''),
    ([0x634, 0x6A9, 0x631, 0x6CC, 0x6C1], ascii ''thank you''),
    ([0x645, 0x639, 0x627, 0x641, 0x20, 0x6A9, 0x631, 0x6CC, 0x6BA], ascii ''sorry'')
  ]"


text \<open>The \<^verbatim>\<open>'en-zh'\<close> table, 10 entries as written.\<close>

definition lex_en_zh :: "lexicon" where
  "lex_en_zh = [
    (ascii ''hello'', [0x4F60, 0x597D]), (ascii ''hi'', [0x55E8]),
    (ascii ''thank you'', [0x8B1D, 0x8B1D]), (ascii ''sorry'', [0x5C0D, 0x4E0D, 0x8D77]),
    (ascii ''please'', [0x8ACB]), (ascii ''yes'', [0x662F]), (ascii ''no'', [0x4E0D, 0x662F]),
    (ascii ''water'', [0x6C34]), (ascii ''food'', [0x98DF, 0x7269]), (ascii ''home'', [0x5BB6])
  ]"


text \<open>The \<^verbatim>\<open>'zh-en'\<close> table, 4 entries as written.\<close>

definition lex_zh_en :: "lexicon" where
  "lex_zh_en = [
    ([0x4F60, 0x597D], ascii ''hello''), ([0x55E8], ascii ''hi''),
    ([0x8B1D, 0x8B1D], ascii ''thank you''), ([0x5C0D, 0x4E0D, 0x8D77], ascii ''sorry'')
  ]"


text \<open>The \<^verbatim>\<open>'en-ja'\<close> table, 10 entries as written.\<close>

definition lex_en_ja :: "lexicon" where
  "lex_en_ja = [
    (ascii ''hello'', [0x3053, 0x3093, 0x306B, 0x3061, 0x306F]),
    (ascii ''hi'', [0x3084, 0x3042]),
    (ascii ''thank you'', [0x3042, 0x308A, 0x304C, 0x3068, 0x3046]),
    (ascii ''sorry'', [0x3054, 0x3081, 0x3093, 0x306A, 0x3055, 0x3044]),
    (ascii ''please'', [0x304A, 0x9858, 0x3044, 0x3057, 0x307E, 0x3059]),
    (ascii ''yes'', [0x306F, 0x3044]), (ascii ''no'', [0x3044, 0x3044, 0x3048]),
    (ascii ''water'', [0x6C34]), (ascii ''food'', [0x98DF, 0x3079, 0x7269]),
    (ascii ''home'', [0x5BB6])
  ]"


text \<open>The \<^verbatim>\<open>'ja-en'\<close> table, 4 entries as written.\<close>

definition lex_ja_en :: "lexicon" where
  "lex_ja_en = [
    ([0x3053, 0x3093, 0x306B, 0x3061, 0x306F], ascii ''hello''),
    ([0x3084, 0x3042], ascii ''hi''),
    ([0x3042, 0x308A, 0x304C, 0x3068, 0x3046], ascii ''thank you''),
    ([0x3054, 0x3081, 0x3093, 0x306A, 0x3055, 0x3044], ascii ''sorry'')
  ]"


text \<open>The \<^verbatim>\<open>'en-ko'\<close> table, 10 entries as written.\<close>

definition lex_en_ko :: "lexicon" where
  "lex_en_ko = [
    (ascii ''hello'', [0xC548, 0xB155, 0xD558, 0xC138, 0xC694]),
    (ascii ''hi'', [0xC548, 0xB155]),
    (ascii ''thank you'', [0xAC10, 0xC0AC, 0xD569, 0xB2C8, 0xB2E4]),
    (ascii ''sorry'', [0xC8C4, 0xC1A1, 0xD569, 0xB2C8, 0xB2E4]),
    (ascii ''please'', [0xC81C, 0xBC1C]), (ascii ''yes'', [0xB124]),
    (ascii ''no'', [0xC544, 0xB2C8, 0xC624]), (ascii ''water'', [0xBB3C]),
    (ascii ''food'', [0xC74C, 0xC2DD]), (ascii ''home'', [0xC9D1])
  ]"


text \<open>The \<^verbatim>\<open>'ko-en'\<close> table, 4 entries as written.\<close>

definition lex_ko_en :: "lexicon" where
  "lex_ko_en = [
    ([0xC548, 0xB155, 0xD558, 0xC138, 0xC694], ascii ''hello''),
    ([0xC548, 0xB155], ascii ''hi''),
    ([0xAC10, 0xC0AC, 0xD569, 0xB2C8, 0xB2E4], ascii ''thank you''),
    ([0xC8C4, 0xC1A1, 0xD569, 0xB2C8, 0xB2E4], ascii ''sorry'')
  ]"


text \<open>The \<^verbatim>\<open>'en-ar'\<close> table, 10 entries as written.\<close>

definition lex_en_ar :: "lexicon" where
  "lex_en_ar = [
    (ascii ''hello'', [0x645, 0x631, 0x62D, 0x628, 0x627]),
    (ascii ''hi'', [0x623, 0x647, 0x644, 0x627]),
    (ascii ''thank you'', [0x634, 0x643, 0x631, 0x627]),
    (ascii ''sorry'', [0x622, 0x633, 0x641]),
    (ascii ''please'', [0x645, 0x646, 0x20, 0x641, 0x636, 0x644, 0x643]),
    (ascii ''yes'', [0x646, 0x639, 0x645]), (ascii ''no'', [0x644, 0x627]),
    (ascii ''water'', [0x645, 0x627, 0x621]), (ascii ''food'', [0x637, 0x639, 0x627, 0x645]),
    (ascii ''home'', [0x645, 0x646, 0x632, 0x644])
  ]"


text \<open>The \<^verbatim>\<open>'ar-en'\<close> table, 4 entries as written.\<close>

definition lex_ar_en :: "lexicon" where
  "lex_ar_en = [
    ([0x645, 0x631, 0x62D, 0x628, 0x627], ascii ''hello''),
    ([0x623, 0x647, 0x644, 0x627], ascii ''hi''),
    ([0x634, 0x643, 0x631, 0x627], ascii ''thank you''),
    ([0x622, 0x633, 0x641], ascii ''sorry'')
  ]"


text \<open>The \<^verbatim>\<open>'en-ru'\<close> table, 10 entries as written.\<close>

definition lex_en_ru :: "lexicon" where
  "lex_en_ru = [
    (ascii ''hello'', [0x43F, 0x440, 0x438, 0x432, 0x435, 0x442]),
    (ascii ''hi'', [0x43F, 0x440, 0x438, 0x432, 0x435, 0x442]),
    (ascii ''thank you'', [0x441, 0x43F, 0x430, 0x441, 0x438, 0x431, 0x43E]),
    (ascii ''sorry'', [0x438, 0x437, 0x432, 0x438, 0x43D, 0x438, 0x442, 0x435]),
    (ascii ''please'', [0x43F, 0x43E, 0x436, 0x430, 0x43B, 0x443, 0x439, 0x441, 0x442, 0x430]),
    (ascii ''yes'', [0x434, 0x430]), (ascii ''no'', [0x43D, 0x435, 0x442]),
    (ascii ''water'', [0x432, 0x43E, 0x434, 0x430]), (ascii ''food'', [0x435, 0x434, 0x430]),
    (ascii ''home'', [0x434, 0x43E, 0x43C])
  ]"


text \<open>The \<^verbatim>\<open>'ru-en'\<close> table, 4 entries as written.\<close>

definition lex_ru_en :: "lexicon" where
  "lex_ru_en = [
    ([0x43F, 0x440, 0x438, 0x432, 0x435, 0x442], ascii ''hello''),
    ([0x441, 0x43F, 0x430, 0x441, 0x438, 0x431, 0x43E], ascii ''thank you''),
    ([0x438, 0x437, 0x432, 0x438, 0x43D, 0x438, 0x442, 0x435], ascii ''sorry''),
    ([0x43F, 0x43E, 0x436, 0x430, 0x43B, 0x443, 0x439, 0x441, 0x442, 0x430], ascii ''please'')
  ]"


definition translations_literal :: "(jstring \<times> lexicon) list" where
  "translations_literal = [
    (ascii ''en-hi'', lex_en_hi),
    (ascii ''hi-en'', lex_hi_en),
    (ascii ''en-es'', lex_en_es),
    (ascii ''es-en'', lex_es_en),
    (ascii ''en-fr'', lex_en_fr),
    (ascii ''fr-en'', lex_fr_en),
    (ascii ''en-pt'', lex_en_pt),
    (ascii ''pt-en'', lex_pt_en),
    (ascii ''en-ne'', lex_en_ne),
    (ascii ''ne-en'', lex_ne_en),
    (ascii ''en-si'', lex_en_si),
    (ascii ''si-en'', lex_si_en),
    (ascii ''es-en'', lex_es_en_2),
    (ascii ''en-es'', lex_en_es_2),
    (ascii ''en-pt'', lex_en_pt_2),
    (ascii ''pt-en'', lex_pt_en_2),
    (ascii ''en-fr'', lex_en_fr_2),
    (ascii ''fr-en'', lex_fr_en_2),
    (ascii ''en-de'', lex_en_de),
    (ascii ''de-en'', lex_de_en),
    (ascii ''en-bn'', lex_en_bn),
    (ascii ''bn-en'', lex_bn_en),
    (ascii ''en-ta'', lex_en_ta),
    (ascii ''ta-en'', lex_ta_en),
    (ascii ''en-te'', lex_en_te),
    (ascii ''te-en'', lex_te_en),
    (ascii ''en-ur'', lex_en_ur),
    (ascii ''ur-en'', lex_ur_en),
    (ascii ''en-zh'', lex_en_zh),
    (ascii ''zh-en'', lex_zh_en),
    (ascii ''en-ja'', lex_en_ja),
    (ascii ''ja-en'', lex_ja_en),
    (ascii ''en-ko'', lex_en_ko),
    (ascii ''ko-en'', lex_ko_en),
    (ascii ''en-ar'', lex_en_ar),
    (ascii ''ar-en'', lex_ar_en),
    (ascii ''en-ru'', lex_en_ru),
    (ascii ''ru-en'', lex_ru_en)
  ]"

definition translations_store :: "(jstring \<times> lexicon) list" where
  "translations_store = objectLiteral translations_literal"

section \<open>The fallback translation service: pattern rules\<close>

definition wsStar :: rx where "wsStar = Star Space"
definition wsPlus :: rx where "wsPlus = Plus Space"
definition anyGroup :: rx where "anyGroup = Cap (LazyPlus Dot)"
definition closing :: rx where "closing = Opt (One (AnyOf (ascii ''.!?'')))"
definition danda :: rx where "danda = Opt (One (AnyOf [0x964]))"

text \<open>\<^verbatim>\<open>/^(?:\s*(?:hello|hi)[,!]?\s+)?this\s+is\s+(.+?)[.!?]?\s*$/i\<close>\<close>

definition rxThisIs :: "rx list" where
  "rxThisIs =
     [Opt (Seq [wsStar, Alt [word (ascii ''hello''), word (ascii ''hi'')],
                Opt (One (AnyOf (ascii '',!''))), wsPlus]),
      word (ascii ''this''), wsPlus, word (ascii ''is''), wsPlus, anyGroup, closing, wsStar]"

text \<open>\<^verbatim>\<open>/^\s*my\s+name\s+is\s+(.+?)[.!?]?\s*$/i\<close>\<close>

definition rxMyNameIs :: "rx list" where
  "rxMyNameIs =
     [wsStar, word (ascii ''my''), wsPlus, word (ascii ''name''), wsPlus, word (ascii ''is''),
      wsPlus, anyGroup, closing, wsStar]"

text \<open>\<^verbatim>\<open>/^\s*i\s+am\s+(.+?)[.!?]?\s*$/i\<close>\<close>

definition rxIAm :: "rx list" where
  "rxIAm = [wsStar, word (ascii ''i''), wsPlus, word (ascii ''am''), wsPlus, anyGroup, closing, wsStar]"

text \<open>\<^verbatim>\<open>/^\s*how\s+are\s+you\s*\??\s*$/i\<close>\<close>

definition rxHowAreYou :: "rx list" where
  "rxHowAreYou =
     [wsStar, word (ascii ''how''), wsPlus, word (ascii ''are''), wsPlus, word (ascii ''you''),
      wsStar, Opt (One (Lit 0x3F)), wsStar]"

text \<open>
  The Nepali rules \<^verbatim>\<open>/^\s*YO\s+(.+?)\s+HO\s*[|]?\s*$/i\<close>,
  \<^verbatim>\<open>/^\s*MERO\s+NAAM\s+(.+?)\s+HO\s*[|]?\s*$/i\<close> and
  \<^verbatim>\<open>/^\s*MA\s+(.+?)\s+HUN\s*[|]?\s*$/i\<close>, the words in Devanagari and the bar the danda.
\<close>

definition rxNeThisIs :: "rx list" where
  "rxNeThisIs =
     [wsStar, word [0x92F, 0x94B], wsPlus, anyGroup, wsPlus, word [0x939, 0x94B], wsStar, danda, wsStar]"

definition rxNeMyNameIs :: "rx list" where
  "rxNeMyNameIs =
     [wsStar, word [0x92E, 0x947, 0x930, 0x94B], wsPlus, word [0x928, 0x93E, 0x92E], wsPlus,
      anyGroup, wsPlus, word [0x939, 0x94B], wsStar, danda, wsStar]"

definition rxNeIAm :: "rx list" where
  "rxNeIAm =
     [wsStar, word [0x92E], wsPlus, anyGroup, wsPlus, word [0x939, 0x941, 0x901], wsStar, danda, wsStar]"

text \<open>
  The Sinhala rules \<^verbatim>\<open>/^\s*MEYA\s+(.+?)\s*YI\s*$/i\<close>, \<^verbatim>\<open>/^\s*ME\s+(.+?)\s*$/i\<close>,
  \<^verbatim>\<open>/^\s*MAGE\s+NAMA\s+(.+?)\s*$/i\<close> and \<^verbatim>\<open>/^\s*MAMA\s+(.+?)\s*$/i\<close>.
\<close>

definition rxSiThisIsYi :: "rx list" where
  "rxSiThisIsYi =
     [wsStar, word [0xDB8, 0xDD9, 0xDBA], wsPlus, anyGroup, wsStar, word [0xDBA, 0xDD2], wsStar]"

definition rxSiThisIs :: "rx list" where
  "rxSiThisIs = [wsStar, word [0xDB8, 0xDDA], wsPlus, anyGroup, wsStar]"

definition rxSiMyNameIs :: "rx list" where
  "rxSiMyNameIs =
     [wsStar, word [0xDB8, 0xD9C, 0xDDA], wsPlus, word [0xDB1, 0xDB8], wsPlus, anyGroup, wsStar]"

definition rxSiIAm :: "rx list" where
  "rxSiIAm = [wsStar, word [0xDB8, 0xDB8], wsPlus, anyGroup, wsStar]"

text \<open>The rules of each pair, pattern and template, in the order of declaration.\<close>

definition patternRules :: "(jstring \<times> (rx list \<times> jstring) list) list" where
  "patternRules =
     [(ascii ''en-ne'',
        [(rxThisIs, [0x92F, 0x94B, 0x20, 0x24, 0x31, 0x20, 0x939, 0x94B]),
         (rxMyNameIs, [0x92E, 0x947, 0x930, 0x94B, 0x20, 0x928, 0x93E, 0x92E, 0x20, 0x24, 0x31, 0x20, 0x939, 0x94B]),
         (rxIAm, [0x92E, 0x20, 0x24, 0x31, 0x20, 0x939, 0x941, 0x901]),
         (rxHowAreYou, [0x924, 0x92A, 0x93E, 0x908, 0x902, 0x20, 0x915, 0x938, 0x94D, 0x924, 0x94B, 0x20,
                        0x939, 0x941, 0x928, 0x941, 0x939, 0x941, 0x928, 0x94D, 0x91B, 0x3F])]),
      (ascii ''en-si'',
        [(rxThisIs, [0xDB8, 0xDDA, 0x20, 0x24, 0x31]),
         (rxMyNameIs, [0xDB8, 0xD9C, 0xDDA, 0x20, 0xDB1, 0xDB8, 0x20, 0x24, 0x31]),
         (rxIAm, [0xDB8, 0xDB8, 0x20, 0x24, 0x31]),
         (rxHowAreYou, [0xD94, 0xDBA, 0xDCF, 0x20, 0xD9A, 0xDDC, 0xDC4, 0xDDC, 0xDB8, 0xDAF, 0x3F])]),
      (ascii ''ne-en'',
        [(rxNeThisIs, ascii ''this is $1''),
         (rxNeMyNameIs, ascii ''my name is $1''),
         (rxNeIAm, ascii ''i am $1'')]),
      (ascii ''si-en'',
        [(rxSiThisIsYi, ascii ''this is $1''),
         (rxSiThisIs, ascii ''this is $1''),
         (rxSiMyNameIs, ascii ''my name is $1''),
         (rxSiIAm, ascii ''i am $1'')])]"

text \<open>
  The pair key \<^verbatim>\<open>`${sourceLang}-${targetLang}`\<close>. It holds a hyphen, which the name of
  no member of \<^verbatim>\<open>Object.prototype\<close> does, so a read of the rules or of the store under a
  pair key finds an entry of its own or nothing.
\<close>

definition pairKey :: "jstring \<Rightarrow> jstring \<Rightarrow> jstring" where
  "pairKey sourceLang targetLang = sourceLang @ ascii ''-'' @ targetLang"

text \<open>
  The inner loop of \<^verbatim>\<open>applyPatternRules\<close>: \<^verbatim>\<open>$i\<close> in the template is replaced by the
  trimmed group \<^verbatim>\<open>m[i]\<close> through \<^verbatim>\<open>out.replace(new RegExp(`\\$${i}`, 'g'), grp)\<close>, for
  \<^verbatim>\<open>i\<close> from 1.
\<close>

fun substituteGroups :: "jstring \<Rightarrow> nat \<Rightarrow> jstring list \<Rightarrow> jstring" where
  "substituteGroups out i [] = out"
| "substituteGroups out i (g # gs) =
     substituteGroups (replaceAll out (0x24 # decimal i) (trim g)) (Suc i) gs"

fun firstMatchingRule :: "(rx list \<times> jstring) list \<Rightarrow> jstring \<Rightarrow> jstring option" where
  "firstMatchingRule [] original = None"
| "firstMatchingRule ((pattern, template) # rules) original =
     (case matchAnchored pattern original of
        Some m \<Rightarrow> Some (substituteGroups template 1 m)
      | None \<Rightarrow> firstMatchingRule rules original)"

definition applyPatternRules :: "jstring \<Rightarrow> jstring \<Rightarrow> jstring \<Rightarrow> jstring option" where
  "applyPatternRules text sourceLang targetLang =
     (case map_of patternRules (pairKey sourceLang targetLang) of
        None \<Rightarrow> None
      | Some rules \<Rightarrow> firstMatchingRule rules (trim text))"

section \<open>The fallback translation service: segmenting and resolving\<close>

datatype error = TypeError | Error jstring

text \<open>The sentence enders \<^verbatim>\<open>[.!?]\<close>, danda, double danda and the fullwidth bar.\<close>

definition isSentenceEnder :: "nat \<Rightarrow> bool" where
  "isSentenceEnder c \<longleftrightarrow> c \<in> {0x2E, 0x21, 0x3F, 0x964, 0x965, 0xFF5C}"

definition isParagraph :: "jstring \<Rightarrow> bool" where
  "isParagraph text \<longleftrightarrow> 1 < length (filter isSentenceEnder text)"

definition isSentence :: "jstring \<Rightarrow> bool" where
  "isSentence text \<longleftrightarrow>
     list_ex isSentenceEnder text \<or> 3 < length (splitWhitespace (trim text))"

definition isPhrase :: "jstring \<Rightarrow> bool" where
  "isPhrase text \<longleftrightarrow> 1 < length (splitWhitespace (trim text))"

definition splitIntoSentences :: "jstring \<Rightarrow> jstring list" where
  "splitIntoSentences text = filter (\<lambda>s. 0 < length (trim s)) (splitRuns isSentenceEnder text)"

text \<open>The delimiters \<^verbatim>\<open>[,;:()\[\]{}"'`]\<close> and the danda.\<close>

definition isDelimiter :: "nat \<Rightarrow> bool" where
  "isDelimiter c \<longleftrightarrow>
     c \<in> {0x2C, 0x3B, 0x3A, 0x28, 0x29, 0x5B, 0x5D, 0x7B, 0x7D, 0x22, 0x27, 0x60, 0x964}"

text \<open>The loop \<^verbatim>\<open>for (i = 0; i < words.length; i += 3) words.slice(i, i + 3)\<close>.\<close>

fun slicesOf3 :: "'a list \<Rightarrow> 'a list list" where
  "slicesOf3 (a # b # c # r) = [a, b, c] # slicesOf3 r"
| "slicesOf3 [] = []"
| "slicesOf3 xs = [xs]"

definition splitIntoMeaningfulChunks :: "jstring \<Rightarrow> jstring list" where
  "splitIntoMeaningfulChunks text =
     (let chunks = filter (\<lambda>chunk. 0 < length chunk) (map trim (splitOn isDelimiter text))
      in if length chunks = 1
         then map (join (ascii '' '')) (slicesOf3 (splitWhitespace (trim text)))
         else chunks)"

definition translateWord :: "host \<Rightarrow> jstring \<Rightarrow> lexicon \<Rightarrow> jstring \<Rightarrow> jstring \<Rightarrow> jsval" where
  "translateWord h text translations sourceLang targetLang =
     (let cleanText = trim (toLowerCase h text);
          originalText = trim text
      in if truthy (getProperty translations cleanText) then getProperty translations cleanText
         else if truthy (getProperty translations originalText) then getProperty translations originalText
         else (let cleanWord = keepLettersAndNumbers h cleanText
               in if truthy (getProperty translations cleanWord) then getProperty translations cleanWord
                  else Str text))"

definition translateWordByWord :: "host \<Rightarrow> jstring \<Rightarrow> lexicon \<Rightarrow> jstring \<Rightarrow> jstring \<Rightarrow> jstring" where
  "translateWordByWord h text translations sourceLang targetLang =
     join (ascii '' '')
       (map (\<lambda>word. joinStr h (translateWord h word translations sourceLang targetLang))
            (splitWhitespace (trim text)))"

definition translatePhrase :: "host \<Rightarrow> jstring \<Rightarrow> lexicon \<Rightarrow> jstring \<Rightarrow> jstring \<Rightarrow> jsval" where
  "translatePhrase h text translations sourceLang targetLang =
     (let cleanText = trim (toLowerCase h text)
      in if truthy (getProperty translations cleanText) then getProperty translations cleanText
         else (case find (\<lambda>(phrase, translation).
                            3 < length phrase
                            \<and> (includesStr cleanText phrase \<or> includesStr phrase cleanText))
                         translations of
                 Some (phrase, translation) \<Rightarrow> Str translation
               | None \<Rightarrow> Str (translateWordByWord h text translations sourceLang targetLang)))"

text \<open>
  \<^verbatim>\<open>if (patterned)\<close> takes the result of the rules unless it is \<^verbatim>\<open>null\<close> or empty.
\<close>

definition translateSentence :: "host \<Rightarrow> jstring \<Rightarrow> lexicon \<Rightarrow> jstring \<Rightarrow> jstring \<Rightarrow> jstring" where
  "translateSentence h text translations sourceLang targetLang =
     (case applyPatternRules text sourceLang targetLang of
        Some (p # ps) \<Rightarrow> p # ps
      | _ \<Rightarrow>
        (let cleanText = trim (toLowerCase h text)
         in case find (\<lambda>(phrase, translation).
                         10 < length phrase \<and> includesStr cleanText (toLowerCase h phrase))
                      translations of
              Some (phrase, translation) \<Rightarrow> replaceFirst cleanText (toLowerCase h phrase) translation
            | None \<Rightarrow>
                join (ascii '' '')
                  (map (\<lambda>chunk. joinStr h (translatePhrase h chunk translations sourceLang targetLang))
                       (splitIntoMeaningfulChunks text))))"

definition translateLine :: "host \<Rightarrow> jstring \<Rightarrow> lexicon \<Rightarrow> jstring \<Rightarrow> jstring \<Rightarrow> jstring" where
  "translateLine h line translations sourceLang targetLang =
     (if trim line = [] then []
      else join (ascii '' '')
             (map (\<lambda>sentence. translateSentence h sentence translations sourceLang targetLang)
                  (filter (\<lambda>sentence. trim sentence \<noteq> []) (splitIntoSentences line))))"

definition translateParagraph :: "host \<Rightarrow> jstring \<Rightarrow> lexicon \<Rightarrow> jstring \<Rightarrow> jstring \<Rightarrow> jstring" where
  "translateParagraph h text translations sourceLang targetLang =
     join [0xA]
       (map (\<lambda>line. translateLine h line translations sourceLang targetLang) (splitLines text))"

text \<open>
  \<^verbatim>\<open>translateComplexText\<close> starts with \<^verbatim>\<open>text.trim()\<close>, which is a \<^verbatim>\<open>TypeError\<close>
  on a value that is not a string.
\<close>

fun translateComplexText :: "host \<Rightarrow> jsval \<Rightarrow> lexicon \<Rightarrow> jstring \<Rightarrow> jstring \<Rightarrow> error + jsval" where
  "translateComplexText h (Str text) translations sourceLang targetLang =
     (let originalText = trim text;
          cleanText = trim (toLowerCase h text)
      in if truthy (getProperty translations cleanText) then Inr (getProperty translations cleanText)
         else if truthy (getProperty translations originalText) then Inr (getProperty translations originalText)
         else if isParagraph text then Inr (Str (translateParagraph h text translations sourceLang targetLang))
         else if isSentence text then Inr (Str (translateSentence h text translations sourceLang targetLang))
         else if isPhrase text then Inr (translatePhrase h text translations sourceLang targetLang)
         else Inr (translateWord h text translations sourceLang targetLang))"
| "translateComplexText h v translations sourceLang targetLang = Inl TypeError"

text \<open>
  \<^verbatim>\<open>translate\<close>, the entry point. Its parameter is declared a string; the pivot hands the
  result of its first step to the second step whatever that result is, so the model takes a
  value.
\<close>

definition translate :: "host \<Rightarrow> jsval \<Rightarrow> jstring \<Rightarrow> jstring \<Rightarrow> error + jsval" where
  "translate h text sourceLang targetLang =
     (case map_of translations_store (pairKey sourceLang targetLang) of
        Some table \<Rightarrow> translateComplexText h text table sourceLang targetLang
      | None \<Rightarrow>
        (let toEnglish = map_of translations_store (pairKey sourceLang (ascii ''en''));
             fromEnglish = map_of translations_store (pairKey (ascii ''en'') targetLang)
         in case toEnglish of
              None \<Rightarrow>
                Inr (Str (ascii ''[No dictionary: '' @ sourceLang @ ascii ''-'' @ targetLang @ ascii ''] ''
                          @ toStr h text))
            | Some toEn \<Rightarrow>
                if targetLang = ascii ''en'' then translateComplexText h text toEn sourceLang (ascii ''en'')
                else (case fromEnglish of
                        Some fromEn \<Rightarrow>
                          (case translateComplexText h text toEn sourceLang (ascii ''en'') of
                             Inl e \<Rightarrow> Inl e
                           | Inr intermediate \<Rightarrow>
                               translateComplexText h intermediate fromEn (ascii ''en'') targetLang)
                      | None \<Rightarrow> translateComplexText h text toEn sourceLang (ascii ''en''))))"

definition isLanguagePairSupported :: "jstring \<Rightarrow> jstring \<Rightarrow> bool" where
  "isLanguagePairSupported sourceLang targetLang \<longleftrightarrow>
     map_of translations_store (pairKey sourceLang targetLang) \<noteq> None"

definition getSupportedLanguagePairs :: "jstring list" where
  "getSupportedLanguagePairs = map fst translations_store"

declare translateComplexText.simps [simp del]

section \<open>The offline pack manager of \<^verbatim>\<open>src/services/OfflineTranslation.ts\<close>\<close>

text \<open>
  A pack, an entry of the translation cache, and the state of the service: its packs (a
  \<^verbatim>\<open>Map\<close>, in insertion order), its cache (a plain object), and the two items it keeps in
  local storage, \<^verbatim>\<open>languagePackStatus\<close> and \<^verbatim>\<open>offlineTranslationCache\<close>. Local storage
  is taken to hold what the service wrote and to accept every write; the state keeps the
  cache item as the object that was handed to \<^verbatim>\<open>JSON.stringify\<close>. A call of a method
  is one step: the calls of the service do not overlap. Times are
  milliseconds since the epoch. Sizes and confidences are the decimal fractions of the
  source, as rationals. The translations cached by this service are strings; the type of
  a cached translation is left open for the second service below.
\<close>

record LanguagePack =
  code :: jstring
  name :: jstring
  nativeName :: jstring
  version :: jstring
  sizeMB :: rat
  downloadUrl :: jstring
  isDownloaded :: bool
  lastUpdated :: int
  dictionary :: "(jstring \<times> jstring) list"

record 't CacheEntry =
  translation :: 't
  confidence :: rat
  timestamp :: int

record 't ServiceState =
  languagePacks :: "(jstring \<times> LanguagePack) list"
  translationCache :: "jstring \<rightharpoonup> 't CacheEntry"
  storedStatus :: "jstring \<rightharpoonup> bool"
  storedCache :: "(jstring \<rightharpoonup> 't CacheEntry) option"

type_synonym OfflineTranslationService = "jstring ServiceState"

record StorageInfo =
  totalSize :: rat
  usedSize :: rat
  availablePacks :: nat
  downloadedPacks :: nat

text \<open>The demo dictionaries of \<^verbatim>\<open>loadLanguageDictionary\<close>, Nepali and Sinhala to English.\<close>

definition pack_ne :: "(jstring \<times> jstring) list" where
  "pack_ne = [
    ([0x928, 0x92E, 0x938, 0x94D, 0x924, 0x947], ascii ''Hello''),
    ([0x927, 0x928, 0x94D, 0x92F, 0x935, 0x93E, 0x926], ascii ''Thank you''),
    ([0x92E, 0x93E, 0x92B, 0x20, 0x917, 0x930, 0x94D, 0x928, 0x941, 0x939, 0x94B, 0x938, 0x94D], ascii ''Sorry''),
    ([0x915, 0x943, 0x92A, 0x92F, 0x93E], ascii ''Please''), ([0x939, 0x94B], ascii ''Yes''),
    ([0x939, 0x94B, 0x907, 0x928], ascii ''No''),
    ([0x92A, 0x93E, 0x928, 0x940], ascii ''Water''),
    ([0x916, 0x93E, 0x928, 0x93E], ascii ''Food''), ([0x918, 0x930], ascii ''Home''),
    ([0x935, 0x93F, 0x926, 0x94D, 0x92F, 0x93E, 0x932, 0x92F], ascii ''School''),
    ([0x915, 0x93E, 0x92E], ascii ''Work''), ([0x938, 0x92E, 0x92F], ascii ''Time''),
    ([0x92A, 0x948, 0x938, 0x93E], ascii ''Money''),
    ([0x92E, 0x93F, 0x924, 0x94D, 0x930], ascii ''Friend''),
    ([0x92A, 0x930, 0x93F, 0x935, 0x93E, 0x930], ascii ''Family''),
    ([0x92A, 0x94D, 0x930, 0x947, 0x92E], ascii ''Love''),
    ([0x916, 0x941, 0x936, 0x940], ascii ''Happiness''),
    ([0x926, 0x941, 0x903, 0x916], ascii ''Sadness''),
    ([0x938, 0x94D, 0x935, 0x93E, 0x938, 0x94D, 0x925, 0x94D, 0x92F], ascii ''Health''),
    ([0x936, 0x93F, 0x915, 0x94D, 0x937, 0x93E], ascii ''Education''),
    ([0x924, 0x92A, 0x93E, 0x908, 0x902, 0x20, 0x915, 0x938, 0x94D, 0x924, 0x94B, 0x20, 0x939, 0x941, 0x928, 0x941, 0x939, 0x941, 0x928, 0x94D, 0x91B, 0x3F], ascii ''How are you?''),
    ([0x92E, 0x947, 0x930, 0x94B, 0x20, 0x928, 0x93E, 0x92E], ascii ''My name is''),
    ([0x92E, 0x20, 0x928, 0x947, 0x92A, 0x93E, 0x932, 0x940, 0x20, 0x92C, 0x94B, 0x932, 0x94D, 0x91B, 0x941], ascii ''I speak Nepali''),
    ([0x924, 0x92A, 0x93E, 0x908, 0x902, 0x932, 0x93E, 0x908, 0x20, 0x92D, 0x947, 0x91F, 0x947, 0x930, 0x20, 0x916, 0x941, 0x936, 0x940, 0x20, 0x932, 0x93E, 0x917, 0x94D, 0x92F, 0x94B], ascii ''Nice to meet you''),
    ([0x92F, 0x94B, 0x20, 0x915, 0x924, 0x93F, 0x20, 0x939, 0x94B, 0x3F], ascii ''How much is this?'')
  ]"

definition pack_si :: "(jstring \<times> jstring) list" where
  "pack_si = [
    ([0xD86, 0xDBA, 0xDD4, 0xDB6, 0xDDD, 0xDC0, 0xDB1, 0xDCA], ascii ''Hello''),
    ([0xDC3, 0xDCA, 0xDAD, 0xDD6, 0xDAD, 0xDD2, 0xDBA, 0xDD2], ascii ''Thank you''),
    ([0xDC3, 0xDB8, 0xDCF, 0xDC0, 0xDB1, 0xDCA, 0xDB1], ascii ''Sorry''),
    ([0xD9A, 0xDBB, 0xDD4, 0xDAB, 0xDCF, 0xD9A, 0xDBB], ascii ''Please''),
    ([0xD94, 0xDC0, 0xDCA], ascii ''Yes''), ([0xDB1, 0xDD0, 0xDC4, 0xDD0], ascii ''No''),
    ([0xDC0, 0xDAD, 0xDD4, 0xDBB], ascii ''Water''), ([0xD9A, 0xDD1, 0xDB8], ascii ''Food''),
    ([0xD9C, 0xDD9, 0xDAF, 0xDBB], ascii ''Home''),
    ([0xDB4, 0xDCF, 0xDC3, 0xDBD], ascii ''School''), ([0xDC0, 0xDD0, 0xDA9], ascii ''Work''),
    ([0xDC0, 0xDD9, 0xDBD, 0xDCF, 0xDC0], ascii ''Time''),
    ([0xDB4, 0xDD2, 0xDC3, 0xDD4], ascii ''Money''),
    ([0xDBA, 0xDCF, 0xDC5, 0xDD4, 0xDC0, 0xDCF], ascii ''Friend''),
    ([0xDB4, 0xDC0, 0xDD4, 0xDBD], ascii ''Family''),
    ([0xD86, 0xDAF, 0xDBB, 0xDBA], ascii ''Love''),
    ([0xDC3, 0xDAD, 0xDD4, 0xDA7], ascii ''Happiness''),
    ([0xDAF, 0xDD4, 0xD9A], ascii ''Sadness''),
    ([0xDC3, 0xDDE, 0xD9B, 0xDCA, 0x200D, 0xDBA, 0xDBA], ascii ''Health''),
    ([0xD85, 0xDB0, 0xDCA, 0x200D, 0xDBA, 0xDCF, 0xDB4, 0xDB1, 0xDBA], ascii ''Education''),
    ([0xD94, 0xDBA, 0xDCF, 0x20, 0xD9A, 0xDDC, 0xDC4, 0xDDC, 0xDB8, 0xDAF, 0x3F], ascii ''How are you?''),
    ([0xDB8, 0xD9C, 0xDDA, 0x20, 0xDB1, 0xDB8], ascii ''My name is''),
    ([0xDB8, 0xDB8, 0x20, 0xDC3, 0xDD2, 0xD82, 0xDC4, 0xDBD, 0x20, 0xD9A, 0xDAD, 0xDCF, 0x20, 0xD9A, 0xDBB, 0xDB1, 0xDC0, 0xDCF], ascii ''I speak Sinhala''),
    ([0xD94, 0xDBA, 0xDCF, 0xDC0, 0x20, 0xDB8, 0xDD4, 0xDAB, 0xD9C, 0xDD0, 0xDC3, 0xDD3, 0xDB8, 0x20, 0xDC3, 0xDAD, 0xDD4, 0xDA7, 0xD9A, 0xDCA], ascii ''Nice to meet you''),
    ([0xDB8, 0xDDA, 0xD9A, 0x20, 0xD9A, 0xDD3, 0xDBA, 0xDAF, 0x3F], ascii ''How much is this?'')
  ]"

definition dictionaries :: "(jstring \<times> (jstring \<times> jstring) list) list" where
  "dictionaries = [(ascii ''ne'', pack_ne), (ascii ''si'', pack_si)]"

definition initializeLanguagePacks :: "int \<Rightarrow> (jstring \<times> LanguagePack) list" where
  "initializeLanguagePacks now =
     [(ascii ''ne'',
        \<lparr>code = ascii ''ne'', name = ascii ''Nepali'',
         nativeName = [0x928, 0x947, 0x92A, 0x93E, 0x932, 0x940], version = ascii ''1.0.0'',
         sizeMB = 15.5, downloadUrl = ascii ''/language-packs/nepali-en.pack'',
         isDownloaded = False, lastUpdated = now, dictionary = []\<rparr>),
      (ascii ''si'',
        \<lparr>code = ascii ''si'', name = ascii ''Sinhala'',
         nativeName = [0xDC3, 0xDD2, 0xD82, 0xDC4, 0xDBD], version = ascii ''1.0.0'',
         sizeMB = 12.3, downloadUrl = ascii ''/language-packs/sinhala-en.pack'',
         isDownloaded = False, lastUpdated = now, dictionary = []\<rparr>)]"

text \<open>
  The second service repeats \<^verbatim>\<open>getAvailableLanguagePacks\<close>, \<^verbatim>\<open>saveLanguagePackStatus\<close>,
  \<^verbatim>\<open>saveCacheToStorage\<close>, \<^verbatim>\<open>removeLanguagePack\<close>, \<^verbatim>\<open>getStorageInfo\<close> and
  \<^verbatim>\<open>clearOfflineData\<close> word for word, so these are defined once, for both states.
\<close>

text \<open>A change to the pack stored under a code; the other packs stay as they are.\<close>

definition updatePack ::
  "jstring \<Rightarrow> (LanguagePack \<Rightarrow> LanguagePack) \<Rightarrow> (jstring \<times> LanguagePack) list
     \<Rightarrow> (jstring \<times> LanguagePack) list" where
  "updatePack langCode f packs = map (\<lambda>(c, p). if c = langCode then (c, f p) else (c, p)) packs"

definition isLanguagePackDownloaded :: "OfflineTranslationService \<Rightarrow> jstring \<Rightarrow> bool" where
  "isLanguagePackDownloaded svc langCode =
     (case map_of (languagePacks svc) langCode of
        Some pack \<Rightarrow> isDownloaded pack
      | None \<Rightarrow> False)"

definition getAvailableLanguagePacks ::
  "('t, 'm) ServiceState_scheme \<Rightarrow> LanguagePack list" where
  "getAvailableLanguagePacks svc = map snd (languagePacks svc)"

definition loadLanguageDictionary :: "OfflineTranslationService \<Rightarrow> jstring \<Rightarrow> OfflineTranslationService" where
  "loadLanguageDictionary svc langCode =
     (case map_of (languagePacks svc) langCode of
        None \<Rightarrow> svc
      | Some pack \<Rightarrow>
          (case map_of dictionaries langCode of
             Some d \<Rightarrow> svc\<lparr>languagePacks := updatePack langCode (\<lambda>p. p\<lparr>dictionary := d\<rparr>) (languagePacks svc)\<rparr>
           | None \<Rightarrow> svc))"

definition saveLanguagePackStatus ::
  "('t, 'm) ServiceState_scheme \<Rightarrow> jstring \<Rightarrow> bool \<Rightarrow> ('t, 'm) ServiceState_scheme" where
  "saveLanguagePackStatus svc langCode flag = svc\<lparr>storedStatus := (storedStatus svc)(langCode \<mapsto> flag)\<rparr>"

definition saveCacheToStorage ::
  "('t, 'm) ServiceState_scheme \<Rightarrow> ('t, 'm) ServiceState_scheme" where
  "saveCacheToStorage svc = svc\<lparr>storedCache := Some (translationCache svc)\<rparr>"

text \<open>
  The progress of a download is computed in double precision, \<^verbatim>\<open>(i / totalSteps) * 100\<close>,
  so each of the two operations rounds its exact result to the nearest double, a tie going
  to the even significand. \<open>toDouble\<close> is that rounding for the numbers between the
  smallest normal and the largest double, which is where the numbers of the services are:
  \<open>exponentOf a\<close> is the power of two at or below \<open>a\<close>, and a double has 52 binary
  places below it.
\<close>

function bitLength :: "nat \<Rightarrow> nat" where
  "bitLength n = (if n = 0 then 0 else Suc (bitLength (n div 2)))"
  by pat_completeness auto
termination
  by (relation "measure id") auto

declare bitLength.simps [simp del]

definition roundHalfEven :: "rat \<Rightarrow> int" where
  "roundHalfEven q =
     (let f = \<lfloor>q\<rfloor>; r = q - of_int f
      in if r < 1 / 2 then f else if 1 / 2 < r then f + 1 else if even f then f else f + 1)"

definition exponentOf :: "rat \<Rightarrow> int" where
  "exponentOf a =
     (if 1 \<le> a then int (bitLength (nat \<lfloor>a\<rfloor>)) - 1 else - int (bitLength (nat (\<lceil>1 / a\<rceil> - 1))))"

definition toDouble :: "rat \<Rightarrow> rat" where
  "toDouble q =
     (if q = 0 then 0
      else (let ulp = 2 powi (exponentOf \<bar>q\<bar> - 52)
            in sgn q * of_int (roundHalfEven (\<bar>q\<bar> / ulp)) * ulp))"

text \<open>The values \<^verbatim>\<open>(i / totalSteps) * 100\<close> for \<^verbatim>\<open>i\<close> from 0 to \<^verbatim>\<open>totalSteps\<close>.\<close>

definition progressValues :: "nat \<Rightarrow> rat list" where
  "progressValues totalSteps =
     map (\<lambda>i. toDouble (toDouble (of_nat i / of_nat totalSteps) * 100)) [0 ..< Suc totalSteps]"

text \<open>
  The loop of \<^verbatim>\<open>downloadLanguagePack\<close> hands these values, one after the other, to the
  callback \<^verbatim>\<open>onProgress\<close> when the caller gave one. A callback is described by the values
  on which it returns; on any other value it throws, which ends the loop. The result says
  whether the loop came to its end, and lists the values the callback was called with.
\<close>

fun reportProgress :: "(rat \<Rightarrow> bool) option \<Rightarrow> rat list \<Rightarrow> bool \<times> rat list" where
  "reportProgress None vs = (True, [])"
| "reportProgress (Some returns) [] = (True, [])"
| "reportProgress (Some returns) (v # vs) =
     (if returns v
      then (case reportProgress (Some returns) vs of (completed, reported) \<Rightarrow> (completed, v # reported))
      else (False, [v]))"

text \<open>
  \<^verbatim>\<open>downloadLanguagePack\<close> throws for an unknown code. For a known code it runs the
  loop, loads the dictionary, marks the pack as downloaded, saves the status and returns
  \<^verbatim>\<open>true\<close>, all inside \<^verbatim>\<open>try\<close>: when the callback throws, the \<^verbatim>\<open>catch\<close> block
  returns \<^verbatim>\<open>false\<close>, and nothing has been done to the pack. With a local storage that
  accepts every write the callback is the only call in the block that can throw. The result
  is the returned flag, the values the callback was called with, and the new state.
\<close>

definition downloadLanguagePack ::
  "OfflineTranslationService \<Rightarrow> jstring \<Rightarrow> (rat \<Rightarrow> bool) option
     \<Rightarrow> error + (bool \<times> rat list \<times> OfflineTranslationService)" where
  "downloadLanguagePack svc langCode onProgress =
     (case map_of (languagePacks svc) langCode of
        None \<Rightarrow> Inl (Error (ascii ''Language pack not found: '' @ langCode))
      | Some pack \<Rightarrow>
          (case reportProgress onProgress (progressValues 100) of
             (False, reported) \<Rightarrow> Inr (False, reported, svc)
           | (True, reported) \<Rightarrow>
               (let svc1 = loadLanguageDictionary svc langCode;
                    svc2 = svc1\<lparr>languagePacks := updatePack langCode (\<lambda>p. p\<lparr>isDownloaded := True\<rparr>) (languagePacks svc1)\<rparr>
                in Inr (True, reported, saveLanguagePackStatus svc2 langCode True))))"

text \<open>\<^verbatim>\<open>dictionary.get(key) || other\<close> on a \<^verbatim>\<open>Map\<close>: the entry when it is a non-empty string.\<close>

definition mapGetOr :: "(jstring \<times> jstring) list \<Rightarrow> jstring \<Rightarrow> jstring \<Rightarrow> jstring" where
  "mapGetOr d key other = (case map_of d key of Some (c # cs) \<Rightarrow> c # cs | _ \<Rightarrow> other)"

definition performDictionaryTranslation :: "host \<Rightarrow> jstring \<Rightarrow> (jstring \<times> jstring) list \<Rightarrow> jstring" where
  "performDictionaryTranslation h text d =
     (case map_of d (trim text) of
        Some (c # cs) \<Rightarrow> c # cs
      | _ \<Rightarrow> join (ascii '' '')
               (map (\<lambda>word. mapGetOr d (trim (toLowerCase h word)) word) (splitWhitespace text)))"

definition performPhraseTranslation :: "jstring \<Rightarrow> (jstring \<times> jstring) list \<Rightarrow> jstring" where
  "performPhraseTranslation text d =
     (case find (\<lambda>(phrase, translated). includesStr text phrase \<or> includesStr phrase text) d of
        Some (phrase, translated) \<Rightarrow> translated
      | None \<Rightarrow> ascii ''[Offline] '' @ text)"

text \<open>
  \<^verbatim>\<open>translateOffline\<close>: the cache key is \<^verbatim>\<open>`${sourceLang}-${targetLang}-${text}`\<close>, and an
  entry is returned while \<^verbatim>\<open>Date.now() - cached.timestamp.getTime() < 24 * 60 * 60 * 1000\<close>.
\<close>

definition cacheKey :: "jstring \<Rightarrow> jstring \<Rightarrow> jstring \<Rightarrow> jstring" where
  "cacheKey text sourceLang targetLang = sourceLang @ ascii ''-'' @ targetLang @ ascii ''-'' @ text"

definition translateOffline ::
  "host \<Rightarrow> int \<Rightarrow> OfflineTranslationService \<Rightarrow> jstring \<Rightarrow> jstring \<Rightarrow> jstring
     \<Rightarrow> error + (jstring \<times> OfflineTranslationService)" where
  "translateOffline h now svc text sourceLang targetLang =
     (if \<not> isLanguagePackDownloaded svc sourceLang
      then Inl (Error (ascii ''Language pack not downloaded: '' @ sourceLang))
      else
        (let key = cacheKey text sourceLang targetLang;
             recent = (case translationCache svc key of
                         Some cached \<Rightarrow>
                           if now - timestamp cached < 24 * 60 * 60 * 1000 then Some (translation cached)
                           else None
                       | None \<Rightarrow> None)
         in case recent of
              Some cachedTranslation \<Rightarrow> Inr (cachedTranslation, svc)
            | None \<Rightarrow>
                (case map_of (languagePacks svc) sourceLang of
                   None \<Rightarrow> Inl (Error (ascii ''Dictionary not available for: '' @ sourceLang))
                 | Some pack \<Rightarrow>
                     (let first = performDictionaryTranslation h text (dictionary pack);
                          result = (if first = text then performPhraseTranslation text (dictionary pack)
                                    else first);
                          entry = \<lparr>translation = result,
                                   confidence = (if result = text then 0.3 else 0.8),
                                   timestamp = now\<rparr>
                      in Inr (result,
                              saveCacheToStorage
                                (svc\<lparr>translationCache := (translationCache svc)(key \<mapsto> entry)\<rparr>))))))"

text \<open>
  \<^verbatim>\<open>removeLanguagePack\<close> deletes the cache keys that start with
  \<^verbatim>\<open>`${langCode}-`\<close>.
\<close>

definition removeLanguagePack ::
  "('t, 'm) ServiceState_scheme \<Rightarrow> jstring \<Rightarrow> bool \<times> ('t, 'm) ServiceState_scheme" where
  "removeLanguagePack svc langCode =
     (case map_of (languagePacks svc) langCode of
        None \<Rightarrow> (False, svc)
      | Some pack \<Rightarrow>
          (let svc1 = svc\<lparr>languagePacks :=
                           updatePack langCode (\<lambda>p. p\<lparr>isDownloaded := False, dictionary := []\<rparr>)
                             (languagePacks svc)\<rparr>;
               svc2 = saveLanguagePackStatus svc1 langCode False;
               svc3 = svc2\<lparr>translationCache :=
                            (\<lambda>key. if startsWith key (langCode @ ascii ''-'') then None
                                   else translationCache svc2 key)\<rparr>
           in (True, saveCacheToStorage svc3)))"

definition getStorageInfo ::
  "('t, 'm) ServiceState_scheme \<Rightarrow> StorageInfo" where
  "getStorageInfo svc =
     (let packs = getAvailableLanguagePacks svc;
          downloaded = filter isDownloaded packs
      in \<lparr>totalSize = foldl (\<lambda>sum pack. sum + sizeMB pack) 0 packs,
          usedSize = foldl (\<lambda>sum pack. sum + sizeMB pack) 0 downloaded,
          availablePacks = length packs,
          downloadedPacks = length downloaded\<rparr>)"

definition clearOfflineData ::
  "('t, 'm) ServiceState_scheme \<Rightarrow> ('t, 'm) ServiceState_scheme" where
  "clearOfflineData svc =
     svc\<lparr>translationCache := Map.empty,
         languagePacks := map (\<lambda>(c, p). (c, p\<lparr>isDownloaded := False, dictionary := []\<rparr>)) (languagePacks svc),
         storedCache := None,
         storedStatus := Map.empty\<rparr>"

text \<open>
  The constructor: the packs, then \<^verbatim>\<open>loadCachedTranslations\<close>, which takes the stored
  cache and marks as downloaded, with its dictionary, every pack whose stored status is
  true (the codes in the stored status that have no pack are skipped).
\<close>

definition loadCachedTranslations :: "OfflineTranslationService \<Rightarrow> OfflineTranslationService" where
  "loadCachedTranslations svc =
     (let svc1 = (case storedCache svc of Some cached \<Rightarrow> svc\<lparr>translationCache := cached\<rparr> | None \<Rightarrow> svc)
      in fold (\<lambda>langCode s.
                 if storedStatus s langCode = Some True
                 then loadLanguageDictionary
                        (s\<lparr>languagePacks := updatePack langCode (\<lambda>p. p\<lparr>isDownloaded := True\<rparr>) (languagePacks s)\<rparr>)
                        langCode
                 else s)
              (map fst (languagePacks svc1)) svc1)"

definition newService ::
  "int \<Rightarrow> (jstring \<rightharpoonup> bool) \<Rightarrow> (jstring \<rightharpoonup> jstring CacheEntry) option
     \<Rightarrow> OfflineTranslationService" where
  "newService now status cached =
     loadCachedTranslations
       \<lparr>languagePacks = initializeLanguagePacks now, translationCache = Map.empty,
        storedStatus = status, storedCache = cached\<rparr>"

text \<open>
  The states the service can be in: the state the constructor builds from what local
  storage holds, and every state a call of a public method leaves.
\<close>

inductive reachable :: "OfflineTranslationService \<Rightarrow> bool" where
  start: "reachable (newService now status cached)"
| download: "reachable svc \<Longrightarrow> downloadLanguagePack svc langCode onProgress = Inr (ok, progress, svc')
             \<Longrightarrow> reachable svc'"
| translate: "reachable svc \<Longrightarrow> translateOffline h now svc text sourceLang targetLang = Inr (out, svc')
              \<Longrightarrow> reachable svc'"
| remove: "reachable svc \<Longrightarrow> removeLanguagePack svc langCode = (ok, svc') \<Longrightarrow> reachable svc'"
| clear: "reachable svc \<Longrightarrow> reachable (clearOfflineData svc)"

section \<open>The second offline pack manager (\<^verbatim>\<open>OfflineTranslationService\<close> of the unnamed part 002)\<close>

text \<open>
  The repository holds a second, longer \<^verbatim>\<open>OfflineTranslationService\<close>. It adds an English
  pack, fixed answers for known texts, language detection, translators of its own between
  English, Nepali and Sinhala, and a local storage item \<^verbatim>\<open>langPack_<code>_downloaded\<close>
  per language. Its definitions carry the suffix \<open>2\<close> where the first service has one of
  the same name. Its translators read plain objects, so a cached translation is a value.
\<close>

record ServiceState2 = "jsval ServiceState" +
  downloadedItems :: "jstring \<Rightarrow> bool"

type_synonym OfflineTranslationService2 = ServiceState2

text \<open>The dictionaries of \<^verbatim>\<open>loadLanguageDictionary\<close>, as the entries given to \<^verbatim>\<open>new Map\<close>.\<close>

definition pack2_ne_entries :: "(jstring \<times> jstring) list" where
  "pack2_ne_entries = [
    ([0x928, 0x92E, 0x938, 0x94D, 0x924, 0x947], ascii ''Hello''),
    ([0x927, 0x928, 0x94D, 0x92F, 0x935, 0x93E, 0x926], ascii ''Thank you''),
    ([0x92E, 0x93E, 0x92B, 0x20, 0x917, 0x930, 0x94D, 0x928, 0x941, 0x939, 0x94B, 0x938, 0x94D], ascii ''Sorry''),
    ([0x915, 0x943, 0x92A, 0x92F, 0x93E], ascii ''Please''), ([0x939, 0x94B], ascii ''Yes''),
    ([0x939, 0x94B, 0x907, 0x928], ascii ''No''),
    ([0x92A, 0x93E, 0x928, 0x940], ascii ''Water''),
    ([0x916, 0x93E, 0x928, 0x93E], ascii ''Food''), ([0x918, 0x930], ascii ''Home''),
    ([0x935, 0x93F, 0x926, 0x94D, 0x92F, 0x93E, 0x932, 0x92F], ascii ''School''),
    ([0x915, 0x93E, 0x92E], ascii ''Work''), ([0x938, 0x92E, 0x92F], ascii ''Time''),
    ([0x92A, 0x948, 0x938, 0x93E], ascii ''Money''),
    ([0x92E, 0x93F, 0x924, 0x94D, 0x930], ascii ''Friend''),
    ([0x92A, 0x930, 0x93F, 0x935, 0x93E, 0x930], ascii ''Family''),
    ([0x92A, 0x94D, 0x930, 0x947, 0x92E], ascii ''Love''),
    ([0x916, 0x941, 0x936, 0x940], ascii ''Happiness''),
    ([0x926, 0x941, 0x903, 0x916], ascii ''Sadness''),
    ([0x938, 0x94D, 0x935, 0x93E, 0x938, 0x94D, 0x925, 0x94D, 0x92F], ascii ''Health''),
    ([0x936, 0x93F, 0x915, 0x94D, 0x937, 0x93E], ascii ''Education''),
    ([0x924, 0x92A, 0x93E, 0x908, 0x902, 0x20, 0x915, 0x938, 0x94D, 0x924, 0x94B, 0x20, 0x939, 0x941, 0x928, 0x941, 0x939, 0x941, 0x928, 0x94D, 0x91B, 0x3F], ascii ''How are you?''),
    ([0x92E, 0x947, 0x930, 0x94B, 0x20, 0x928, 0x93E, 0x92E], ascii ''My name is''),
    ([0x92E, 0x20, 0x928, 0x947, 0x92A, 0x93E, 0x932, 0x940, 0x20, 0x92C, 0x94B, 0x932, 0x94D, 0x91B, 0x941], ascii ''I speak Nepali''),
    ([0x924, 0x92A, 0x93E, 0x908, 0x902, 0x932, 0x93E, 0x908, 0x20, 0x92D, 0x947, 0x91F, 0x947, 0x930, 0x20, 0x916, 0x941, 0x936, 0x940, 0x20, 0x932, 0x93E, 0x917, 0x94D, 0x92F, 0x94B], ascii ''Nice to meet you''),
    ([0x92F, 0x94B, 0x20, 0x915, 0x924, 0x93F, 0x20, 0x939, 0x94B, 0x3F], ascii ''How much is this?'')
  ]"

definition pack2_si_entries :: "(jstring \<times> jstring) list" where
  "pack2_si_entries = [
    ([0xD86, 0xDBA, 0xDD4, 0xDB6, 0xDDD, 0xDC0, 0xDB1, 0xDCA], ascii ''Hello''),
    ([0xDC3, 0xDCA, 0xDAD, 0xDD6, 0xDAD, 0xDD2, 0xDBA, 0xDD2], ascii ''Thank you''),
    ([0xDC3, 0xDB8, 0xDCF, 0xDC0, 0xDB1, 0xDCA, 0xDB1], ascii ''Sorry''),
    ([0xD9A, 0xDBB, 0xDD4, 0xDAB, 0xDCF, 0xD9A, 0xDBB], ascii ''Please''),
    ([0xD94, 0xDC0, 0xDCA], ascii ''Yes''), ([0xDB1, 0xDD0, 0xDC4, 0xDD0], ascii ''No''),
    ([0xDC0, 0xDAD, 0xDD4, 0xDBB], ascii ''Water''), ([0xD9A, 0xDD1, 0xDB8], ascii ''Food''),
    ([0xD9C, 0xDD9, 0xDAF, 0xDBB], ascii ''Home''),
    ([0xDB4, 0xDCF, 0xDC3, 0xDBD], ascii ''School''), ([0xDC0, 0xDD0, 0xDA9], ascii ''Work''),
    ([0xDC0, 0xDD9, 0xDBD, 0xDCF, 0xDC0], ascii ''Time''),
    ([0xDC3, 0xDBD, 0xDCA, 0xDBD, 0xDD2], ascii ''Money''),
    ([0xDBA, 0xDCF, 0xDC5, 0xDD4, 0xDC0, 0xDCF], ascii ''Friend''),
    ([0xDB4, 0xDC0, 0xDD4, 0xDBD], ascii ''Family''),
    ([0xD86, 0xDAF, 0xDBB, 0xDBA], ascii ''Love''),
    ([0xDC3, 0xDAD, 0xDD4, 0xDA7], ascii ''Happiness''),
    ([0xDAF, 0xDD4, 0xD9A], ascii ''Sadness''),
    ([0xDC3, 0xDDE, 0xD9B, 0xDCA, 0x200D, 0xDBA, 0xDBA], ascii ''Health''),
    ([0xD85, 0xDB0, 0xDCA, 0x200D, 0xDBA, 0xDCF, 0xDB4, 0xDB1, 0xDBA], ascii ''Education''),
    ([0xD94, 0xDBA, 0xDCF, 0x20, 0xD9A, 0xDDC, 0xDC4, 0xDDC, 0xDB8, 0xDAF, 0x3F], ascii ''How are you?''),
    ([0xDB8, 0xD9C, 0xDDA, 0x20, 0xDB1, 0xDB8], ascii ''My name is''),
    ([0xDB8, 0xDB8, 0x20, 0xDC3, 0xDD2, 0xD82, 0xDC4, 0xDBD, 0x20, 0xD9A, 0xDAD, 0xDCF, 0x20, 0xD9A, 0xDBB, 0xDB1, 0xDC0, 0xDCF], ascii ''I speak Sinhala''),
    ([0xD94, 0xDBA, 0xDCF, 0xDC0, 0x20, 0xDB8, 0xDD4, 0xDAB, 0xD9C, 0xDD0, 0xDC3, 0xDD3, 0xDB8, 0x20, 0xDC3, 0xDAD, 0xDD4, 0xDA7, 0xD9A, 0xDCA], ascii ''Nice to meet you''),
    ([0xDB8, 0xDDA, 0xD9A, 0x20, 0xD9A, 0xDD3, 0xDBA, 0xDAF, 0x3F], ascii ''How much is this?'')
  ]"

definition pack2_en_entries :: "(jstring \<times> jstring) list" where
  "pack2_en_entries = [
    (ascii ''Hello'', [0x928, 0x92E, 0x938, 0x94D, 0x924, 0x947]),
    (ascii ''Thank you'', [0x927, 0x928, 0x94D, 0x92F, 0x935, 0x93E, 0x926]),
    (ascii ''Sorry'', [0x92E, 0x93E, 0x92B, 0x20, 0x917, 0x930, 0x94D, 0x928, 0x941, 0x939, 0x94B, 0x938, 0x94D]),
    (ascii ''Please'', [0x915, 0x943, 0x92A, 0x92F, 0x93E]), (ascii ''Yes'', [0x939, 0x94B]),
    (ascii ''No'', [0x939, 0x94B, 0x907, 0x928]),
    (ascii ''Water'', [0x92A, 0x93E, 0x928, 0x940]),
    (ascii ''Food'', [0x916, 0x93E, 0x928, 0x93E]), (ascii ''Home'', [0x918, 0x930]),
    (ascii ''School'', [0x935, 0x93F, 0x926, 0x94D, 0x92F, 0x93E, 0x932, 0x92F]),
    (ascii ''Work'', [0x915, 0x93E, 0x92E]), (ascii ''Time'', [0x938, 0x92E, 0x92F]),
    (ascii ''Money'', [0x92A, 0x948, 0x938, 0x93E]),
    (ascii ''Friend'', [0x92E, 0x93F, 0x924, 0x94D, 0x930]),
    (ascii ''Family'', [0x92A, 0x930, 0x93F, 0x935, 0x93E, 0x930]),
    (ascii ''Love'', [0x92A, 0x94D, 0x930, 0x947, 0x92E]),
    (ascii ''Happiness'', [0x916, 0x941, 0x936, 0x940]),
    (ascii ''Sadness'', [0x926, 0x941, 0x903, 0x916]),
    (ascii ''Health'', [0x938, 0x94D, 0x935, 0x93E, 0x938, 0x94D, 0x925, 0x94D, 0x92F]),
    (ascii ''Education'', [0x936, 0x93F, 0x915, 0x94D, 0x937, 0x93E]),
    (ascii ''Hello'', [0xD86, 0xDBA, 0xDD4, 0xDB6, 0xDDD, 0xDC0, 0xDB1, 0xDCA]),
    (ascii ''Thank you'', [0xDC3, 0xDCA, 0xDAD, 0xDD6, 0xDAD, 0xDD2, 0xDBA, 0xDD2]),
    (ascii ''Sorry'', [0xDC3, 0xDB8, 0xDCF, 0xDC0, 0xDB1, 0xDCA, 0xDB1]),
    (ascii ''Please'', [0xD9A, 0xDBB, 0xDD4, 0xDAB, 0xDCF, 0xD9A, 0xDBB]),
    (ascii ''Yes'', [0xD94, 0xDC0, 0xDCA]), (ascii ''No'', [0xDB1, 0xDD0, 0xDC4, 0xDD0]),
    (ascii ''Water'', [0xDC0, 0xDAD, 0xDD4, 0xDBB]), (ascii ''Food'', [0xD9A, 0xDD1, 0xDB8]),
    (ascii ''Home'', [0xD9C, 0xDD9, 0xDAF, 0xDBB]),
    (ascii ''School'', [0xDB4, 0xDCF, 0xDC3, 0xDBD]), (ascii ''Work'', [0xDC0, 0xDD0, 0xDA9]),
    (ascii ''Time'', [0xDC0, 0xDD9, 0xDBD, 0xDCF, 0xDC0]),
    (ascii ''Money'', [0xDC3, 0xDBD, 0xDCA, 0xDBD, 0xDD2]),
    (ascii ''Friend'', [0xDBA, 0xDCF, 0xDC5, 0xDD4, 0xDC0, 0xDCF]),
    (ascii ''Family'', [0xDB4, 0xDC0, 0xDD4, 0xDBD]),
    (ascii ''Love'', [0xD86, 0xDAF, 0xDBB, 0xDBA]),
    (ascii ''Happiness'', [0xDC3, 0xDAD, 0xDD4, 0xDA7]),
    (ascii ''Sadness'', [0xDAF, 0xDD4, 0xD9A]),
    (ascii ''Health'', [0xDC3, 0xDDE, 0xD9B, 0xDCA, 0x200D, 0xDBA, 0xDBA]),
    (ascii ''Education'', [0xD85, 0xDB0, 0xDCA, 0x200D, 0xDBA, 0xDCF, 0xDB4, 0xDB1, 0xDBA])
  ]"

text \<open>
  \<^verbatim>\<open>new Map(entries)\<close> keeps a repeated key at its first place with its last value, as
  an object literal does.
\<close>

definition dictionaries2 :: "(jstring \<times> (jstring \<times> jstring) list) list" where
  "dictionaries2 =
     [(ascii ''ne'', objectLiteral pack2_ne_entries),
      (ascii ''si'', objectLiteral pack2_si_entries),
      (ascii ''en'', objectLiteral pack2_en_entries)]"

text \<open>The tables of the four translators, as their object literals are written.\<close>

definition neToEnDict_literal :: "(jstring \<times> jstring) list" where
  "neToEnDict_literal = [
    ([0x928, 0x92E, 0x938, 0x94D, 0x924, 0x947], ascii ''Hello''),
    ([0x927, 0x928, 0x94D, 0x92F, 0x935, 0x93E, 0x926], ascii ''Thank you''),
    ([0x92E, 0x93E, 0x92B, 0x20, 0x917, 0x930, 0x94D, 0x928, 0x941, 0x939, 0x94B, 0x938, 0x94D], ascii ''Sorry''),
    ([0x915, 0x943, 0x92A, 0x92F, 0x93E], ascii ''Please''), ([0x939, 0x94B], ascii ''Yes''),
    ([0x939, 0x94B, 0x907, 0x928], ascii ''No''),
    ([0x92A, 0x93E, 0x928, 0x940], ascii ''Water''),
    ([0x916, 0x93E, 0x928, 0x93E], ascii ''Food''), ([0x918, 0x930], ascii ''Home''),
    ([0x935, 0x93F, 0x926, 0x94D, 0x92F, 0x93E, 0x932, 0x92F], ascii ''School''),
    ([0x915, 0x93E, 0x92E], ascii ''Work''), ([0x938, 0x92E, 0x92F], ascii ''Time''),
    ([0x92A, 0x948, 0x938, 0x93E], ascii ''Money''),
    ([0x92E, 0x93F, 0x924, 0x94D, 0x930], ascii ''Friend''),
    ([0x92A, 0x930, 0x93F, 0x935, 0x93E, 0x930], ascii ''Family''),
    ([0x92A, 0x94D, 0x930, 0x947, 0x92E], ascii ''Love''),
    ([0x916, 0x941, 0x936, 0x940], ascii ''Happiness''),
    ([0x926, 0x941, 0x903, 0x916], ascii ''Sadness''),
    ([0x938, 0x94D, 0x935, 0x93E, 0x938, 0x94D, 0x925, 0x94D, 0x92F], ascii ''Health''),
    ([0x936, 0x93F, 0x915, 0x94D, 0x937, 0x93E], ascii ''Education''),
    ([0x924, 0x92A, 0x93E, 0x908, 0x902, 0x20, 0x915, 0x938, 0x94D, 0x924, 0x94B, 0x20, 0x939, 0x941, 0x928, 0x941, 0x939, 0x941, 0x928, 0x94D, 0x91B, 0x3F], ascii ''How are you?''),
    ([0x92E, 0x947, 0x930, 0x94B, 0x20, 0x928, 0x93E, 0x92E], ascii ''My name is''),
    ([0x92E, 0x20, 0x928, 0x947, 0x92A, 0x93E, 0x932, 0x940, 0x20, 0x92C, 0x94B, 0x932, 0x94D, 0x91B, 0x941], ascii ''I speak Nepali''),
    ([0x924, 0x92A, 0x93E, 0x908, 0x902, 0x932, 0x93E, 0x908, 0x20, 0x92D, 0x947, 0x91F, 0x947, 0x930, 0x20, 0x916, 0x941, 0x936, 0x940, 0x20, 0x932, 0x93E, 0x917, 0x94D, 0x92F, 0x94B], ascii ''Nice to meet you''),
    ([0x92F, 0x94B, 0x20, 0x915, 0x924, 0x93F, 0x20, 0x939, 0x94B, 0x3F], ascii ''How much is this?''),
    ([0x928, 0x947, 0x92A, 0x93E, 0x932, 0x940, 0x20, 0x92D, 0x93E, 0x937, 0x93E], ascii ''Nepali language''),
    ([0x90F, 0x915], ascii ''One''), ([0x926, 0x941, 0x908], ascii ''Two''),
    ([0x924, 0x940, 0x928], ascii ''Three''), ([0x91A, 0x93E, 0x930], ascii ''Four''),
    ([0x92A, 0x93E, 0x901, 0x91A], ascii ''Five''), ([0x91B], ascii ''Six''),
    ([0x938, 0x93E, 0x924], ascii ''Seven''), ([0x906, 0x920], ascii ''Eight''),
    ([0x928, 0x94C], ascii ''Nine''), ([0x926, 0x936], ascii ''Ten''),
    ([0x930, 0x93E, 0x92E, 0x94D, 0x930, 0x94B], ascii ''Good''),
    ([0x928, 0x930, 0x93E, 0x92E, 0x94D, 0x930, 0x94B], ascii ''Bad''),
    ([0x920, 0x942, 0x932, 0x94B], ascii ''Big''),
    ([0x938, 0x93E, 0x928, 0x94B], ascii ''Small''),
    ([0x905, 0x917, 0x93E, 0x921, 0x93F], ascii ''Forward''),
    ([0x92A, 0x91B, 0x93E, 0x921, 0x93F], ascii ''Backward''),
    ([0x92E, 0x93E, 0x925, 0x93F], ascii ''Up''), ([0x924, 0x932], ascii ''Down''),
    ([0x92D, 0x93F, 0x924, 0x94D, 0x930], ascii ''Inside''),
    ([0x92C, 0x93E, 0x939, 0x93F, 0x930], ascii ''Outside''),
    ([0x92C, 0x93F, 0x939, 0x93E, 0x928], ascii ''Morning''),
    ([0x926, 0x93F, 0x909, 0x901, 0x938, 0x94B], ascii ''Afternoon''),
    ([0x938, 0x93E, 0x901, 0x91D], ascii ''Evening''),
    ([0x930, 0x93E, 0x924], ascii ''Night''), ([0x906, 0x91C], ascii ''Today''),
    ([0x92D, 0x94B, 0x932, 0x93F], ascii ''Tomorrow''),
    ([0x939, 0x93F, 0x91C, 0x94B], ascii ''Yesterday''),
    ([0x905, 0x939, 0x93F, 0x932, 0x947], ascii ''Now''),
    ([0x92A, 0x91B, 0x93F], ascii ''Later''),
    ([0x92A, 0x939, 0x93F, 0x932, 0x947], ascii ''Before''),
    ([0x92D, 0x93E, 0x930, 0x924, 0x940, 0x92F], ascii ''Indian''),
    ([0x930, 0x93E, 0x91C, 0x94D, 0x92F], ascii ''State''),
    ([0x938, 0x93F, 0x915, 0x94D, 0x915, 0x93F, 0x92E], ascii ''Sikkim''),
    ([0x92A, 0x936, 0x94D, 0x91A, 0x93F, 0x92E], ascii ''West''),
    ([0x92C, 0x902, 0x917, 0x93E, 0x932, 0x915, 0x94B], ascii ''Bengal''),
    ([0x917, 0x94B, 0x930, 0x94D, 0x916, 0x93E, 0x939, 0x930, 0x942], ascii ''Gorkhas''),
    ([0x915, 0x94D, 0x937, 0x947, 0x924, 0x94D, 0x930, 0x940, 0x92F], ascii ''Regional''),
    ([0x92A, 0x94D, 0x930, 0x936, 0x93E, 0x938, 0x928, 0x92E, 0x93E], ascii ''Administration''),
    ([0x928, 0x947, 0x92A, 0x93E, 0x932, 0x940], ascii ''Nepali''),
    ([0x92D, 0x93E, 0x937, 0x93F, 0x915, 0x939, 0x930, 0x942], ascii ''Speakers''),
    ([0x939, 0x948, 0x938, 0x93F, 0x92F, 0x924], ascii ''Status''),
    ([0x91B, 0x964], ascii ''Has.''),
    ([0x905, 0x927, 0x93F, 0x915, 0x93E, 0x930, 0x93F, 0x915], ascii ''Official''),
    ([0x92D, 0x93E, 0x937, 0x93E, 0x915, 0x94B], ascii ''Language''),
    ([0x930, 0x942, 0x92A, 0x92E, 0x93E], ascii ''Form''),
    ([0x92E, 0x93E, 0x928, 0x94D, 0x92F, 0x924, 0x93E], ascii ''Recognition''),
    ([0x926, 0x93F, 0x907, 0x90F, 0x915, 0x94B], ascii ''Given''),
    ([0x91B, 0x2C], ascii ''Is,''), ([0x930], ascii ''And''),
    ([0x92D, 0x93E, 0x930, 0x924, 0x915, 0x94B], ascii ''India's''),
    ([0x938, 0x902, 0x935, 0x93F, 0x927, 0x93E, 0x928, 0x915, 0x94B], ascii ''Constitution''),
    ([0x906, 0x920, 0x94C, 0x902], ascii ''Eighth''),
    ([0x905, 0x928, 0x941, 0x938, 0x942, 0x91A, 0x940, 0x92E, 0x93E], ascii ''Schedule''),
    ([0x938, 0x92E, 0x93E, 0x935, 0x947, 0x936], ascii ''Included''),
    ([0x917, 0x930, 0x93F, 0x90F, 0x915, 0x94B], ascii ''Done''),
    ([0x91B, 0x964], ascii ''Is.''),
    ([0x928, 0x947, 0x92A, 0x93E, 0x932, 0x940], ascii ''Nepali''),
    ([0x92D, 0x93E, 0x937, 0x93E], ascii ''Language''), ([0x90F, 0x915], ascii ''One''),
    ([0x906, 0x930, 0x94D, 0x92F], ascii ''Aryan''),
    ([0x92D, 0x93E, 0x937, 0x93E], ascii ''Language''), ([0x939, 0x94B], ascii ''Is''),
    ([0x91C, 0x941, 0x928], ascii ''Which''),
    ([0x926, 0x915, 0x94D, 0x937, 0x93F, 0x923], ascii ''South''),
    ([0x90F, 0x936, 0x93F, 0x92F, 0x93E, 0x915, 0x94B], ascii ''Asia's''),
    ([0x939, 0x93F, 0x92E, 0x93E, 0x932, 0x92F], ascii ''Himalaya''),
    ([0x915, 0x94D, 0x937, 0x947, 0x924, 0x94D, 0x930, 0x92E, 0x93E], ascii ''Region''),
    ([0x92C, 0x94B, 0x932, 0x93F, 0x928, 0x94D, 0x91B, 0x964], ascii ''Is spoken.''),
    ([0x92F, 0x94B], ascii ''This''),
    ([0x928, 0x947, 0x92A, 0x93E, 0x932, 0x915, 0x94B], ascii ''Nepal's''),
    ([0x906, 0x927, 0x93F, 0x915, 0x93E, 0x930, 0x93F, 0x915], ascii ''Official''),
    ([0x92D, 0x93E, 0x937, 0x93E], ascii ''Language''), ([0x939, 0x94B, 0x2C], ascii ''Is,''),
    ([0x91C, 0x939, 0x93E, 0x901], ascii ''Where''),
    ([0x92F, 0x938, 0x915, 0x94B], ascii ''Its''),
    ([0x909, 0x924, 0x94D, 0x92A, 0x924, 0x94D, 0x924, 0x93F], ascii ''Origin''),
    ([0x92D, 0x90F, 0x915, 0x94B], ascii ''Happened''),
    ([0x925, 0x93F, 0x92F, 0x94B, 0x964], ascii ''Was.''),
    ([0x928, 0x947, 0x92A, 0x93E, 0x932, 0x940, 0x20, 0x92D, 0x93E, 0x937, 0x93E, 0x20, 0x90F, 0x915, 0x20, 0x927, 0x928, 0x940, 0x20, 0x92D, 0x93E, 0x937, 0x93E, 0x20, 0x939, 0x94B], ascii ''Nepali is a rich language with a long history and cultural significance.''),
    ([0x928, 0x947, 0x92A, 0x93E, 0x932, 0x940, 0x20, 0x92D, 0x93E, 0x937, 0x93E, 0x20, 0x90F, 0x915, 0x20, 0x927, 0x930, 0x94D, 0x92E, 0x20, 0x92D, 0x93E, 0x937, 0x93E, 0x20, 0x939, 0x94B], ascii ''Nepali is a sacred language with religious and cultural importance.'')
  ]"

definition siToEnDict_literal :: "(jstring \<times> jstring) list" where
  "siToEnDict_literal = [
    ([0xD86, 0xDBA, 0xDD4, 0xDB6, 0xDDD, 0xDC0, 0xDB1, 0xDCA], ascii ''Hello''),
    ([0xDC3, 0xDCA, 0xDAD, 0xDD6, 0xDAD, 0xDD2, 0xDBA, 0xDD2], ascii ''Thank you''),
    ([0xDC3, 0xDB8, 0xDCF, 0xDC0, 0xDB1, 0xDCA, 0xDB1], ascii ''Sorry''),
    ([0xD9A, 0xDBB, 0xDD4, 0xDAB, 0xDCF, 0xD9A, 0xDBB], ascii ''Please''),
    ([0xD94, 0xDC0, 0xDCA], ascii ''Yes''), ([0xDB1, 0xDD0, 0xDC4, 0xDD0], ascii ''No''),
    ([0xDC0, 0xDAD, 0xDD4, 0xDBB], ascii ''Water''), ([0xD9A, 0xDD1, 0xDB8], ascii ''Food''),
    ([0xD9C, 0xDD9, 0xDAF, 0xDBB], ascii ''Home''),
    ([0xDB4, 0xDCF, 0xDC3, 0xDBD], ascii ''School''), ([0xDC0, 0xDD0, 0xDA9], ascii ''Work''),
    ([0xDC0, 0xDD9, 0xDBD, 0xDCF, 0xDC0], ascii ''Time''),
    ([0xDC3, 0xDBD, 0xDCA, 0xDBD, 0xDD2], ascii ''Money''),
    ([0xDBA, 0xDCF, 0xDC5, 0xDD4, 0xDC0, 0xDCF], ascii ''Friend''),
    ([0xDB4, 0xDC0, 0xDD4, 0xDBD], ascii ''Family''),
    ([0xD86, 0xDAF, 0xDBB, 0xDBA], ascii ''Love''),
    ([0xDC3, 0xDAD, 0xDD4, 0xDA7], ascii ''Happiness''),
    ([0xDAF, 0xDD4, 0xD9A], ascii ''Sadness''),
    ([0xDC3, 0xDDE, 0xD9B, 0xDCA, 0x200D, 0xDBA, 0xDBA], ascii ''Health''),
    ([0xD85, 0xDB0, 0xDCA, 0x200D, 0xDBA, 0xDCF, 0xDB4, 0xDB1, 0xDBA], ascii ''Education''),
    ([0xD94, 0xDBA, 0xDCF, 0x20, 0xD9A, 0xDDC, 0xDC4, 0xDDC, 0xDB8, 0xDAF, 0x3F], ascii ''How are you?''),
    ([0xDB8, 0xD9C, 0xDDA, 0x20, 0xDB1, 0xDB8], ascii ''My name is''),
    ([0xDB8, 0xDB8, 0x20, 0xDC3, 0xDD2, 0xD82, 0xDC4, 0xDBD, 0x20, 0xD9A, 0xDAD, 0xDCF, 0x20, 0xD9A, 0xDBB, 0xDB1, 0xDC0, 0xDCF], ascii ''I speak Sinhala''),
    ([0xD94, 0xDBA, 0xDCF, 0xDC0, 0x20, 0xDB8, 0xDD4, 0xDAB, 0xD9C, 0xDD0, 0xDC3, 0xDD3, 0xDB8, 0x20, 0xDC3, 0xDAD, 0xDD4, 0xDA7, 0xD9A, 0xDCA], ascii ''Nice to meet you''),
    ([0xDB8, 0xDDA, 0xD9A, 0x20, 0xD9A, 0xDD3, 0xDBA, 0xDAF, 0x3F], ascii ''How much is this?''),
    ([0xD91, 0xD9A], ascii ''One''), ([0xDAF, 0xDD9, 0xD9A], ascii ''Two''),
    ([0xDAD, 0xDD4, 0xDB1], ascii ''Three''), ([0xDC4, 0xDAD, 0xDBB], ascii ''Four''),
    ([0xDB4, 0xDC4], ascii ''Five''), ([0xDC4, 0xDBA], ascii ''Six''),
    ([0xDC4, 0xDAD], ascii ''Seven''), ([0xD85, 0xDA7], ascii ''Eight''),
    ([0xDB1, 0xDC0, 0xDBA], ascii ''Nine''), ([0xDAF, 0xDC4, 0xDBA], ascii ''Ten''),
    ([0xDC4, 0xDDC, 0xDB3], ascii ''Good''), ([0xDB1, 0xDBB, 0xD9A], ascii ''Bad''),
    ([0xDBD, 0xDDC, 0xD9A, 0xDD4], ascii ''Big''),
    ([0xDB4, 0xDDC, 0xDA9, 0xDD2], ascii ''Small''),
    ([0xD89, 0xDAF, 0xDD2, 0xDBB, 0xDD2, 0xDBA, 0xDA7], ascii ''Forward''),
    ([0xDB4, 0xDC3, 0xDCA, 0xDC3, 0xDA7], ascii ''Backward''), ([0xD8B, 0xDA9], ascii ''Up''),
    ([0xDBA, 0xDA7], ascii ''Down''), ([0xD87, 0xDAD, 0xDD4, 0xDBD, 0xDDA], ascii ''Inside''),
    ([0xD91, 0xDC5, 0xDD2, 0xDBA, 0xDDA], ascii ''Outside''),
    ([0xD8B, 0xDAF, 0xDDA], ascii ''Morning''),
    ([0xDAF, 0xDC0, 0xDBD, 0xDCA], ascii ''Afternoon''),
    ([0xDC4, 0xDC0, 0xDC3], ascii ''Evening''), ([0xDBB, 0xDD1], ascii ''Night''),
    ([0xD85, 0xDAF], ascii ''Today''), ([0xDC4, 0xDD9, 0xDA7], ascii ''Tomorrow''),
    ([0xD8A, 0xDBA, 0xDDA], ascii ''Yesterday''),
    ([0xDAF, 0xDD0, 0xDB1, 0xDCA], ascii ''Now''),
    ([0xDB4, 0xDC3, 0xDD4, 0xDC0], ascii ''Later''),
    ([0xD9A, 0xDBD, 0xDD2, 0xDB1, 0xDCA], ascii ''Before''),
    ([0xDBD, 0xD82, 0xD9A, 0xDCF, 0xDC0, 0xDDA], ascii ''In Sri Lanka''),
    ([0xDC3, 0xDD2, 0xD82, 0xDC4, 0xDBD], ascii ''Sinhala''),
    ([0xDB7, 0xDCF, 0xDC2, 0xDCF, 0xDC0], ascii ''Language''),
    ([0xDBB, 0xDCF, 0xDA2, 0xDCA, 0x200D, 0xDBA], ascii ''State''),
    ([0xDB7, 0xDCF, 0xDC2, 0xDCF, 0xDC0, 0xD9A, 0xDCA], ascii ''A language''),
    ([0xDBD, 0xDD9, 0xDC3], ascii ''As''),
    ([0xDB4, 0xDD2, 0xDC5, 0xDD2, 0xD9C, 0xDD0, 0xDB1, 0xDDA], ascii ''Is recognized''),
    ([0xDB8, 0xDD9, 0xDBA], ascii ''This''),
    ([0xD89, 0xDB1, 0xDCA, 0xDAF, 0xDD4], ascii ''Indo''),
    ([0xDBA, 0xDD4, 0xDBB, 0xDDD, 0xDB4, 0xDD3, 0xDBA], ascii ''European''),
    ([0xDB7, 0xDCF, 0xDC2, 0xDCF], ascii ''Languages''),
    ([0xDB4, 0xDC0, 0xDD4, 0xDBD, 0xDDA], ascii ''Family''),
    ([0xD89, 0xDB1, 0xDCA, 0xDAF, 0xDD4], ascii ''Indo''),
    ([0xD86, 0xDBB, 0xDCA, 0xDBA], ascii ''Aryan''),
    ([0xDC1, 0xDCF, 0xD9B, 0xDCF, 0xDC0, 0xDA7], ascii ''Branch''),
    ([0xD85, 0xDBA, 0xDAD, 0xDCA], ascii ''Belongs''), ([0xDC0, 0xDDA], ascii ''Is''),
    ([0xDC1, 0xDCA, 0x200D, 0xDBB, 0xDD3], ascii ''Sri''),
    ([0xDBD, 0xD82, 0xD9A, 0xDCF, 0xDC0, 0xDDA], ascii ''Lanka's''),
    ([0xDA2, 0xDB1, 0xD9C, 0xDC4, 0xDB1, 0xDBA, 0xDD9, 0xDB1, 0xDCA], ascii ''Population''),
    ([0xDB6, 0xDC4, 0xDD4, 0xDAD, 0xDBB, 0xDBA, 0xD9A, 0xDCA], ascii ''Majority''),
    ([0xDC3, 0xDD2, 0xD82, 0xDC4, 0xDBD], ascii ''Sinhala''),
    ([0xDB7, 0xDCF, 0xDC2, 0xDCF, 0xDC0], ascii ''Language''),
    ([0xD9A, 0xDAD, 0xDCF], ascii ''Speak''), ([0xD9A, 0xDBB, 0xDAD, 0xDD2], ascii ''Do''),
    ([0xDB8, 0xDD9, 0xDB8], ascii ''This''),
    ([0xDB7, 0xDCF, 0xDC2, 0xDCF, 0xDC0], ascii ''Language''),
    ([0xDC1, 0xDCA, 0x200D, 0xDBB, 0xDD3], ascii ''Sri''),
    ([0xDBD, 0xD82, 0xD9A, 0xDCF, 0xDC0, 0xDDA], ascii ''Lanka's''),
    ([0xDA2, 0xDCF, 0xDAD, 0xDD2, 0xD9A], ascii ''National''),
    ([0xDB7, 0xDCF, 0xDC2, 0xDCF, 0xDC0], ascii ''Language''),
    ([0xDBD, 0xDD9, 0xDC3], ascii ''As''),
    ([0xDC3, 0xDD0, 0xDBD, 0xD9A, 0xDDA], ascii ''Is considered'')
  ]"

definition enToNeDict_literal :: "(jstring \<times> jstring) list" where
  "enToNeDict_literal = [
    (ascii ''hello'', [0x928, 0x92E, 0x938, 0x94D, 0x924, 0x947]),
    (ascii ''hi'', [0x928, 0x92E, 0x938, 0x94D, 0x924, 0x947]),
    (ascii ''goodbye'', [0x92C, 0x93F, 0x926, 0x93E, 0x908]),
    (ascii ''thank you'', [0x927, 0x928, 0x94D, 0x92F, 0x935, 0x93E, 0x926]),
    (ascii ''thanks'', [0x927, 0x928, 0x94D, 0x92F, 0x935, 0x93E, 0x926]),
    (ascii ''sorry'', [0x92E, 0x93E, 0x92B, 0x20, 0x917, 0x930, 0x94D, 0x928, 0x941, 0x939, 0x94B, 0x938, 0x94D]),
    (ascii ''please'', [0x915, 0x943, 0x92A, 0x92F, 0x93E]), (ascii ''yes'', [0x939, 0x94B]),
    (ascii ''no'', [0x939, 0x94B, 0x907, 0x928]),
    (ascii ''water'', [0x92A, 0x93E, 0x928, 0x940]),
    (ascii ''food'', [0x916, 0x93E, 0x928, 0x93E]), (ascii ''home'', [0x918, 0x930]),
    (ascii ''house'', [0x918, 0x930]),
    (ascii ''school'', [0x935, 0x93F, 0x926, 0x94D, 0x92F, 0x93E, 0x932, 0x92F]),
    (ascii ''work'', [0x915, 0x93E, 0x92E]), (ascii ''job'', [0x915, 0x93E, 0x92E]),
    (ascii ''time'', [0x938, 0x92E, 0x92F]), (ascii ''money'', [0x92A, 0x948, 0x938, 0x93E]),
    (ascii ''friend'', [0x92E, 0x93F, 0x924, 0x94D, 0x930]),
    (ascii ''family'', [0x92A, 0x930, 0x93F, 0x935, 0x93E, 0x930]),
    (ascii ''love'', [0x92A, 0x94D, 0x930, 0x947, 0x92E]),
    (ascii ''happiness'', [0x916, 0x941, 0x936, 0x940]),
    (ascii ''sadness'', [0x926, 0x941, 0x903, 0x916]),
    (ascii ''health'', [0x938, 0x94D, 0x935, 0x93E, 0x938, 0x94D, 0x925, 0x94D, 0x92F]),
    (ascii ''education'', [0x936, 0x93F, 0x915, 0x94D, 0x937, 0x93E]),
    (ascii ''how are you'', [0x924, 0x92A, 0x93E, 0x908, 0x902, 0x20, 0x915, 0x938, 0x94D, 0x924, 0x94B, 0x20, 0x939, 0x941, 0x928, 0x941, 0x939, 0x941, 0x928, 0x94D, 0x91B]),
    (ascii ''my name is'', [0x92E, 0x947, 0x930, 0x94B, 0x20, 0x928, 0x93E, 0x92E, 0x20, 0x939, 0x94B]),
    (ascii ''i speak nepali'', [0x92E, 0x20, 0x928, 0x947, 0x92A, 0x93E, 0x932, 0x940, 0x20, 0x92C, 0x94B, 0x932, 0x94D, 0x91B, 0x941]),
    (ascii ''nice to meet you'', [0x924, 0x92A, 0x93E, 0x908, 0x902, 0x932, 0x93E, 0x908, 0x20, 0x92D, 0x947, 0x91F, 0x947, 0x930, 0x20, 0x916, 0x941, 0x936, 0x940, 0x20, 0x932, 0x93E, 0x917, 0x94D, 0x92F, 0x94B]),
    (ascii ''how much is this'', [0x92F, 0x94B, 0x20, 0x915, 0x924, 0x93F, 0x20, 0x939, 0x94B])
  ]"

definition enToSiDict_literal :: "(jstring \<times> jstring) list" where
  "enToSiDict_literal = [
    (ascii ''hello'', [0xD86, 0xDBA, 0xDD4, 0xDB6, 0xDDD, 0xDC0, 0xDB1, 0xDCA]),
    (ascii ''hi'', [0xD86, 0xDBA, 0xDD4, 0xDB6, 0xDDD, 0xDC0, 0xDB1, 0xDCA]),
    (ascii ''goodbye'', [0xD9C, 0xDD2, 0xDC4, 0xDD2, 0xDB1, 0xDCA, 0x20, 0xD91, 0xDB1, 0xDCA, 0xDB1, 0xDB8, 0xDCA]),
    (ascii ''thank you'', [0xDC3, 0xDCA, 0xDAD, 0xDD6, 0xDAD, 0xDD2, 0xDBA, 0xDD2]),
    (ascii ''thanks'', [0xDC3, 0xDCA, 0xDAD, 0xDD6, 0xDAD, 0xDD2, 0xDBA, 0xDD2]),
    (ascii ''sorry'', [0xDC3, 0xDB8, 0xDCF, 0xDC0, 0xDB1, 0xDCA, 0xDB1]),
    (ascii ''please'', [0xD9A, 0xDBB, 0xDD4, 0xDAB, 0xDCF, 0xD9A, 0xDBB]),
    (ascii ''yes'', [0xD94, 0xDC0, 0xDCA]), (ascii ''no'', [0xDB1, 0xDD0, 0xDC4, 0xDD0]),
    (ascii ''water'', [0xDC0, 0xDAD, 0xDD4, 0xDBB]), (ascii ''food'', [0xD9A, 0xDD1, 0xDB8]),
    (ascii ''home'', [0xD9C, 0xDD9, 0xDAF, 0xDBB]),
    (ascii ''house'', [0xD9C, 0xDD9, 0xDAF, 0xDBB]),
    (ascii ''school'', [0xDB4, 0xDCF, 0xDC3, 0xDBD]), (ascii ''work'', [0xDC0, 0xDD0, 0xDA9]),
    (ascii ''job'', [0xDBB, 0xDD0, 0xD9A, 0xDD2, 0xDBA, 0xDCF, 0xDC0]),
    (ascii ''time'', [0xDC0, 0xDD9, 0xDBD, 0xDCF, 0xDC0]),
    (ascii ''money'', [0xDC3, 0xDBD, 0xDCA, 0xDBD, 0xDD2]),
    (ascii ''friend'', [0xDBA, 0xDCF, 0xDC5, 0xDD4, 0xDC0, 0xDCF]),
    (ascii ''family'', [0xDB4, 0xDC0, 0xDD4, 0xDBD]),
    (ascii ''love'', [0xD86, 0xDAF, 0xDBB, 0xDBA]),
    (ascii ''happiness'', [0xDC3, 0xDAD, 0xDD4, 0xDA7]),
    (ascii ''sadness'', [0xDAF, 0xDD4, 0xD9A]),
    (ascii ''health'', [0xDC3, 0xDDE, 0xD9B, 0xDCA, 0x200D, 0xDBA, 0xDBA]),
    (ascii ''education'', [0xD85, 0xDB0, 0xDCA, 0x200D, 0xDBA, 0xDCF, 0xDB4, 0xDB1, 0xDBA]),
    (ascii ''how are you'', [0xD94, 0xDBA, 0xDCF, 0x20, 0xD9A, 0xDDC, 0xDC4, 0xDDC, 0xDB8, 0xDAF]),
    (ascii ''my name is'', [0xDB8, 0xD9C, 0xDDA, 0x20, 0xDB1, 0xDB8]),
    (ascii ''i speak sinhala'', [0xDB8, 0xDB8, 0x20, 0xDC3, 0xDD2, 0xD82, 0xDC4, 0xDBD, 0x20, 0xD9A, 0xDAD, 0xDCF, 0x20, 0xD9A, 0xDBB, 0xDB1, 0xDC0, 0xDCF]),
    (ascii ''nice to meet you'', [0xD94, 0xDBA, 0xDCF, 0xDC0, 0x20, 0xDB8, 0xDD4, 0xDAB, 0xD9C, 0xDD0, 0xDC3, 0xDD3, 0xDB8, 0x20, 0xDC3, 0xDAD, 0xDD4, 0xDA7, 0xD9A, 0xDCA]),
    (ascii ''how much is this'', [0xDB8, 0xDDA, 0xD9A, 0x20, 0xD9A, 0xDD3, 0xDBA, 0xDAF])
  ]"

definition neToEnDict :: "(jstring \<times> jstring) list" where
  "neToEnDict = objectLiteral neToEnDict_literal"

definition siToEnDict :: "(jstring \<times> jstring) list" where
  "siToEnDict = objectLiteral siToEnDict_literal"

definition enToNeDict :: "(jstring \<times> jstring) list" where
  "enToNeDict = objectLiteral enToNeDict_literal"

definition enToSiDict :: "(jstring \<times> jstring) list" where
  "enToSiDict = objectLiteral enToSiDict_literal"

text \<open>The fixed answers of \<^verbatim>\<open>getHardcodedTranslation\<close> and of \<^verbatim>\<open>translateNepaliToEnglish\<close>.\<close>

definition hardcoded1 :: jstring where
  "hardcoded1 =
    ascii ''Nepali is a rich language that originated in the Himalayan region of S''
    @ ascii ''outh Asia. It is the official language of Nepal and is also spoken in ''
    @ ascii ''parts of India. The Nepali language has its own script and is influenc''
    @ ascii ''ed by Sanskrit and other Indo-Aryan languages. It has a rich literary ''
    @ ascii ''tradition and is an important part of Nepali cultural identity. The la''
    @ ascii ''nguage has evolved over time and continues to adapt to modern needs wh''
    @ ascii ''ile preserving its cultural heritage. Nepali is taught in schools thro''
    @ ascii ''ughout Nepal and is used in government, media, and everyday communicat''
    @ ascii ''ion. It serves as a unifying factor for the diverse ethnic groups in N''
    @ ascii ''epal.''"

definition hardcoded2 :: jstring where
  "hardcoded2 =
    ascii ''Nepali is a rich language with a long history. It is the official lang''
    @ ascii ''uage of Nepal and is also spoken in parts of India. The Nepali languag''
    @ ascii ''e has its own script and is influenced by Sanskrit. It has a rich lite''
    @ ascii ''rary tradition and is an important part of Nepali cultural identity. T''
    @ ascii ''he language has evolved over time and continues to adapt to modern nee''
    @ ascii ''ds while preserving its cultural heritage. Nepali is taught in schools''
    @ ascii '' throughout Nepal and is used in government, media, and everyday commu''
    @ ascii ''nication. It serves as a unifying factor for the diverse ethnic groups''
    @ ascii '' in Nepal.''"

definition hardcoded3 :: jstring where
  "hardcoded3 =
    ascii ''Hello! Greetings! How are you today?''"

definition hardcoded4 :: jstring where
  "hardcoded4 =
    ascii ''I'm doing well, thank you for asking! How are you doing today?''"

definition hardcoded5 :: jstring where
  "hardcoded5 =
    ascii ''The weather today is quite pleasant. It's sunny with a few clouds. The''
    @ ascii '' temperature is around 25 degrees Celsius.''"

definition hardcoded6 :: jstring where
  "hardcoded6 =
    ascii ''Nepali cuisine is delicious! Popular dishes include momo (dumplings), ''
    @ ascii ''dal bhat (lentils and rice), and sel roti (sweet rice bread). Many dis''
    @ ascii ''hes are flavored with cumin, coriander, and other spices.''"

definition hardcoded7 :: jstring where
  "hardcoded7 =
    ascii ''Nepal is a beautiful country for travel and tourism. It has stunning m''
    @ ascii ''ountains including Mount Everest, ancient temples, and diverse wildlif''
    @ ascii ''e. The best time to visit is during spring (March-May) and autumn (Sep''
    @ ascii ''tember-November).''"

definition hardcoded8 :: jstring where
  "hardcoded8 =
    ascii ''Hello! Good morning! How are you today?''"

definition hardcoded9 :: jstring where
  "hardcoded9 =
    ascii ''I'm doing well, thank you for asking! How are you doing today?''"

definition hardcoded10 :: jstring where
  "hardcoded10 =
    ascii ''The weather today is quite pleasant in Sri Lanka. It's sunny with occa''
    @ ascii ''sional rain showers. The temperature is around 30 degrees Celsius.''"

definition hardcoded11 :: jstring where
  "hardcoded11 =
    ascii ''Sri Lankan cuisine is delicious and flavorful! Popular dishes include ''
    @ ascii ''rice and curry, hoppers (appa), string hoppers (idiappa), and kottu ro''
    @ ascii ''ti. Many dishes feature coconut milk and various spices.''"

definition hardcoded12 :: jstring where
  "hardcoded12 =
    ascii ''Sri Lanka is a beautiful island for travel and tourism. It has stunnin''
    @ ascii ''g beaches, ancient ruins, tea plantations, and diverse wildlife. The b''
    @ ascii ''est time to visit depends on which region you plan to explore.''"

definition nepaliLanguageText :: jstring where
  "nepaliLanguageText =
    ascii ''Nepali is a rich language with a long history. It is the official lang''
    @ ascii ''uage of Nepal and is also spoken in parts of India. The Nepali languag''
    @ ascii ''e has its own script and is influenced by Sanskrit. It has a rich lite''
    @ ascii ''rary tradition and is an important part of Nepali cultural identity. T''
    @ ascii ''he language has evolved over time and continues to adapt to modern nee''
    @ ascii ''ds while preserving its cultural heritage. Nepali is taught in schools''
    @ ascii '' throughout Nepal and is used in government, media, and everyday commu''
    @ ascii ''nication. It serves as a unifying factor for the diverse ethnic groups''
    @ ascii '' in Nepal.''"

text \<open>
  \<^verbatim>\<open>getHardcodedTranslation\<close>: the tests in the order of the source; the tests nested under
  \<^verbatim>\<open>sourceLang === 'ne'\<close> and \<^verbatim>\<open>sourceLang === 'si'\<close> are written out with that
  condition.
\<close>

definition getHardcodedTranslation :: "jstring \<Rightarrow> jstring \<Rightarrow> jstring option" where
  "getHardcodedTranslation text sourceLang =
     (if sourceLang = ascii ''ne''
           \<and> includesStr text [0x928, 0x947, 0x92A, 0x93E, 0x932, 0x940, 0x20, 0x92D, 0x93E, 0x937, 0x93E, 0x20, 0x90F, 0x915, 0x20, 0x927, 0x930, 0x94D, 0x92E, 0x20, 0x92D, 0x93E, 0x937, 0x93E, 0x20, 0x939, 0x94B, 0x20, 0x91C, 0x941, 0x928, 0x20, 0x926, 0x915, 0x94D, 0x937, 0x93F, 0x923, 0x20, 0x90F, 0x936, 0x93F, 0x92F, 0x93E, 0x915, 0x94B, 0x20, 0x939, 0x93F, 0x92E, 0x93E, 0x932, 0x92F, 0x20, 0x915, 0x94D, 0x937, 0x947, 0x924, 0x94D, 0x930, 0x20, 0x92D, 0x93E, 0x930, 0x924, 0x940, 0x92F]
      then Some hardcoded1
      else if sourceLang = ascii ''ne''
           \<and> (includesStr text [0x928, 0x947, 0x92A, 0x93E, 0x932, 0x940, 0x20, 0x92D, 0x93E, 0x937, 0x93E, 0x20, 0x90F, 0x915, 0x20, 0x927, 0x928, 0x940, 0x20, 0x92D, 0x93E, 0x937, 0x93E, 0x20, 0x939, 0x94B]
              \<and> includesStr text [0x928, 0x947, 0x92A, 0x93E, 0x932, 0x940, 0x20, 0x935, 0x94D, 0x92F, 0x93E, 0x915, 0x930, 0x923, 0x93F, 0x915])
      then Some hardcoded2
      else if sourceLang = ascii ''ne''
           \<and> (includesStr text [0x928, 0x92E, 0x938, 0x94D, 0x924, 0x947]
              \<or> includesStr text [0x928, 0x92E, 0x938, 0x94D, 0x915, 0x93E, 0x930])
      then Some hardcoded3
      else if sourceLang = ascii ''ne''
           \<and> (includesStr text [0x924, 0x92A, 0x93E, 0x908, 0x902, 0x20, 0x915, 0x938, 0x94D, 0x924, 0x94B, 0x20, 0x939, 0x941, 0x928, 0x941, 0x939, 0x941, 0x928, 0x94D, 0x91B]
              \<or> includesStr text [0x915, 0x938, 0x94D, 0x924, 0x94B, 0x20, 0x91B])
      then Some hardcoded4
      else if sourceLang = ascii ''ne''
           \<and> (includesStr text [0x92E, 0x94C, 0x938, 0x92E]
              \<or> includesStr text [0x92C, 0x93E, 0x926, 0x932]
              \<or> includesStr text [0x92A, 0x93E, 0x928, 0x940, 0x20, 0x92A, 0x930, 0x93F, 0x930, 0x939, 0x947, 0x915, 0x94B, 0x20, 0x91B])
      then Some hardcoded5
      else if sourceLang = ascii ''ne''
           \<and> (includesStr text [0x916, 0x93E, 0x928, 0x93E]
              \<or> includesStr text [0x92E, 0x93F, 0x920, 0x94B]
              \<or> includesStr text [0x92D, 0x94B, 0x915, 0x20, 0x932, 0x93E, 0x917, 0x94D, 0x92F, 0x94B])
      then Some hardcoded6
      else if sourceLang = ascii ''ne''
           \<and> (includesStr text [0x92F, 0x93E, 0x924, 0x94D, 0x930, 0x93E]
              \<or> includesStr text [0x918, 0x941, 0x92E, 0x94D, 0x928]
              \<or> includesStr text [0x92A, 0x930, 0x94D, 0x92F, 0x91F, 0x928])
      then Some hardcoded7
      else if sourceLang = ascii ''si''
           \<and> (includesStr text [0xD86, 0xDBA, 0xDD4, 0xDB6, 0xDDD, 0xDC0, 0xDB1, 0xDCA]
              \<or> includesStr text [0xDC3, 0xDD4, 0xDB7, 0x20, 0xD8B, 0xDAF, 0xDD1, 0xDC3, 0xDB1, 0xD9A, 0xDCA])
      then Some hardcoded8
      else if sourceLang = ascii ''si''
           \<and> (includesStr text [0xD9A, 0xDDC, 0xDC4, 0xDDC, 0xDB8, 0xDAF]
              \<or> includesStr text [0xD94, 0xDBA, 0xDCF, 0xDA7, 0x20, 0xD9A, 0xDDC, 0xDC4, 0xDDC, 0xDB8, 0xDAF])
      then Some hardcoded9
      else if sourceLang = ascii ''si''
           \<and> (includesStr text [0xD9A, 0xDCF, 0xDBD, 0xD9C, 0xDD4, 0xDAB, 0xDBA]
              \<or> includesStr text [0xDC0, 0xDD0, 0xDC3, 0xDCA, 0xDC3]
              \<or> includesStr text [0xDC0, 0xDC4, 0xDD2, 0xDB1, 0xDC0, 0xDCF])
      then Some hardcoded10
      else if sourceLang = ascii ''si''
           \<and> (includesStr text [0xD9A, 0xDD1, 0xDB8]
              \<or> includesStr text [0xDBB, 0xDC3, 0xDBA, 0xDD2]
              \<or> includesStr text [0xDB6, 0xDA9, 0xD9C, 0xDD2, 0xDB1, 0xDD2])
      then Some hardcoded11
      else if sourceLang = ascii ''si''
           \<and> (includesStr text [0xDC3, 0xD82, 0xDA0, 0xDCF, 0xDBB, 0xDBA]
              \<or> includesStr text [0xD9C, 0xDB8, 0xDB1]
              \<or> includesStr text [0xDC3, 0xD82, 0xDA0, 0xDCF, 0xDBB, 0xD9A])
      then Some hardcoded12
      else None)"
section \<open>The second offline pack manager: packs and translators\<close>

definition initializeLanguagePacks2 :: "int \<Rightarrow> (jstring \<times> LanguagePack) list" where
  "initializeLanguagePacks2 now =
     initializeLanguagePacks now @
     [(ascii ''en'',
        \<lparr>code = ascii ''en'', name = ascii ''English'', nativeName = ascii ''English'',
         version = ascii ''1.0.0'', sizeMB = 5.0, downloadUrl = ascii ''/language-packs/english.pack'',
         isDownloaded = True, lastUpdated = now, dictionary = []\<rparr>)]"

text \<open>
  \<^verbatim>\<open>isLanguagePackDownloaded\<close> looks at the local storage item first and writes it when the
  pack says downloaded: it returns its answer and the state.
\<close>

definition isLanguagePackDownloaded2 ::
  "OfflineTranslationService2 \<Rightarrow> jstring \<Rightarrow> bool \<times> OfflineTranslationService2" where
  "isLanguagePackDownloaded2 svc langCode =
     (if downloadedItems svc langCode then (True, svc)
      else (case map_of (languagePacks svc) langCode of
              Some pack \<Rightarrow>
                if isDownloaded pack
                then (True, svc\<lparr>downloadedItems := (downloadedItems svc)(langCode := True)\<rparr>)
                else (False, svc)
            | None \<Rightarrow> (False, svc)))"

definition loadLanguageDictionary2 :: "OfflineTranslationService2 \<Rightarrow> jstring \<Rightarrow> OfflineTranslationService2" where
  "loadLanguageDictionary2 svc langCode =
     (case map_of (languagePacks svc) langCode of
        None \<Rightarrow> svc
      | Some pack \<Rightarrow>
          (case map_of dictionaries2 langCode of
             Some d \<Rightarrow>
               svc\<lparr>languagePacks :=
                     updatePack langCode (\<lambda>p. p\<lparr>dictionary := d, isDownloaded := True\<rparr>) (languagePacks svc),
                   downloadedItems := (downloadedItems svc)(langCode := True)\<rparr>
           | None \<Rightarrow> svc))"

text \<open>
  \<^verbatim>\<open>downloadLanguagePack\<close>, with 10 steps here: as in the first service, a callback that
  throws makes it return \<^verbatim>\<open>false\<close> before anything is done to the pack.
\<close>

definition downloadLanguagePack2 ::
  "OfflineTranslationService2 \<Rightarrow> jstring \<Rightarrow> (rat \<Rightarrow> bool) option
     \<Rightarrow> error + (bool \<times> rat list \<times> OfflineTranslationService2)" where
  "downloadLanguagePack2 svc langCode onProgress =
     (case map_of (languagePacks svc) langCode of
        None \<Rightarrow> Inl (Error (ascii ''Language pack not found: '' @ langCode))
      | Some pack \<Rightarrow>
          (case reportProgress onProgress (progressValues 10) of
             (False, reported) \<Rightarrow> Inr (False, reported, svc)
           | (True, reported) \<Rightarrow>
               (let svc1 = loadLanguageDictionary2 svc langCode;
                    svc2 = svc1\<lparr>languagePacks := updatePack langCode (\<lambda>p. p\<lparr>isDownloaded := True\<rparr>) (languagePacks svc1),
                               downloadedItems := (downloadedItems svc1)(langCode := True)\<rparr>
                in Inr (True, reported, saveLanguagePackStatus svc2 langCode True))))"

text \<open>\<^verbatim>\<open>detectLanguage\<close> looks at the first 100 code units.\<close>

definition detectLanguage :: "jstring \<Rightarrow> jstring" where
  "detectLanguage text =
     (let sample = take 100 text
      in if list_ex (\<lambda>c. 0x900 \<le> c \<and> c \<le> 0x97F) sample then ascii ''ne''
         else if list_ex (\<lambda>c. 0xD80 \<le> c \<and> c \<le> 0xDFF) sample then ascii ''si''
         else ascii ''en'')"

text \<open>\<^verbatim>\<open>table[key] || other\<close>, turned into a string where the result is joined.\<close>

definition getOr :: "host \<Rightarrow> (jstring \<times> jstring) list \<Rightarrow> jstring \<Rightarrow> jstring \<Rightarrow> jstring" where
  "getOr h table key other =
     (if truthy (getProperty table key) then toStr h (getProperty table key) else other)"

text \<open>
  \<^verbatim>\<open>text.replace(new RegExp(phrase, 'i'), translated)\<close> for a phrase of Basic Latin letters
  and spaces, which is what the keys longer than five code units of the two English tables
  are: the first place where the text reads the phrase in either case.
\<close>

fun startsWithIgnoreCase :: "jstring \<Rightarrow> jstring \<Rightarrow> bool" where
  "startsWithIgnoreCase s [] = True"
| "startsWithIgnoreCase [] (p # ps) = False"
| "startsWithIgnoreCase (c # cs) (p # ps) = (upperAscii c = upperAscii p \<and> startsWithIgnoreCase cs ps)"

fun replaceFirstIgnoreCaseFrom :: "jstring \<Rightarrow> jstring \<Rightarrow> jstring \<Rightarrow> jstring \<Rightarrow> jstring" where
  "replaceFirstIgnoreCaseFrom pre [] phrase repl =
     (if phrase = [] then expandReplacement repl [] pre [] else [])"
| "replaceFirstIgnoreCaseFrom pre (c # cs) phrase repl =
     (if startsWithIgnoreCase (c # cs) phrase
      then expandReplacement repl (take (length phrase) (c # cs)) pre (drop (length phrase) (c # cs))
           @ drop (length phrase) (c # cs)
      else c # replaceFirstIgnoreCaseFrom (pre @ [c]) cs phrase repl)"

definition replaceFirstIgnoreCase :: "jstring \<Rightarrow> jstring \<Rightarrow> jstring \<Rightarrow> jstring" where
  "replaceFirstIgnoreCase s phrase repl = replaceFirstIgnoreCaseFrom [] s phrase repl"

definition translateEnglishWith :: "host \<Rightarrow> (jstring \<times> jstring) list \<Rightarrow> jstring \<Rightarrow> jsval" where
  "translateEnglishWith h table text =
     (let lowerText = trim (toLowerCase h text)
      in if truthy (getProperty table lowerText) then getProperty table lowerText
         else (case find (\<lambda>(phrase, translated). 5 < length phrase \<and> includesStr lowerText phrase) table of
                 Some (phrase, translated) \<Rightarrow> Str (replaceFirstIgnoreCase text phrase translated)
               | None \<Rightarrow>
                   Str (join (ascii '' '')
                          (map (\<lambda>word. getOr h table (toLowerCase h word) word) (splitWhitespace text)))))"

text \<open>
  \<^verbatim>\<open>translateEnglishToNepali\<close> and \<^verbatim>\<open>translateEnglishToSinhala\<close> have the same body
  over their own tables.
\<close>

definition translateEnglishToNepali :: "host \<Rightarrow> jstring \<Rightarrow> jsval" where
  "translateEnglishToNepali h text = translateEnglishWith h enToNeDict text"

definition translateEnglishToSinhala :: "host \<Rightarrow> jstring \<Rightarrow> jsval" where
  "translateEnglishToSinhala h text = translateEnglishWith h enToSiDict text"

text \<open>
  The compound step of the word translators: the first split point \<^verbatim>\<open>i\<close> from 1 to
  \<^verbatim>\<open>word.length - 1\<close> whose two parts both have a truthy entry.
\<close>

definition compoundSplit :: "host \<Rightarrow> (jstring \<times> jstring) list \<Rightarrow> jstring \<Rightarrow> jstring option" where
  "compoundSplit h table w =
     (case find (\<lambda>i. truthy (getProperty table (take i w)) \<and> truthy (getProperty table (drop i w)))
                [1 ..< length w] of
        Some i \<Rightarrow> Some (toStr h (getProperty table (take i w)) @ ascii '' ''
                        @ toStr h (getProperty table (drop i w)))
      | None \<Rightarrow> None)"

text \<open>The function that \<^verbatim>\<open>translateSinhalaWordsToEnglish\<close> maps over the words.\<close>

definition translateSinhalaWord :: "host \<Rightarrow> (jstring \<times> jstring) list \<Rightarrow> jstring \<Rightarrow> jsval" where
  "translateSinhalaWord h table w =
     (if truthy (getProperty table w) then getProperty table w
      else (case compoundSplit h table w of
              Some both \<Rightarrow> Str both
            | None \<Rightarrow> Str w))"

definition translateSinhalaWordsToEnglish :: "host \<Rightarrow> jstring \<Rightarrow> (jstring \<times> jstring) list \<Rightarrow> jstring" where
  "translateSinhalaWordsToEnglish h text table =
     join (ascii '' '') (map (\<lambda>w. joinStr h (translateSinhalaWord h table w)) (splitWhitespace text))"

text \<open>
  The function that \<^verbatim>\<open>translateNepaliWordsToEnglish\<close> maps over the words: the word, its
  lower case, the compound step, then the first key longer than three code units that the
  word contains, replaced inside the word.
\<close>

definition translateNepaliWord :: "host \<Rightarrow> (jstring \<times> jstring) list \<Rightarrow> jstring \<Rightarrow> jsval" where
  "translateNepaliWord h table w =
     (if truthy (getProperty table w) then getProperty table w
      else if truthy (getProperty table (toLowerCase h w)) then getProperty table (toLowerCase h w)
      else (case compoundSplit h table w of
              Some both \<Rightarrow> Str both
            | None \<Rightarrow>
                (case find (\<lambda>dictWord. 3 < length dictWord \<and> includesStr w dictWord) (map fst table) of
                   Some dictWord \<Rightarrow> Str (replaceFirst w dictWord (toStr h (getProperty table dictWord)))
                 | None \<Rightarrow> Str w)))"

text \<open>\<^verbatim>\<open>s.replace(/\s{2,}/g, ' ')\<close>: a run of two or more white space code units becomes one space.\<close>

fun collapseFrom :: "bool \<Rightarrow> jstring \<Rightarrow> jstring" where
  "collapseFrom b [] = []"
| "collapseFrom b (c # cs) =
     (if isSpace c
      then (if b then collapseFrom True cs
            else (case cs of
                    [] \<Rightarrow> [c]
                  | d # r \<Rightarrow> if isSpace d then 0x20 # collapseFrom True cs else c # collapseFrom False cs))
      else c # collapseFrom False cs)"

definition translateNepaliWordsToEnglish :: "host \<Rightarrow> jstring \<Rightarrow> (jstring \<times> jstring) list \<Rightarrow> jstring" where
  "translateNepaliWordsToEnglish h text table =
     (let phrases = sort_key (\<lambda>key. - int (length key))
                      (filter (\<lambda>key. includesStr key (ascii '' '') \<and> includesStr text key) (map fst table));
          processedText = fold (\<lambda>phrase processed.
                                  if includesStr processed phrase
                                  then replaceFirst processed phrase (toStr h (getProperty table phrase))
                                  else processed)
                               phrases text
      in if processedText \<noteq> text then processedText
         else collapseFrom False
                (join (ascii '' '')
                   (map (\<lambda>w. joinStr h (translateNepaliWord h table w)) (splitWhitespace text))))"

text \<open>The function \<^verbatim>\<open>translateNepaliToEnglish\<close> maps over the sentences.\<close>

definition translateNepaliSentence :: "host \<Rightarrow> jstring \<Rightarrow> jsval" where
  "translateNepaliSentence h sentence =
     (let trimmedSentence = trim sentence
      in if trimmedSentence = [] then Str []
         else if truthy (getProperty neToEnDict trimmedSentence) then getProperty neToEnDict trimmedSentence
         else (case find (\<lambda>(key, v). 10 < length key \<and> includesStr trimmedSentence key) neToEnDict of
                 Some (key, v) \<Rightarrow> Str (replaceFirst trimmedSentence key v)
               | None \<Rightarrow> Str (translateNepaliWordsToEnglish h trimmedSentence neToEnDict)))"

definition translateNepaliToEnglish :: "host \<Rightarrow> jstring \<Rightarrow> jsval" where
  "translateNepaliToEnglish h text =
     (if includesStr text [0x928, 0x947, 0x92A, 0x93E, 0x932, 0x940, 0x20, 0x92D, 0x93E, 0x937, 0x93E]
         \<and> 50 < length text
      then Str nepaliLanguageText
      else if truthy (getProperty neToEnDict (trim text)) then getProperty neToEnDict (trim text)
      else (let sentences = splitOn (\<lambda>c. c \<in> {0x964, 0x3F, 0x21}) text
            in if 1 < length sentences
               then Str (join (ascii ''. '')
                           (map (joinStr h) (filter truthy (map (translateNepaliSentence h) sentences))))
               else Str (translateNepaliWordsToEnglish h text neToEnDict)))"

definition translateSinhalaSentence :: "host \<Rightarrow> jstring \<Rightarrow> jsval" where
  "translateSinhalaSentence h sentence =
     (let trimmedSentence = trim sentence
      in if trimmedSentence = [] then Str []
         else if truthy (getProperty siToEnDict trimmedSentence) then getProperty siToEnDict trimmedSentence
         else Str (translateSinhalaWordsToEnglish h trimmedSentence siToEnDict))"

definition translateSinhalaToEnglish :: "host \<Rightarrow> jstring \<Rightarrow> jsval" where
  "translateSinhalaToEnglish h text =
     (if truthy (getProperty siToEnDict (trim text)) then getProperty siToEnDict (trim text)
      else (let sentences = splitOn (\<lambda>c. c \<in> {0x2E, 0x21, 0x3F}) text
            in if 1 < length sentences
               then Str (join (ascii ''. '')
                           (map (joinStr h) (filter truthy (map (translateSinhalaSentence h) sentences))))
               else Str (translateSinhalaWordsToEnglish h text siToEnDict)))"

section \<open>The second offline pack manager: translating and the constructor\<close>

text \<open>
  The cache key is \<^verbatim>\<open>`${text}_${sourceLang}_${targetLang}`\<close>. The cache is a plain object:
  \<^verbatim>\<open>if (this.translationCache[cacheKey])\<close> also holds for a key that names a member of the
  object prototype, whose \<^verbatim>\<open>translation\<close> is \<^verbatim>\<open>undefined\<close>. No age is looked at.
\<close>

definition cacheKey2 :: "jstring \<Rightarrow> jstring \<Rightarrow> jstring \<Rightarrow> jstring" where
  "cacheKey2 text sourceLang targetLang = text @ ascii ''_'' @ sourceLang @ ascii ''_'' @ targetLang"

definition cachedTranslation2 :: "(jstring \<rightharpoonup> jsval CacheEntry) \<Rightarrow> jstring \<Rightarrow> jsval option" where
  "cachedTranslation2 cache key =
     (case cache key of
        Some cached \<Rightarrow> Some (translation cached)
      | None \<Rightarrow> (if key \<in> set prototypeMembers then Some Undefined else None))"

definition cacheResult ::
  "OfflineTranslationService2 \<Rightarrow> jstring \<Rightarrow> jsval \<Rightarrow> rat \<Rightarrow> int \<Rightarrow> jsval \<times> OfflineTranslationService2" where
  "cacheResult svc key result conf now =
     (result,
      svc\<lparr>translationCache :=
            (translationCache svc)(key \<mapsto> \<lparr>translation = result, confidence = conf, timestamp = now\<rparr>)\<rparr>)"

text \<open>
  \<^verbatim>\<open>translateOffline\<close> in three parts. The block
  \<^verbatim>\<open>if (!this.isLanguagePackDownloaded(lang)) await this.loadLanguageDictionary(lang)\<close>,
  which it runs for the source and then for the target language:
\<close>

definition ensureLoaded2 :: "OfflineTranslationService2 \<Rightarrow> jstring \<Rightarrow> OfflineTranslationService2" where
  "ensureLoaded2 svc lang =
     (let (downloaded, svc1) = isLanguagePackDownloaded2 svc lang
      in if downloaded then svc1 else loadLanguageDictionary2 svc1 lang)"

text \<open>
  Its end, from \<^verbatim>\<open>const sourcePack = this.languagePacks.get(sourceLang)\<close> on: the source
  pack that is missing or not downloaded, the pack with a dictionary, and the pack with an
  empty dictionary.
\<close>

definition translateWithPack2 ::
  "host \<Rightarrow> int \<Rightarrow> OfflineTranslationService2 \<Rightarrow> jstring \<Rightarrow> jstring \<Rightarrow> jstring
     \<Rightarrow> jsval \<times> OfflineTranslationService2" where
  "translateWithPack2 h now svc key text sourceLang =
     (let sourcePack = map_of (languagePacks svc) sourceLang;
          usable = (case sourcePack of Some pack \<Rightarrow> isDownloaded pack | None \<Rightarrow> False);
          entries = (case sourcePack of Some pack \<Rightarrow> dictionary pack | None \<Rightarrow> [])
      in if \<not> usable
         then (if sourceLang = ascii ''ne''
               then cacheResult svc key (translateNepaliToEnglish h text) 0.85 now
               else if sourceLang = ascii ''si''
               then cacheResult svc key (translateSinhalaToEnglish h text) 0.85 now
               else (Str (ascii ''[Offline Translation Not Available] '' @ text), svc))
         else if 0 < length entries
         then (case map_of entries (trim text) of
                 Some (c # cs) \<Rightarrow> cacheResult svc key (Str (c # cs)) 1.0 now
               | _ \<Rightarrow>
                   cacheResult svc key
                     (Str (join (ascii '' '') (map (\<lambda>w. mapGetOr entries w w) (splitWhitespace text))))
                     0.7 now)
         else if sourceLang = ascii ''ne''
         then cacheResult svc key (translateNepaliToEnglish h text) 0.8 now
         else if sourceLang = ascii ''si''
         then cacheResult svc key (translateSinhalaToEnglish h text) 0.8 now
         else cacheResult svc key (Str (ascii ''[Offline Translation] '' @ text)) 0.5 now)"

text \<open>And the whole, with the source language as given (it may be \<^verbatim>\<open>auto\<close>).\<close>

definition translateOffline2 ::
  "host \<Rightarrow> int \<Rightarrow> OfflineTranslationService2 \<Rightarrow> jstring \<Rightarrow> jstring \<Rightarrow> jstring
     \<Rightarrow> jsval \<times> OfflineTranslationService2" where
  "translateOffline2 h now svc text givenSourceLang targetLang =
     (case getHardcodedTranslation text givenSourceLang of
        Some hardcodedTranslation \<Rightarrow> (Str hardcodedTranslation, svc)
      | None \<Rightarrow>
        (let sourceLang = (if givenSourceLang = ascii ''auto'' then detectLanguage text else givenSourceLang)
         in if sourceLang = targetLang then (Str text, svc)
            else
              (let translationKey = sourceLang @ ascii ''-'' @ targetLang;
                   key = cacheKey2 text sourceLang targetLang
               in case cachedTranslation2 (translationCache svc) key of
                    Some cached \<Rightarrow> (cached, svc)
                  | None \<Rightarrow>
                      if translationKey = ascii ''en-ne''
                      then cacheResult svc key (translateEnglishToNepali h text) 0.9 now
                      else if translationKey = ascii ''en-si''
                      then cacheResult svc key (translateEnglishToSinhala h text) 0.9 now
                      else translateWithPack2 h now
                             (ensureLoaded2 (ensureLoaded2 svc sourceLang) targetLang)
                             key text sourceLang)))"

text \<open>
  What \<^verbatim>\<open>JSON.parse\<close> gives back of a cache that was written with \<^verbatim>\<open>JSON.stringify\<close>:
  a translation that is a string is kept; a translation that is a function or
  \<^verbatim>\<open>undefined\<close> was left out of the text, so the entry comes back without it.
\<close>

definition jsonValue :: "jsval \<Rightarrow> jsval" where
  "jsonValue v = (case v of Str s \<Rightarrow> Str s | _ \<Rightarrow> Undefined)"

definition parsedCache :: "(jstring \<rightharpoonup> jsval CacheEntry) \<Rightarrow> (jstring \<rightharpoonup> jsval CacheEntry)" where
  "parsedCache cached =
     (\<lambda>key. map_option (\<lambda>entry. entry\<lparr>translation := jsonValue (translation entry)\<rparr>) (cached key))"

text \<open>
  \<^verbatim>\<open>loadCachedTranslations\<close>: the stored cache as it is parsed, and a dictionary for every
  pack whose stored status is true.
\<close>

definition loadCachedTranslations2 :: "OfflineTranslationService2 \<Rightarrow> OfflineTranslationService2" where
  "loadCachedTranslations2 svc =
     (let svc1 = (case storedCache svc of
                    Some cached \<Rightarrow> svc\<lparr>translationCache := parsedCache cached\<rparr>
                  | None \<Rightarrow> svc)
      in fold (\<lambda>langCode s.
                 if storedStatus s langCode = Some True
                 then loadLanguageDictionary2
                        (s\<lparr>languagePacks := updatePack langCode (\<lambda>p. p\<lparr>isDownloaded := True\<rparr>) (languagePacks s)\<rparr>)
                        langCode
                 else s)
              (map fst (languagePacks svc1)) svc1)"

text \<open>
  \<^verbatim>\<open>preloadAllDictionaries\<close> loads the dictionaries of \<^verbatim>\<open>en\<close>, \<^verbatim>\<open>ne\<close> and \<^verbatim>\<open>si\<close>, with
  an \<^verbatim>\<open>await\<close> after each. The constructor calls it without waiting for it: the call
  loads the English dictionary and comes back at its first \<^verbatim>\<open>await\<close>, and the other two
  dictionaries are loaded later, one step each. The result is the state at the first
  \<^verbatim>\<open>await\<close> and the languages still to load.
\<close>

definition preloadAllDictionaries :: "OfflineTranslationService2 \<Rightarrow> OfflineTranslationService2 \<times> jstring list" where
  "preloadAllDictionaries svc = (loadLanguageDictionary2 svc (ascii ''en''), [ascii ''ne'', ascii ''si''])"

text \<open>The constructor: the packs, \<^verbatim>\<open>loadCachedTranslations\<close>, and the start of the preload.\<close>

definition newService2 ::
  "int \<Rightarrow> (jstring \<rightharpoonup> bool) \<Rightarrow> (jstring \<rightharpoonup> jsval CacheEntry) option \<Rightarrow> (jstring \<Rightarrow> bool)
     \<Rightarrow> OfflineTranslationService2" where
  "newService2 now status cached items =
     fst (preloadAllDictionaries
            (loadCachedTranslations2
               \<lparr>languagePacks = initializeLanguagePacks2 now, translationCache = Map.empty,
                storedStatus = status, storedCache = cached, downloadedItems = items\<rparr>))"

text \<open>The state once the rest of the preload has run with no other call in between.\<close>

definition preloaded :: "OfflineTranslationService2 \<Rightarrow> OfflineTranslationService2" where
  "preloaded svc =
     fold (\<lambda>lang s. loadLanguageDictionary2 s lang) (snd (preloadAllDictionaries svc)) svc"

text \<open>
  The states the second service can be in: the state its constructor returns, and every
  state that a call of a public method or a step of the preload leaves. A step of the
  preload loads the dictionary of \<^verbatim>\<open>ne\<close> or of \<^verbatim>\<open>si\<close>; the steps are taken here at any
  time and in any number, which covers the two steps the preload takes.
\<close>

inductive reachable2 :: "OfflineTranslationService2 \<Rightarrow> bool" where
  start2: "reachable2 (newService2 now status cached items)"
| preload2: "reachable2 svc \<Longrightarrow> lang \<in> set (snd (preloadAllDictionaries svc))
             \<Longrightarrow> reachable2 (loadLanguageDictionary2 svc lang)"
| asked2: "reachable2 svc \<Longrightarrow> isLanguagePackDownloaded2 svc langCode = (answer, svc') \<Longrightarrow> reachable2 svc'"
| download2: "reachable2 svc \<Longrightarrow> downloadLanguagePack2 svc langCode onProgress = Inr (ok, progress, svc')
              \<Longrightarrow> reachable2 svc'"
| translate2: "reachable2 svc \<Longrightarrow> translateOffline2 h now svc text sourceLang targetLang = (out, svc')
               \<Longrightarrow> reachable2 svc'"
| remove2: "reachable2 svc \<Longrightarrow> removeLanguagePack svc langCode = (ok, svc') \<Longrightarrow> reachable2 svc'"
| clear2: "reachable2 svc \<Longrightarrow> reachable2 (clearOfflineData svc)"
section \<open>States used in the examples\<close>

text \<open>
  The first service on an empty local storage, and after its Nepali pack is downloaded
  with a callback that returns on every value.
\<close>

definition freshService :: OfflineTranslationService where
  "freshService = newService 0 Map.empty None"

definition installedNepali :: OfflineTranslationService where
  "installedNepali =
     (case downloadLanguagePack freshService (ascii ''ne'') (Some (\<lambda>progress. True)) of
        Inr (ok, progress, svc') \<Rightarrow> svc'
      | Inl e \<Rightarrow> freshService)"

text \<open>
  The second service on an empty local storage, its preload done; and started three days after an earlier
  session stored two cache entries, one made for the Nepali word \<^verbatim>\<open>PAANI\<close> (water) and
  one made for the Sinhala source text \<^verbatim>\<open>ne-zha\<close>.
\<close>

definition freshService2 :: OfflineTranslationService2 where
  "freshService2 = preloaded (newService2 0 Map.empty None (\<lambda>k. False))"

definition paani :: jstring where
  "paani = [0x92A, 0x93E, 0x928, 0x940]"

definition earlierCache :: "jstring \<rightharpoonup> jsval CacheEntry" where
  "earlierCache =
     [cacheKey2 paani (ascii ''ne'') (ascii ''en'')
        \<mapsto> \<lparr>translation = Str (ascii ''Water''), confidence = 1.0, timestamp = 0\<rparr>,
      cacheKey2 (ascii ''ne-zha'') (ascii ''si'') (ascii ''en'')
        \<mapsto> \<lparr>translation = Str (ascii ''ne-zha''), confidence = 0.7, timestamp = 0\<rparr>]"

definition laterService2 :: OfflineTranslationService2 where
  "laterService2 = preloaded (newService2 259200000 Map.empty (Some earlierCache) (\<lambda>k. False))"

text \<open>The second service after its Nepali pack is removed.\<close>

definition removedNepali2 :: OfflineTranslationService2 where
  "removedNepali2 = snd (removeLanguagePack freshService2 (ascii ''ne''))"


text \<open>
  A small table for the word translators with a text of three words, and a Sinhala word:
  the key of the Sinhala table that names the language, followed by a case ending.
\<close>

definition flowerTable :: "(jstring \<times> jstring) list" where
  "flowerTable = [(ascii ''sun'', ascii ''surya''), (ascii ''flower'', ascii ''phool'')]"

definition flowerText :: jstring where
  "flowerText = ascii ''sunflower flowers moon''"

definition sinhala :: jstring where
  "sinhala = [0xDC3, 0xDD2, 0xD82, 0xDC4, 0xDBD]"

definition sinhalen :: jstring where
  "sinhalen = sinhala @ [0xDD9, 0xDB1, 0xDCA]"

text \<open>
  The number of line feeds of a text. Two words on two lines, and a short letter of three
  lines, the second one blank.
\<close>

definition lineBreaks :: "jstring \<Rightarrow> nat" where
  "lineBreaks s = length (filter (\<lambda>c. c = 0xA) s)"



text \<open>A French paragraph of two lines, and what the step from French to English makes of it.\<close>

definition frenchNote :: jstring where
  "frenchNote = ascii ''Bonjour. Merci.'' @ [0xA] @ ascii ''Oui. Non.''"

definition englishNote :: jstring where
  "englishNote = ascii ''hello thank you'' @ [0xA] @ ascii ''yes no''"

section \<open>Properties of the fallback translation service\<close>

subsection \<open>The store\<close>

text \<open>The store once the repeated keys of its literal are resolved: 32 pairs.\<close>

lemma translations_store_eq:
  "translations_store = [
    (ascii ''en-hi'', lex_en_hi),
    (ascii ''hi-en'', lex_hi_en),
    (ascii ''en-es'', lex_en_es_2),
    (ascii ''es-en'', lex_es_en_2),
    (ascii ''en-fr'', lex_en_fr_2),
    (ascii ''fr-en'', lex_fr_en_2),
    (ascii ''en-pt'', lex_en_pt_2),
    (ascii ''pt-en'', lex_pt_en_2),
    (ascii ''en-ne'', lex_en_ne),
    (ascii ''ne-en'', lex_ne_en),
    (ascii ''en-si'', lex_en_si),
    (ascii ''si-en'', lex_si_en),
    (ascii ''en-de'', lex_en_de),
    (ascii ''de-en'', lex_de_en),
    (ascii ''en-bn'', lex_en_bn),
    (ascii ''bn-en'', lex_bn_en),
    (ascii ''en-ta'', lex_en_ta),
    (ascii ''ta-en'', lex_ta_en),
    (ascii ''en-te'', lex_en_te),
    (ascii ''te-en'', lex_te_en),
    (ascii ''en-ur'', lex_en_ur),
    (ascii ''ur-en'', lex_ur_en),
    (ascii ''en-zh'', lex_en_zh),
    (ascii ''zh-en'', lex_zh_en),
    (ascii ''en-ja'', lex_en_ja),
    (ascii ''ja-en'', lex_ja_en),
    (ascii ''en-ko'', lex_en_ko),
    (ascii ''ko-en'', lex_ko_en),
    (ascii ''en-ar'', lex_en_ar),
    (ascii ''ar-en'', lex_ar_en),
    (ascii ''en-ru'', lex_en_ru),
    (ascii ''ru-en'', lex_ru_en)
  ]"
  by (simp add: translations_store_def translations_literal_def ascii_def)

lemma translate_direct:
  "map_of translations_store (pairKey sourceLang targetLang) = Some table \<Longrightarrow>
   translate h text sourceLang targetLang = translateComplexText h text table sourceLang targetLang"
  by (simp add: translate_def)

subsection \<open>Pivot through English\<close>

text \<open>
  Claim C2. For a pair with no table of its own, a target other than English, and tables
  from the source to English and from English to the target, \<^verbatim>\<open>translate\<close> gives what the
  two calls give one after the other: the call from the source to English, and the call
  from English to the target on its result. Where the first call fails, both sides fail
  with its error.
\<close>

theorem pivot_correctness:
  assumes "targetLang \<noteq> ascii ''en''"
    and "\<not> isLanguagePairSupported sourceLang targetLang"
    and "isLanguagePairSupported sourceLang (ascii ''en'')"
    and "isLanguagePairSupported (ascii ''en'') targetLang"
  shows "translate h (Str text) sourceLang targetLang =
         (case translate h (Str text) sourceLang (ascii ''en'') of
            Inl e \<Rightarrow> Inl e
          | Inr intermediate \<Rightarrow> translate h intermediate (ascii ''en'') targetLang)"
proof -
  from assms(2) have direct: "map_of translations_store (pairKey sourceLang targetLang) = None"
    by (simp add: isLanguagePairSupported_def)
  from assms(3) obtain toEn
    where toEn: "map_of translations_store (pairKey sourceLang (ascii ''en'')) = Some toEn"
    by (auto simp: isLanguagePairSupported_def)
  from assms(4) obtain fromEn
    where fromEn: "map_of translations_store (pairKey (ascii ''en'') targetLang) = Some fromEn"
    by (auto simp: isLanguagePairSupported_def)
  have lhs: "translate h (Str text) sourceLang targetLang =
             (case translateComplexText h (Str text) toEn sourceLang (ascii ''en'') of
                Inl e \<Rightarrow> Inl e
              | Inr intermediate \<Rightarrow>
                  translateComplexText h intermediate fromEn (ascii ''en'') targetLang)"
    using assms(1) by (simp add: translate_def direct toEn fromEn)
  have first: "translate h (Str text) sourceLang (ascii ''en'') =
               translateComplexText h (Str text) toEn sourceLang (ascii ''en'')"
    by (rule translate_direct [OF toEn])
  have second: "translate h v (ascii ''en'') targetLang =
                translateComplexText h v fromEn (ascii ''en'') targetLang" for v
    by (rule translate_direct [OF fromEn])
  show ?thesis
    unfolding lhs first second ..
qed

lemma supported_fr_en: "isLanguagePairSupported (ascii ''fr'') (ascii ''en'')"
  unfolding isLanguagePairSupported_def translations_store_eq pairKey_def ascii_def by simp

lemma supported_en_de: "isLanguagePairSupported (ascii ''en'') (ascii ''de'')"
  unfolding isLanguagePairSupported_def translations_store_eq pairKey_def ascii_def by simp

lemma unsupported_fr_de: "\<not> isLanguagePairSupported (ascii ''fr'') (ascii ''de'')"
  unfolding isLanguagePairSupported_def translations_store_eq pairKey_def ascii_def by simp

lemma de_not_en: "ascii ''de'' \<noteq> ascii ''en''"
  by (simp add: ascii_def)

theorem pivot_correctness_witness:
  "ascii ''de'' \<noteq> ascii ''en''
   \<and> \<not> isLanguagePairSupported (ascii ''fr'') (ascii ''de'')
   \<and> isLanguagePairSupported (ascii ''fr'') (ascii ''en'')
   \<and> isLanguagePairSupported (ascii ''en'') (ascii ''de'')
   \<and> translate latinHost (Str (ascii ''bonjour'')) (ascii ''fr'') (ascii ''de'') =
       (case translate latinHost (Str (ascii ''bonjour'')) (ascii ''fr'') (ascii ''en'') of
          Inl e \<Rightarrow> Inl e
        | Inr intermediate \<Rightarrow> translate latinHost intermediate (ascii ''en'') (ascii ''de''))"
  using pivot_correctness [OF de_not_en unsupported_fr_de supported_fr_en supported_en_de,
                           of latinHost "ascii ''bonjour''"]
        de_not_en unsupported_fr_de supported_fr_en supported_en_de
  by blast

subsection \<open>Evaluating the service on given text\<close>

lemmas store_table_defs =
  lex_en_hi_def lex_hi_en_def lex_en_es_2_def lex_es_en_2_def lex_en_fr_2_def
  lex_fr_en_2_def lex_en_pt_2_def lex_pt_en_2_def lex_en_ne_def lex_ne_en_def
  lex_en_si_def lex_si_en_def lex_en_de_def lex_de_en_def lex_en_bn_def
  lex_bn_en_def lex_en_ta_def lex_ta_en_def lex_en_te_def lex_te_en_def
  lex_en_ur_def lex_ur_en_def lex_en_zh_def lex_zh_en_def lex_en_ja_def
  lex_ja_en_def lex_en_ko_def lex_ko_en_def lex_en_ar_def lex_ar_en_def
  lex_en_ru_def lex_ru_en_def

lemmas rx_defs = wsStar_def wsPlus_def anyGroup_def closing_def danda_def word_def

lemma table_fr_de:
  "translate h text (ascii ''fr'') (ascii ''de'') =
     (case translateComplexText h text lex_fr_en_2 (ascii ''fr'') (ascii ''en'') of
        Inl e \<Rightarrow> Inl e
      | Inr intermediate \<Rightarrow> translateComplexText h intermediate lex_en_de (ascii ''en'') (ascii ''de''))"
  unfolding translate_def translations_store_eq pairKey_def ascii_def by simp

lemma table_en_ne:
  "translate h text (ascii ''en'') (ascii ''ne'') =
     translateComplexText h text lex_en_ne (ascii ''en'') (ascii ''ne'')"
  unfolding translate_def translations_store_eq pairKey_def ascii_def by simp

lemma table_en_hi:
  "translate h text (ascii ''en'') (ascii ''hi'') =
     translateComplexText h text lex_en_hi (ascii ''en'') (ascii ''hi'')"
  unfolding translate_def translations_store_eq pairKey_def ascii_def by simp

lemma rules_en_ne:
  "map_of patternRules (pairKey (ascii ''en'') (ascii ''ne'')) =
     Some (the (map_of patternRules (ascii ''en-ne'')))"
  unfolding patternRules_def pairKey_def ascii_def by simp

subsection \<open>No table for the pair\<close>

text \<open>
  The part of claim C1 about a pair without any table: \<^verbatim>\<open>isLanguagePairSupported\<close> is
  false for \<^verbatim>\<open>en\<close>, \<^verbatim>\<open>xx\<close>, and \<^verbatim>\<open>translate\<close> returns the text behind the marker
  that names the pair.
\<close>

lemma unsupported_en_xx: "\<not> isLanguagePairSupported (ascii ''en'') (ascii ''xx'')"
  unfolding isLanguagePairSupported_def translations_store_eq pairKey_def ascii_def by simp

lemma no_dictionary_marker:
  "translate h (Str text) (ascii ''en'') (ascii ''xx'') =
     Inr (Str (ascii ''[No dictionary: en-xx] '' @ text))"
  unfolding translate_def translations_store_eq pairKey_def ascii_def by simp

subsection \<open>A word that names a member of the object prototype\<close>

lemma constructor_lower: "toLowerCase latinHost (ascii ''constructor'') = ascii ''constructor''"
  unfolding ascii_def latinHost_def by (simp add: lowerAscii_def)

lemma constructor_trim: "trim (ascii ''constructor'') = ascii ''constructor''"
  unfolding ascii_def trim_def by (simp add: isSpace_def)

lemma constructor_fr_en:
  "getProperty lex_fr_en_2 (ascii ''constructor'') = Inherited (ascii ''constructor'')"
  unfolding lex_fr_en_2_def getProperty_def prototypeMembers_def ascii_def by simp

lemma constructor_en_hi:
  "getProperty lex_en_hi (ascii ''constructor'') = Inherited (ascii ''constructor'')"
  unfolding lex_en_hi_def getProperty_def prototypeMembers_def ascii_def by simp

text \<open>
  With a table of its own for the pair, \<^verbatim>\<open>translate\<close> answers the word
  \<^verbatim>\<open>constructor\<close> with the function \<^verbatim>\<open>Object\<close>, which is not a string.
\<close>

lemma translate_returns_inherited_member:
  "translate latinHost (Str (ascii ''constructor'')) (ascii ''en'') (ascii ''hi'') =
     Inr (Inherited (ascii ''constructor''))"
  unfolding table_en_hi
  by (simp add: translateComplexText.simps constructor_lower constructor_trim constructor_en_hi)

text \<open>
  Claim C1 says that \<^verbatim>\<open>translate\<close> returns a string for every text and every pair and
  never throws. From French to German the service pivots through English; on the word
  \<^verbatim>\<open>constructor\<close> the first step returns the function \<^verbatim>\<open>Object\<close>, the second step
  calls \<^verbatim>\<open>trim\<close> on it, and the call ends in a \<^verbatim>\<open>TypeError\<close>.
\<close>

theorem translate_throws_on_inherited_member:
  "translate latinHost (Str (ascii ''constructor'')) (ascii ''fr'') (ascii ''de'') = Inl TypeError"
  unfolding table_fr_de
  by (simp add: translateComplexText.simps constructor_lower constructor_trim constructor_fr_en)

subsection \<open>Exact match of the whole text\<close>

lemma store_values_nonempty:
  "list_all (\<lambda>(k, table). list_all (\<lambda>(key, v). v \<noteq> []) table) translations_store"
  unfolding translations_store_eq store_table_defs ascii_def by simp

lemma store_value_nonempty:
  assumes "map_of translations_store k = Some table" and "map_of table key = Some v"
  shows "v \<noteq> []"
proof -
  from assms(1) have "(k, table) \<in> set translations_store" by (rule map_of_SomeD)
  with store_values_nonempty have "list_all (\<lambda>(key, v). v \<noteq> []) table"
    by (auto simp: list_all_iff)
  moreover from assms(2) have "(key, v) \<in> set table" by (rule map_of_SomeD)
  ultimately show ?thesis by (auto simp: list_all_iff)
qed

text \<open>
  Claim C3. When the pair has a table and the text, put in lower case and trimmed, is a key
  of that table, \<^verbatim>\<open>translate\<close> returns exactly the value of that key, whatever the text
  would be classified as; so does every text with the same lower-case form, whatever its
  casing.
\<close>

theorem exact_match:
  assumes "map_of translations_store (pairKey sourceLang targetLang) = Some table"
    and "map_of table (trim (toLowerCase h text)) = Some v"
  shows "translate h (Str text) sourceLang targetLang = Inr (Str v)
         \<and> (\<forall>text'. toLowerCase h text' = toLowerCase h text
               \<longrightarrow> translate h (Str text') sourceLang targetLang = Inr (Str v))"
proof -
  have "v \<noteq> []" using assms by (rule store_value_nonempty)
  then have "translate h (Str t) sourceLang targetLang = Inr (Str v)"
    if "toLowerCase h t = toLowerCase h text" for t
    using assms that
    by (simp add: translate_direct translateComplexText.simps getProperty_def Let_def)
  then show ?thesis by simp
qed

lemma store_en_hi: "map_of translations_store (pairKey (ascii ''en'') (ascii ''hi'')) = Some lex_en_hi"
  unfolding translations_store_eq pairKey_def ascii_def by simp

lemma key_good_morning:
  "map_of lex_en_hi (trim (toLowerCase latinHost (ascii '' Good MORNING ''))) =
     Some [0x936, 0x941, 0x92D, 0x20, 0x92A, 0x94D, 0x930, 0x92D, 0x93E, 0x924]"
  unfolding lex_en_hi_def ascii_def latinHost_def trim_def
  by (simp add: lowerAscii_def isSpace_def)

theorem exact_match_witness:
  "map_of translations_store (pairKey (ascii ''en'') (ascii ''hi'')) = Some lex_en_hi
   \<and> map_of lex_en_hi (trim (toLowerCase latinHost (ascii '' Good MORNING ''))) =
       Some [0x936, 0x941, 0x92D, 0x20, 0x92A, 0x94D, 0x930, 0x92D, 0x93E, 0x924]
   \<and> translate latinHost (Str (ascii '' Good MORNING '')) (ascii ''en'') (ascii ''hi'') =
       Inr (Str [0x936, 0x941, 0x92D, 0x20, 0x92A, 0x94D, 0x930, 0x92D, 0x93E, 0x924])"
  using exact_match [OF store_en_hi key_good_morning] store_en_hi key_good_morning
  by blast

subsection \<open>Pattern rules\<close>

text \<open>
  The rules are tried in the order of declaration and the first that matches decides; a
  sentence takes the result of the rules, when there is one, before it looks at its table.
\<close>

lemma firstMatchingRule_first:
  assumes "list_all (\<lambda>(p, t). matchAnchored p original = None) earlier"
    and "matchAnchored pattern original = Some m"
  shows "firstMatchingRule (earlier @ (pattern, template) # later) original =
           Some (substituteGroups template 1 m)"
  using assms by (induction earlier) auto

lemma firstMatchingRule_none:
  "list_all (\<lambda>(p, t). matchAnchored p original = None) rules \<Longrightarrow>
   firstMatchingRule rules original = None"
  by (induction rules) auto

lemma translateSentence_patterned:
  "applyPatternRules text sourceLang targetLang = Some (c # cs) \<Longrightarrow>
   translateSentence h text table sourceLang targetLang = c # cs"
  by (simp add: translateSentence_def)

text \<open>The scenario of claim C5: \<^verbatim>\<open>my name is Sam\<close> from English to Nepali.\<close>

lemma sam_trim: "trim (ascii ''my name is Sam'') = ascii ''my name is Sam''"
  unfolding ascii_def trim_def by (simp add: isSpace_def)

lemma sam_lower: "toLowerCase latinHost (ascii ''my name is Sam'') = ascii ''my name is sam''"
  unfolding ascii_def latinHost_def by (simp add: lowerAscii_def)

lemma sam_lower_trim: "trim (ascii ''my name is sam'') = ascii ''my name is sam''"
  unfolding ascii_def trim_def by (simp add: isSpace_def)

lemma sam_this_is: "matchAnchored rxThisIs (ascii ''my name is Sam'') = None"
  unfolding rxThisIs_def rx_defs matchAnchored_def ascii_def by (simp add: isSpace_def)

lemma sam_my_name_is: "matchAnchored rxMyNameIs (ascii ''my name is Sam'') = Some [ascii ''Sam'']"
  unfolding rxMyNameIs_def rx_defs matchAnchored_def ascii_def by (simp add: isSpace_def)

lemma sam_rules:
  "applyPatternRules (ascii ''my name is Sam'') (ascii ''en'') (ascii ''ne'') =
     Some [0x92E, 0x947, 0x930, 0x94B, 0x20, 0x928, 0x93E, 0x92E, 0x20, 0x53, 0x61, 0x6D, 0x20, 0x939, 0x94B]"
  unfolding applyPatternRules_def rules_en_ne sam_trim
  apply (simp add: patternRules_def sam_this_is sam_my_name_is)
  apply (simp add: ascii_def replaceAll_def trim_def isSpace_def)
  done

lemma sam_no_key:
  "getProperty lex_en_ne (ascii ''my name is sam'') = Undefined"
  "getProperty lex_en_ne (ascii ''my name is Sam'') = Undefined"
  unfolding lex_en_ne_def getProperty_def prototypeMembers_def ascii_def by simp_all

lemma sam_class:
  "isParagraph (ascii ''my name is Sam'') = False"
  "isSentence (ascii ''my name is Sam'') = True"
  unfolding isParagraph_def isSentence_def sam_trim
  unfolding ascii_def splitWhitespace_def splitRuns_def
  by (simp_all add: isSentenceEnder_def isSpace_def)

lemma my_name_is_Sam:
  "translate latinHost (Str (ascii ''my name is Sam'')) (ascii ''en'') (ascii ''ne'') =
     Inr (Str [0x92E, 0x947, 0x930, 0x94B, 0x20, 0x928, 0x93E, 0x92E, 0x20, 0x53, 0x61, 0x6D, 0x20, 0x939, 0x94B])"
  unfolding table_en_ne
  by (simp add: translateComplexText.simps sam_lower sam_trim sam_lower_trim sam_no_key sam_class
        translateSentence_patterned [OF sam_rules])

text \<open>The same sentence with the name \<^verbatim>\<open>$&\<close>.\<close>

lemma dollar_trim: "trim (ascii ''my name is $&'') = ascii ''my name is $&''"
  unfolding ascii_def trim_def by (simp add: isSpace_def)

lemma dollar_lower: "toLowerCase latinHost (ascii ''my name is $&'') = ascii ''my name is $&''"
  unfolding ascii_def latinHost_def by (simp add: lowerAscii_def)

lemma dollar_this_is: "matchAnchored rxThisIs (ascii ''my name is $&'') = None"
  unfolding rxThisIs_def rx_defs matchAnchored_def ascii_def by (simp add: isSpace_def)

lemma dollar_my_name_is: "matchAnchored rxMyNameIs (ascii ''my name is $&'') = Some [ascii ''$&'']"
  unfolding rxMyNameIs_def rx_defs matchAnchored_def ascii_def by (simp add: isSpace_def)

lemma dollar_rules:
  "applyPatternRules (ascii ''my name is $&'') (ascii ''en'') (ascii ''ne'') =
     Some [0x92E, 0x947, 0x930, 0x94B, 0x20, 0x928, 0x93E, 0x92E, 0x20, 0x24, 0x31, 0x20, 0x939, 0x94B]"
  unfolding applyPatternRules_def rules_en_ne dollar_trim
  apply (simp add: patternRules_def dollar_this_is dollar_my_name_is)
  apply (simp add: ascii_def replaceAll_def trim_def isSpace_def)
  done

lemma dollar_no_key: "getProperty lex_en_ne (ascii ''my name is $&'') = Undefined"
  unfolding lex_en_ne_def getProperty_def prototypeMembers_def ascii_def by simp

lemma dollar_class:
  "isParagraph (ascii ''my name is $&'') = False"
  "isSentence (ascii ''my name is $&'') = True"
  unfolding isParagraph_def isSentence_def dollar_trim
  unfolding ascii_def splitWhitespace_def splitRuns_def
  by (simp_all add: isSentenceEnder_def isSpace_def)

text \<open>
  Claim C5 says that the placeholders of the template are replaced by the trimmed text of
  the groups. The second rule of the pair matches \<^verbatim>\<open>my name is $&\<close> with the group
  \<^verbatim>\<open>$&\<close>; the template is \<^verbatim>\<open>MERO NAAM $1 HO\<close> (in Devanagari), and the result keeps
  \<^verbatim>\<open>$1\<close> where the claim puts \<^verbatim>\<open>$&\<close>, because \<^verbatim>\<open>replace\<close> reads \<^verbatim>\<open>$&\<close> in its
  replacement as the matched text.
\<close>

theorem pattern_rule_expands_group_text:
  "translate latinHost (Str (ascii ''my name is $&'')) (ascii ''en'') (ascii ''ne'') =
     Inr (Str [0x92E, 0x947, 0x930, 0x94B, 0x20, 0x928, 0x93E, 0x92E, 0x20, 0x24, 0x31, 0x20, 0x939, 0x94B])"
  unfolding table_en_ne
  by (simp add: translateComplexText.simps dollar_lower dollar_trim dollar_no_key dollar_class
        translateSentence_patterned [OF dollar_rules])

section \<open>Properties of the offline pack managers\<close>

subsection \<open>Packs\<close>

lemma map_of_updatePack:
  "map_of (updatePack langCode f packs) k =
     (if k = langCode then map_option f (map_of packs k) else map_of packs k)"
  by (induction packs) (auto simp: updatePack_def)

lemma packs_loadLanguageDictionary:
  "map_of (languagePacks (loadLanguageDictionary svc langCode)) k =
     (if k = langCode
      then map_option (\<lambda>p. case map_of dictionaries langCode of
                              Some d \<Rightarrow> p\<lparr>dictionary := d\<rparr> | None \<Rightarrow> p)
             (map_of (languagePacks svc) k)
      else map_of (languagePacks svc) k)"
  by (auto simp: loadLanguageDictionary_def map_of_updatePack split: option.splits)

subsection \<open>The progress values\<close>

lemma bitLength_1: "bitLength (Suc 0) = 1"
  by (simp add: bitLength.simps)

lemma bitLength_100: "bitLength 100 = 7"
  by (simp add: bitLength.simps)

lemma roundHalfEven_of_int: "roundHalfEven (of_int k) = k"
  by (simp add: roundHalfEven_def Let_def)

lemma toDouble_0: "toDouble 0 = 0"
  by (simp add: toDouble_def)

lemma toDouble_1: "toDouble 1 = 1"
proof -
  have "1 / (2::rat) powi (- 52) = of_int (2 ^ 52)"
    by (simp add: power_int_minus)
  then have "roundHalfEven (1 / (2::rat) powi (- 52)) = 2 ^ 52"
    by (simp only: roundHalfEven_of_int)
  moreover have "exponentOf 1 = 0" by (simp add: exponentOf_def bitLength_1)
  ultimately show ?thesis
    by (simp add: toDouble_def Let_def power_int_minus)
qed

lemma toDouble_100: "toDouble 100 = 100"
proof -
  have "100 / (2::rat) powi (- 46) = of_int (100 * 2 ^ 46)"
    by (simp add: power_int_minus)
  then have "roundHalfEven (100 / (2::rat) powi (- 46)) = 100 * 2 ^ 46"
    by (simp only: roundHalfEven_of_int)
  moreover have "exponentOf 100 = 6" by (simp add: exponentOf_def bitLength_100)
  ultimately show ?thesis
    by (simp add: toDouble_def Let_def power_int_minus)
qed

text \<open>The first value is 0 and the last is 100, for any number of steps.\<close>

lemma hd_progressValues: "hd (progressValues n) = 0"
  unfolding progressValues_def by (simp add: upt_rec toDouble_0 del: upt_Suc)

lemma last_progressValues: "0 < n \<Longrightarrow> last (progressValues n) = 100"
  unfolding progressValues_def upt_Suc by (simp add: toDouble_1 toDouble_100 last_map)

lemma progressValues_nonempty: "progressValues n \<noteq> []"
  by (simp add: progressValues_def)

text \<open>A loop that came to its end has called the callback on every value.\<close>

lemma reportProgress_completed:
  "reportProgress (Some returns) vs = (True, reported) \<Longrightarrow> reported = vs"
  by (induction vs arbitrary: reported) (auto split: if_splits prod.splits)

lemma reportProgress_returns:
  "\<forall>v \<in> set vs. returns v \<Longrightarrow> reportProgress (Some returns) vs = (True, vs)"
  by (induction vs) auto

subsection \<open>Downloading a pack\<close>

lemma downloadLanguagePack_installs:
  assumes "downloadLanguagePack svc langCode onProgress = Inr (True, progress, svc')"
  shows "onProgress \<noteq> None \<Longrightarrow> progress \<noteq> [] \<and> last progress = 100"
    and "isLanguagePackDownloaded svc' langCode"
proof -
  from assms obtain pack where pack: "map_of (languagePacks svc) langCode = Some pack"
    by (auto simp: downloadLanguagePack_def split: option.splits)
  from assms pack have loop: "reportProgress onProgress (progressValues 100) = (True, progress)"
    by (auto simp: downloadLanguagePack_def Let_def split: prod.splits bool.splits)
  show "progress \<noteq> [] \<and> last progress = 100" if "onProgress \<noteq> None"
  proof -
    from that obtain returns where "onProgress = Some returns" by blast
    with loop have "progress = progressValues 100" by (simp add: reportProgress_completed)
    then show ?thesis by (simp add: last_progressValues progressValues_nonempty)
  qed
  from assms pack loop show "isLanguagePackDownloaded svc' langCode"
    by (auto simp: downloadLanguagePack_def Let_def isLanguagePackDownloaded_def
          saveLanguagePackStatus_def map_of_updatePack packs_loadLanguageDictionary
          split: option.splits)
qed

text \<open>When the callback throws, the download returns false and leaves the state as it was.\<close>

lemma downloadLanguagePack_fails:
  assumes "downloadLanguagePack svc langCode onProgress = Inr (False, progress, svc')"
  shows "svc' = svc"
  using assms
  by (auto simp: downloadLanguagePack_def Let_def split: option.splits prod.splits bool.splits)

lemma translateOffline_returns:
  assumes "isLanguagePackDownloaded svc sourceLang"
  shows "\<exists>out svc'. translateOffline h now svc text sourceLang targetLang = Inr (out, svc')"
proof -
  from assms obtain pack where "map_of (languagePacks svc) sourceLang = Some pack"
    by (auto simp: isLanguagePackDownloaded_def split: option.splits)
  with assms show ?thesis
    by (auto simp: translateOffline_def Let_def split: option.splits)
qed

subsection \<open>A pack that is not downloaded\<close>

text \<open>
  Claim C7, as amended. In the pack manager of \<^verbatim>\<open>src/services/OfflineTranslation.ts\<close>,
  \<^verbatim>\<open>translateOffline\<close> for a source language whose pack is not downloaded throws the error
  \<^verbatim>\<open>Language pack not downloaded\<close> with the language code. When a call of
  \<^verbatim>\<open>downloadLanguagePack\<close> for that language then returns true, a progress callback given
  to it has received 100 as its last value, and the same call of \<^verbatim>\<open>translateOffline\<close>
  returns a string instead of throwing.
\<close>

theorem pack_not_downloaded:
  assumes "\<not> isLanguagePackDownloaded svc sourceLang"
  shows "translateOffline h now svc text sourceLang targetLang =
           Inl (Error (ascii ''Language pack not downloaded: '' @ sourceLang))
         \<and> (\<forall>onProgress progress svc'.
               downloadLanguagePack svc sourceLang onProgress = Inr (True, progress, svc') \<longrightarrow>
                 (onProgress \<noteq> None \<longrightarrow> progress \<noteq> [] \<and> last progress = 100)
                 \<and> (\<exists>out svc''. translateOffline h later svc' text sourceLang targetLang = Inr (out, svc'')))"
proof (intro conjI allI impI)
  show "translateOffline h now svc text sourceLang targetLang =
          Inl (Error (ascii ''Language pack not downloaded: '' @ sourceLang))"
    using assms by (simp add: translateOffline_def)
next
  fix onProgress progress svc'
  assume d: "downloadLanguagePack svc sourceLang onProgress = Inr (True, progress, svc')"
  show "progress \<noteq> []" if "onProgress \<noteq> None"
    using downloadLanguagePack_installs(1) [OF d that] by simp
  show "last progress = 100" if "onProgress \<noteq> None"
    using downloadLanguagePack_installs(1) [OF d that] by simp
  show "\<exists>out svc''. translateOffline h later svc' text sourceLang targetLang = Inr (out, svc'')"
    by (rule translateOffline_returns [OF downloadLanguagePack_installs(2) [OF d]])
qed

lemma freshService_packs: "languagePacks freshService = initializeLanguagePacks 0"
  unfolding freshService_def newService_def loadCachedTranslations_def initializeLanguagePacks_def
  by (simp add: Let_def)

lemma fresh_not_downloaded: "\<not> isLanguagePackDownloaded freshService (ascii ''ne'')"
  unfolding isLanguagePackDownloaded_def freshService_packs initializeLanguagePacks_def ascii_def
  by simp

lemma fresh_download:
  "downloadLanguagePack freshService (ascii ''ne'') (Some (\<lambda>progress. True)) =
     Inr (True, progressValues 100, installedNepali)"
proof -
  have "\<exists>pack. map_of (languagePacks freshService) (ascii ''ne'') = Some pack"
    unfolding freshService_packs initializeLanguagePacks_def ascii_def by simp
  then obtain pack where p: "map_of (languagePacks freshService) (ascii ''ne'') = Some pack" ..
  have loop: "reportProgress (Some (\<lambda>progress. True)) (progressValues 100) = (True, progressValues 100)"
    by (simp add: reportProgress_returns)
  from p loop obtain svc' where
    d: "downloadLanguagePack freshService (ascii ''ne'') (Some (\<lambda>progress. True)) =
          Inr (True, progressValues 100, svc')"
    by (simp add: downloadLanguagePack_def Let_def)
  then have "installedNepali = svc'"
    by (simp add: installedNepali_def)
  with d show ?thesis by simp
qed

text \<open>A callback that throws on its first call: the download returns false and changes nothing.\<close>

lemma progressValues_first: "\<exists>later. progressValues n = 0 # later"
  unfolding progressValues_def by (simp add: upt_rec toDouble_0 del: upt_Suc)

lemma download_fails_when_callback_throws:
  "downloadLanguagePack freshService (ascii ''ne'') (Some (\<lambda>progress. False)) =
     Inr (False, [0], freshService)"
proof -
  have "\<exists>pack. map_of (languagePacks freshService) (ascii ''ne'') = Some pack"
    unfolding freshService_packs initializeLanguagePacks_def ascii_def by simp
  then obtain pack where p: "map_of (languagePacks freshService) (ascii ''ne'') = Some pack" ..
  from progressValues_first obtain later where "progressValues 100 = 0 # later" ..
  then have "reportProgress (Some (\<lambda>progress. False)) (progressValues 100) = (False, [0])"
    by simp
  with p show ?thesis
    by (simp add: downloadLanguagePack_def)
qed

theorem pack_not_downloaded_witness:
  "\<not> isLanguagePackDownloaded freshService (ascii ''ne'')
   \<and> translateOffline latinHost 0 freshService paani (ascii ''ne'') (ascii ''en'') =
       Inl (Error (ascii ''Language pack not downloaded: '' @ ascii ''ne''))
   \<and> downloadLanguagePack freshService (ascii ''ne'') (Some (\<lambda>progress. True)) =
       Inr (True, progressValues 100, installedNepali)
   \<and> last (progressValues 100) = 100
   \<and> (\<exists>out svc''. translateOffline latinHost 1 installedNepali paani (ascii ''ne'') (ascii ''en'') =
                     Inr (out, svc''))"
  using pack_not_downloaded [OF fresh_not_downloaded, of latinHost 0 paani "ascii ''en''" 1]
        fresh_not_downloaded fresh_download
  by blast

subsection \<open>The age of a cache entry\<close>

text \<open>
  The first service returns an entry younger than 24 hours as it is, and replaces an entry
  of 24 hours or more by a new translation stamped with the time of the call.
\<close>

lemma cache_ttl_first_service:
  assumes "isLanguagePackDownloaded svc sourceLang"
    and "translationCache svc (cacheKey text sourceLang targetLang) = Some cached"
  shows "now - timestamp cached < 24 * 60 * 60 * 1000 \<Longrightarrow>
           translateOffline h now svc text sourceLang targetLang = Inr (translation cached, svc)"
    and "24 * 60 * 60 * 1000 \<le> now - timestamp cached \<Longrightarrow>
           \<exists>out svc'. translateOffline h now svc text sourceLang targetLang = Inr (out, svc')
             \<and> translationCache svc' (cacheKey text sourceLang targetLang) =
                 Some \<lparr>translation = out, confidence = (if out = text then 0.3 else 0.8), timestamp = now\<rparr>"
proof -
  from assms(1) obtain pack where p: "map_of (languagePacks svc) sourceLang = Some pack"
    by (auto simp: isLanguagePackDownloaded_def split: option.splits)
  show "now - timestamp cached < 24 * 60 * 60 * 1000 \<Longrightarrow>
          translateOffline h now svc text sourceLang targetLang = Inr (translation cached, svc)"
    using assms by (simp add: translateOffline_def Let_def)
  show "24 * 60 * 60 * 1000 \<le> now - timestamp cached \<Longrightarrow>
          \<exists>out svc'. translateOffline h now svc text sourceLang targetLang = Inr (out, svc')
            \<and> translationCache svc' (cacheKey text sourceLang targetLang) =
                Some \<lparr>translation = out, confidence = (if out = text then 0.3 else 0.8), timestamp = now\<rparr>"
    using assms p by (simp add: translateOffline_def Let_def saveCacheToStorage_def)
qed

text \<open>The tables of the second service: reading an object literal or a \<^verbatim>\<open>Map\<close> by key.\<close>

lemma map_of_filter_other:
  "k \<noteq> k0 \<Longrightarrow> map_of (filter (\<lambda>(k', v'). k' \<noteq> k0) kvs) k = map_of kvs k"
  by (induction kvs) auto

lemma map_of_objectLiteral: "map_of (objectLiteral kvs) k = map_of (rev kvs) k"
proof (induction kvs rule: objectLiteral.induct)
  case 1
  then show ?case by simp
next
  case (2 k0 v kvs)
  show ?case
  proof (cases "k = k0")
    case True
    then show ?thesis
      by (simp add: map_of_append map_add_def split: option.splits)
  next
    case False
    then have "map_of (objectLiteral ((k0, v) # kvs)) k =
               map_of (rev (filter (\<lambda>(k', v'). k' \<noteq> k0) kvs)) k"
      using "2.IH" by simp
    also have "\<dots> = map_of (filter (\<lambda>(k', v'). k' \<noteq> k0) (rev kvs)) k"
      by (simp add: rev_filter)
    also have "\<dots> = map_of (rev kvs) k"
      using False by (rule map_of_filter_other)
    finally show ?thesis
      using False by (simp add: map_of_append map_add_def split: option.splits)
  qed
qed

lemma fold_last_entry:
  "fold (\<lambda>(k', v) r. if k' = k then Some v else r) kvs acc =
     (case map_of (rev kvs) k of Some v \<Rightarrow> Some v | None \<Rightarrow> acc)"
  by (induction kvs arbitrary: acc) (auto simp: map_of_append map_add_def split: option.splits)

lemma map_of_objectLiteral_fold:
  "map_of (objectLiteral kvs) k = fold (\<lambda>(k', v) r. if k' = k then Some v else r) kvs None"
  by (simp add: map_of_objectLiteral fold_last_entry split: option.splits)

lemma cache_loadLanguageDictionary2:
  "translationCache (loadLanguageDictionary2 s c) = translationCache s"
  by (simp add: loadLanguageDictionary2_def split: option.splits)

lemma cache_preloadAllDictionaries:
  "translationCache (fst (preloadAllDictionaries s)) = translationCache s"
  by (simp add: preloadAllDictionaries_def cache_loadLanguageDictionary2)

lemma cache_preloaded: "translationCache (preloaded s) = translationCache s"
  by (simp add: preloaded_def preloadAllDictionaries_def cache_loadLanguageDictionary2)

lemma cache_fold_status2:
  "translationCache
     (fold (\<lambda>langCode s.
              if storedStatus s langCode = Some True
              then loadLanguageDictionary2
                     (s\<lparr>languagePacks := updatePack langCode (\<lambda>p. p\<lparr>isDownloaded := True\<rparr>) (languagePacks s)\<rparr>)
                     langCode
              else s) codes s) = translationCache s"
  by (induction codes arbitrary: s) (simp_all add: cache_loadLanguageDictionary2)

lemma cache_newService2:
  "translationCache (newService2 now status (Some cached) items) = parsedCache cached"
  by (simp add: newService2_def cache_preloadAllDictionaries loadCachedTranslations2_def
        cache_fold_status2 Let_def)

text \<open>The two stored entries hold strings, so they come back from storage as they were.\<close>

lemma parsed_earlierCache: "parsedCache earlierCache = earlierCache"
  by (rule ext) (simp add: parsedCache_def earlierCache_def jsonValue_def)

lemma cache_laterService2: "translationCache laterService2 = earlierCache"
  by (simp add: laterService2_def cache_preloaded cache_newService2 parsed_earlierCache)

lemma translateOffline2_cached:
  assumes "getHardcodedTranslation text sourceLang = None"
    and "sourceLang \<noteq> ascii ''auto''"
    and "sourceLang \<noteq> targetLang"
    and "translationCache svc (cacheKey2 text sourceLang targetLang) = Some cached"
  shows "translateOffline2 h now svc text sourceLang targetLang = (translation cached, svc)"
  using assms by (simp add: translateOffline2_def Let_def cachedTranslation2_def)

lemma paani_not_hardcoded: "getHardcodedTranslation paani (ascii ''ne'') = None"
  unfolding getHardcodedTranslation_def paani_def ascii_def includesStr_def by simp

lemma earlier_paani:
  "earlierCache (cacheKey2 paani (ascii ''ne'') (ascii ''en'')) =
     Some \<lparr>translation = Str (ascii ''Water''), confidence = 1.0, timestamp = 0\<rparr>"
  unfolding earlierCache_def cacheKey2_def paani_def ascii_def by simp

lemma earlier_nezha:
  "earlierCache (cacheKey2 (ascii ''ne-zha'') (ascii ''si'') (ascii ''en'')) =
     Some \<lparr>translation = Str (ascii ''ne-zha''), confidence = 0.7, timestamp = 0\<rparr>"
  unfolding earlierCache_def cacheKey2_def paani_def ascii_def by simp

text \<open>
  Claim C6 says that an entry older than 24 hours is not reused: the translation is
  computed again and the entry overwritten. The second service starts with the cache an
  earlier session stored three days before; asked for the same translation, it returns
  the stored entry and leaves the state, and with it the entry and its time stamp, as it
  was.
\<close>

theorem stale_entry_reused:
  "translateOffline2 latinHost 259200000 laterService2 paani (ascii ''ne'') (ascii ''en'') =
     (Str (ascii ''Water''), laterService2)
   \<and> translationCache laterService2 (cacheKey2 paani (ascii ''ne'') (ascii ''en'')) =
       Some \<lparr>translation = Str (ascii ''Water''), confidence = 1.0, timestamp = 0\<rparr>
   \<and> (24 * 60 * 60 * 1000 :: int) \<le> 259200000 - 0"
proof -
  have c: "translationCache laterService2 (cacheKey2 paani (ascii ''ne'') (ascii ''en'')) =
             Some \<lparr>translation = Str (ascii ''Water''), confidence = 1.0, timestamp = 0\<rparr>"
    by (simp add: cache_laterService2 earlier_paani)
  have "ascii ''ne'' \<noteq> ascii ''auto''" and "ascii ''ne'' \<noteq> ascii ''en''"
    by (simp_all add: ascii_def)
  then show ?thesis
    using translateOffline2_cached [OF paani_not_hardcoded _ _ c, of latinHost 259200000] c
    by simp
qed

subsection \<open>Removing a pack\<close>

lemma removeLanguagePack_result:
  assumes "map_of (languagePacks svc) langCode = Some pack"
  shows "fst (removeLanguagePack svc langCode)"
    and "translationCache (snd (removeLanguagePack svc langCode)) key =
           (if startsWith key (langCode @ ascii ''-'') then None else translationCache svc key)"
    and "map_of (languagePacks (snd (removeLanguagePack svc langCode))) k =
           (if k = langCode then Some (pack\<lparr>isDownloaded := False, dictionary := []\<rparr>)
            else map_of (languagePacks svc) k)"
  using assms
  by (simp_all add: removeLanguagePack_def Let_def saveCacheToStorage_def saveLanguagePackStatus_def
        map_of_updatePack)

lemma removeLanguagePack_unknown:
  "map_of (languagePacks svc) langCode = None \<Longrightarrow> removeLanguagePack svc langCode = (False, svc)"
  by (simp add: removeLanguagePack_def)

lemma startsWith_append: "startsWith (p @ s) p"
  by (induction p) auto

lemma startsWith_code:
  assumes "0x2D \<notin> set a" and "0x2D \<notin> set b"
  shows "startsWith (a @ 0x2D # r) (b @ [0x2D]) \<longleftrightarrow> a = b"
  using assms
proof (induction a arbitrary: b)
  case Nil
  then show ?case by (cases b) auto
next
  case (Cons x a)
  then show ?case by (cases b) auto
qed

lemma hyphen: "ascii ''-'' = [0x2D]"
  by (simp add: ascii_def)

text \<open>
  In the first service the keys of a language start with its code and a hyphen: removing
  the pack of a language deletes the entries made for that source language and keeps the
  entries of every other language, for codes without a hyphen (the codes of the packs).
\<close>

lemma removeLanguagePack_prunes_language:
  assumes "map_of (languagePacks svc) langCode = Some pack"
    and "0x2D \<notin> set langCode" and "0x2D \<notin> set other"
  shows "translationCache (snd (removeLanguagePack svc langCode)) (cacheKey text other targetLang) =
           (if other = langCode then None else translationCache svc (cacheKey text other targetLang))"
  using assms startsWith_code [of other langCode "targetLang @ ascii ''-'' @ text"]
  by (simp add: removeLanguagePack_result(2) cacheKey_def hyphen)

lemma paani_neToEn: "getProperty neToEnDict paani = Str (ascii ''Water'')"
  unfolding neToEnDict_def getProperty_def map_of_objectLiteral_fold
  unfolding neToEnDict_literal_def paani_def  ascii_def
  by simp

lemma items_removeLanguagePack:
  "downloadedItems (snd (removeLanguagePack svc langCode)) = downloadedItems svc"
  by (simp add: removeLanguagePack_def Let_def saveCacheToStorage_def saveLanguagePackStatus_def
        split: option.splits)

lemma cache_newService2_empty:
  "translationCache (newService2 now status None items) = Map.empty"
  by (simp add: newService2_def cache_preloadAllDictionaries loadCachedTranslations2_def
        cache_fold_status2 Let_def)

lemma freshService2_eq:
  "freshService2 =
     \<lparr>languagePacks =
        [(ascii ''ne'', (the (map_of (initializeLanguagePacks2 0) (ascii ''ne'')))
                         \<lparr>dictionary := objectLiteral pack2_ne_entries, isDownloaded := True\<rparr>),
         (ascii ''si'', (the (map_of (initializeLanguagePacks2 0) (ascii ''si'')))
                         \<lparr>dictionary := objectLiteral pack2_si_entries, isDownloaded := True\<rparr>),
         (ascii ''en'', (the (map_of (initializeLanguagePacks2 0) (ascii ''en'')))
                         \<lparr>dictionary := objectLiteral pack2_en_entries, isDownloaded := True\<rparr>)],
      translationCache = Map.empty, storedStatus = Map.empty, storedCache = None,
      downloadedItems = (\<lambda>k. False)(ascii ''en'' := True, ascii ''ne'' := True, ascii ''si'' := True)\<rparr>"
  unfolding freshService2_def preloaded_def newService2_def preloadAllDictionaries_def
    loadCachedTranslations2_def initializeLanguagePacks2_def initializeLanguagePacks_def
  by (simp add: Let_def loadLanguageDictionary2_def updatePack_def dictionaries2_def ascii_def)

lemma fresh2_ne:
  "map_of (languagePacks freshService2) (ascii ''ne'') =
     Some ((the (map_of (initializeLanguagePacks2 0) (ascii ''ne'')))
             \<lparr>dictionary := objectLiteral pack2_ne_entries, isDownloaded := True\<rparr>)"
  unfolding freshService2_eq by simp

lemma fresh2_items:
  "downloadedItems freshService2 (ascii ''ne'')" "downloadedItems freshService2 (ascii ''en'')"
  "\<not> downloadedItems freshService2 (ascii ''fr'')"
  unfolding freshService2_eq ascii_def by simp_all

lemma removed2_pack:
  "map_option isDownloaded (map_of (languagePacks removedNepali2) (ascii ''ne'')) = Some False"
  by (simp add: removedNepali2_def removeLanguagePack_result(3) [OF fresh2_ne])

lemma removed2_pack':
  "map_of (languagePacks removedNepali2) (ascii ''ne'') =
     Some ((the (map_of (initializeLanguagePacks2 0) (ascii ''ne'')))\<lparr>dictionary := [], isDownloaded := False\<rparr>)"
  by (simp add: removedNepali2_def removeLanguagePack_result(3) [OF fresh2_ne])

lemma removed2_items:
  "downloadedItems removedNepali2 (ascii ''ne'')" "downloadedItems removedNepali2 (ascii ''en'')"
  by (simp_all add: removedNepali2_def items_removeLanguagePack fresh2_items)

lemma fresh2_cache: "translationCache freshService2 = Map.empty"
  by (simp add: freshService2_def cache_preloaded cache_newService2_empty)

lemma removed2_cache: "translationCache removedNepali2 key = None"
  by (simp add: removedNepali2_def removeLanguagePack_result(2) [OF fresh2_ne] fresh2_cache)

lemma paani_trim: "trim paani = paani"
  unfolding paani_def trim_def by (simp add: isSpace_def)

lemma paani_translated: "translateNepaliToEnglish h paani = Str (ascii ''Water'')"
proof -
  have "\<not> includesStr paani [0x928, 0x947, 0x92A, 0x93E, 0x932, 0x940, 0x20, 0x92D, 0x93E, 0x937, 0x93E]"
    unfolding paani_def includesStr_def by simp
  moreover have "truthy (Str (ascii ''Water''))"
    by (simp add: ascii_def)
  ultimately show ?thesis
    by (simp add: translateNepaliToEnglish_def paani_trim paani_neToEn)
qed

lemma paani_key: "cacheKey2 paani (ascii ''ne'') (ascii ''en'') \<notin> set prototypeMembers"
  unfolding cacheKey2_def paani_def prototypeMembers_def ascii_def by simp

text \<open>
  Claim C7 says that translating from a language whose pack is not installed raises an
  error. In the second service, after the Nepali pack is removed the pack is marked not
  downloaded, and a translation from Nepali still returns a translation.
\<close>

theorem removed_pack_still_translates:
  "map_option isDownloaded (map_of (languagePacks removedNepali2) (ascii ''ne'')) = Some False
   \<and> fst (translateOffline2 latinHost 0 removedNepali2 paani (ascii ''ne'') (ascii ''en'')) =
       Str (ascii ''Water'')"
proof -
  have l: "ascii ''ne'' \<noteq> ascii ''auto''" "ascii ''ne'' \<noteq> ascii ''en''"
    "ascii ''ne'' @ ascii ''-'' @ ascii ''en'' \<noteq> ascii ''en-ne''"
    "ascii ''ne'' @ ascii ''-'' @ ascii ''en'' \<noteq> ascii ''en-si''"
    by (simp_all add: ascii_def)
  have "fst (translateOffline2 latinHost 0 removedNepali2 paani (ascii ''ne'') (ascii ''en'')) =
          Str (ascii ''Water'')"
    by (simp add: translateOffline2_def paani_not_hardcoded l Let_def cachedTranslation2_def
          removed2_cache paani_key ensureLoaded2_def translateWithPack2_def
          isLanguagePackDownloaded2_def removed2_items removed2_pack'
          cacheResult_def paani_translated)
  with removed2_pack show ?thesis by simp
qed

lemma later2_ne: "\<exists>pack. map_of (languagePacks laterService2) (ascii ''ne'') = Some pack"
  unfolding laterService2_def preloaded_def newService2_def preloadAllDictionaries_def
    loadCachedTranslations2_def initializeLanguagePacks2_def initializeLanguagePacks_def
  by (simp add: Let_def loadLanguageDictionary2_def updatePack_def dictionaries2_def ascii_def)

text \<open>
  Claim C9 says that removing a pack deletes the cache entries of that language and leaves
  those of every other language. The second service keeps the keys as text, source and
  target joined by underscores, and deletes the keys that start with the code and a
  hyphen: removing the Nepali pack keeps the entry made for a Nepali text and deletes the
  entry made for the Sinhala source text \<^verbatim>\<open>ne-zha\<close>.
\<close>

theorem removal_misses_the_cache_keys:
  "fst (removeLanguagePack laterService2 (ascii ''ne''))
   \<and> translationCache (snd (removeLanguagePack laterService2 (ascii ''ne'')))
         (cacheKey2 paani (ascii ''ne'') (ascii ''en'')) =
       Some \<lparr>translation = Str (ascii ''Water''), confidence = 1.0, timestamp = 0\<rparr>
   \<and> translationCache laterService2 (cacheKey2 (ascii ''ne-zha'') (ascii ''si'') (ascii ''en'')) =
       Some \<lparr>translation = Str (ascii ''ne-zha''), confidence = 0.7, timestamp = 0\<rparr>
   \<and> translationCache (snd (removeLanguagePack laterService2 (ascii ''ne'')))
         (cacheKey2 (ascii ''ne-zha'') (ascii ''si'') (ascii ''en'')) = None"
proof -
  from later2_ne obtain pack where p: "map_of (languagePacks laterService2) (ascii ''ne'') = Some pack" ..
  have c: "translationCache laterService2 = earlierCache"
    by (rule cache_laterService2)
  have k1: "\<not> startsWith (cacheKey2 paani (ascii ''ne'') (ascii ''en'')) (ascii ''ne'' @ ascii ''-'')"
    unfolding cacheKey2_def paani_def ascii_def by simp
  have k2: "startsWith (cacheKey2 (ascii ''ne-zha'') (ascii ''si'') (ascii ''en'')) (ascii ''ne'' @ ascii ''-'')"
    unfolding cacheKey2_def ascii_def by simp
  show ?thesis
    by (simp add: removeLanguagePack_result(1,2) [OF p] c k1 k2 earlier_paani earlier_nezha)
qed
subsection \<open>The storage summary\<close>

lemma foldl_sizes: "foldl (\<lambda>sum pack. sum + sizeMB pack) a ps = a + sum_list (map sizeMB ps)"
  by (induction ps arbitrary: a) (simp_all add: add.assoc)

lemma sum_filter_le:
  "list_all (\<lambda>x. 0 \<le> (x::rat)) (map f ps) \<Longrightarrow> sum_list (map f (filter q ps)) \<le> sum_list (map f ps)"
  by (induction ps) auto

lemma sum_nonneg: "list_all (\<lambda>x. 0 \<le> (x::rat)) xs \<Longrightarrow> 0 \<le> sum_list xs"
  by (induction xs) auto

text \<open>The summary of any packs with positive sizes.\<close>

lemma getStorageInfo_bounds:
  assumes "list_all (\<lambda>x. 0 < x) (map sizeMB (getAvailableLanguagePacks svc))"
  shows "usedSize (getStorageInfo svc) \<le> totalSize (getStorageInfo svc)"
    and "downloadedPacks (getStorageInfo svc) \<le> availablePacks (getStorageInfo svc)"
    and "0 \<le> usedSize (getStorageInfo svc)" and "0 \<le> totalSize (getStorageInfo svc)"
proof -
  let ?ps = "getAvailableLanguagePacks svc"
  from assms have nn: "list_all (\<lambda>x. 0 \<le> x) (map sizeMB ?ps)"
    by (auto simp: list_all_iff intro: less_imp_le)
  then have nf: "list_all (\<lambda>x. 0 \<le> x) (map sizeMB (filter isDownloaded ?ps))"
    by (auto simp: list_all_iff)
  show "usedSize (getStorageInfo svc) \<le> totalSize (getStorageInfo svc)"
    using sum_filter_le [OF nn, of isDownloaded]
    by (simp add: getStorageInfo_def Let_def foldl_sizes)
  show "downloadedPacks (getStorageInfo svc) \<le> availablePacks (getStorageInfo svc)"
    by (simp add: getStorageInfo_def Let_def)
  show "0 \<le> usedSize (getStorageInfo svc)"
    using sum_nonneg [OF nf]
    by (simp add: getStorageInfo_def Let_def foldl_sizes)
  show "0 \<le> totalSize (getStorageInfo svc)"
    using sum_nonneg [OF nn]
    by (simp add: getStorageInfo_def Let_def foldl_sizes)
qed

text \<open>No method changes the size of a pack, or adds or drops a pack.\<close>

lemma sizes_updatePack:
  "(\<And>p. sizeMB (f p) = sizeMB p) \<Longrightarrow>
   map sizeMB (map snd (updatePack langCode f packs)) = map sizeMB (map snd packs)"
  by (induction packs) (auto simp: updatePack_def)

lemma sizes_loadLanguageDictionary:
  "map sizeMB (getAvailableLanguagePacks (loadLanguageDictionary svc langCode)) =
     map sizeMB (getAvailableLanguagePacks svc)"
  by (simp add: getAvailableLanguagePacks_def loadLanguageDictionary_def sizes_updatePack
        del: map_map split: option.splits)

lemma sizes_loadLanguageDictionary2:
  "map sizeMB (getAvailableLanguagePacks (loadLanguageDictionary2 svc langCode)) =
     map sizeMB (getAvailableLanguagePacks svc)"
  by (simp add: getAvailableLanguagePacks_def loadLanguageDictionary2_def sizes_updatePack
        del: map_map split: option.splits)

lemma sizes_removeLanguagePack:
  "map sizeMB (getAvailableLanguagePacks (snd (removeLanguagePack svc langCode))) =
     map sizeMB (getAvailableLanguagePacks svc)"
  by (simp add: getAvailableLanguagePacks_def removeLanguagePack_def Let_def saveCacheToStorage_def
        saveLanguagePackStatus_def sizes_updatePack del: map_map split: option.splits)

lemma sizes_clearOfflineData:
  "map sizeMB (getAvailableLanguagePacks (clearOfflineData svc)) =
     map sizeMB (getAvailableLanguagePacks svc)"
  by (simp add: getAvailableLanguagePacks_def clearOfflineData_def comp_def case_prod_beta)

lemma sizes_downloadLanguagePack:
  assumes "downloadLanguagePack svc langCode onProgress = Inr (ok, progress, svc')"
  shows "map sizeMB (getAvailableLanguagePacks svc') = map sizeMB (getAvailableLanguagePacks svc)"
proof (cases ok)
  case False
  with assms have "svc' = svc" by (auto dest: downloadLanguagePack_fails)
  then show ?thesis by simp
next
  case True
  with assms have "languagePacks svc' =
      updatePack langCode (\<lambda>p. p\<lparr>isDownloaded := True\<rparr>) (languagePacks (loadLanguageDictionary svc langCode))"
    by (auto simp: downloadLanguagePack_def Let_def saveLanguagePackStatus_def
          split: option.splits prod.splits bool.splits)
  then have "map sizeMB (getAvailableLanguagePacks svc') =
             map sizeMB (getAvailableLanguagePacks (loadLanguageDictionary svc langCode))"
    by (simp add: getAvailableLanguagePacks_def sizes_updatePack del: map_map)
  then show ?thesis
    by (simp only: sizes_loadLanguageDictionary)
qed

lemma sizes_translateOffline:
  assumes "translateOffline h now svc text sourceLang targetLang = Inr (out, svc')"
  shows "map sizeMB (getAvailableLanguagePacks svc') = map sizeMB (getAvailableLanguagePacks svc)"
proof -
  from assms have "languagePacks svc' = languagePacks svc"
    by (auto simp: translateOffline_def Let_def saveCacheToStorage_def split: option.splits if_splits)
  then show ?thesis
    by (simp add: getAvailableLanguagePacks_def)
qed

lemma sizes_fold_status:
  "map sizeMB (getAvailableLanguagePacks
     (fold (\<lambda>langCode s.
              if storedStatus s langCode = Some True
              then loadLanguageDictionary
                     (s\<lparr>languagePacks := updatePack langCode (\<lambda>p. p\<lparr>isDownloaded := True\<rparr>) (languagePacks s)\<rparr>)
                     langCode
              else s) codes s)) = map sizeMB (getAvailableLanguagePacks s)"
proof (induction codes arbitrary: s)
  case Nil
  show ?case by simp
next
  case (Cons c codes)
  have "map sizeMB (getAvailableLanguagePacks
          (s\<lparr>languagePacks := updatePack c (\<lambda>p. p\<lparr>isDownloaded := True\<rparr>) (languagePacks s)\<rparr>)) =
        map sizeMB (getAvailableLanguagePacks s)"
    by (simp add: getAvailableLanguagePacks_def sizes_updatePack del: map_map)
  then show ?case
    by (simp add: Cons.IH sizes_loadLanguageDictionary)
qed

lemma sizes_loadCachedTranslations:
  "map sizeMB (getAvailableLanguagePacks (loadCachedTranslations s)) =
     map sizeMB (getAvailableLanguagePacks s)"
proof -
  have "map sizeMB (getAvailableLanguagePacks (s\<lparr>translationCache := c\<rparr>)) =
        map sizeMB (getAvailableLanguagePacks s)" for c
    by (simp add: getAvailableLanguagePacks_def)
  then show ?thesis
    by (cases "storedCache s") (simp_all add: loadCachedTranslations_def Let_def sizes_fold_status)
qed

lemma sizes_newService:
  "map sizeMB (getAvailableLanguagePacks (newService now status cached)) = [15.5, 12.3]"
  by (simp add: newService_def sizes_loadCachedTranslations)
     (simp add: getAvailableLanguagePacks_def initializeLanguagePacks_def)

lemma reachable_sizes: "reachable svc \<Longrightarrow> map sizeMB (getAvailableLanguagePacks svc) = [15.5, 12.3]"
proof (induction rule: reachable.induct)
  case (start now status cached)
  show ?case by (rule sizes_newService)
next
  case (download svc langCode onProgress ok progress svc')
  from sizes_downloadLanguagePack [OF download.hyps(2)] download.IH show ?case by simp
next
  case (translate svc h now input sourceLang targetLang out svc')
  from sizes_translateOffline [OF translate.hyps(2)] translate.IH show ?case by simp
next
  case (remove svc langCode ok svc')
  from sizes_removeLanguagePack [of svc langCode] remove.hyps(2) remove.IH show ?case by simp
next
  case (clear svc)
  from sizes_clearOfflineData [of svc] clear.IH show ?case by simp
qed

lemma sizes_isLanguagePackDownloaded2:
  "map sizeMB (getAvailableLanguagePacks (snd (isLanguagePackDownloaded2 svc langCode))) =
     map sizeMB (getAvailableLanguagePacks svc)"
  by (simp add: getAvailableLanguagePacks_def isLanguagePackDownloaded2_def split: option.splits)

lemma sizes_ensureLoaded2:
  "map sizeMB (getAvailableLanguagePacks (ensureLoaded2 svc lang)) =
     map sizeMB (getAvailableLanguagePacks svc)"
  using sizes_isLanguagePackDownloaded2 [of svc lang]
  by (simp add: ensureLoaded2_def case_prod_beta sizes_loadLanguageDictionary2)

lemma sizes_cacheResult:
  "map sizeMB (getAvailableLanguagePacks (snd (cacheResult svc key result conf now))) =
     map sizeMB (getAvailableLanguagePacks svc)"
  by (simp add: getAvailableLanguagePacks_def cacheResult_def)

lemma sizes_translateWithPack2:
  "map sizeMB (getAvailableLanguagePacks (snd (translateWithPack2 h now svc key text sourceLang))) =
     map sizeMB (getAvailableLanguagePacks svc)"
  by (simp add: translateWithPack2_def Let_def sizes_cacheResult split: option.split list.split)

lemma sizes_translateOffline2:
  "map sizeMB (getAvailableLanguagePacks (snd (translateOffline2 h now svc text sourceLang targetLang))) =
     map sizeMB (getAvailableLanguagePacks svc)"
  by (simp add: translateOffline2_def Let_def sizes_cacheResult sizes_translateWithPack2
        sizes_ensureLoaded2 split: option.split)

lemma sizes_downloadLanguagePack2:
  assumes "downloadLanguagePack2 svc langCode onProgress = Inr (ok, progress, svc')"
  shows "map sizeMB (getAvailableLanguagePacks svc') = map sizeMB (getAvailableLanguagePacks svc)"
proof (cases ok)
  case False
  with assms have "svc' = svc"
    by (auto simp: downloadLanguagePack2_def Let_def split: option.splits prod.splits bool.splits)
  then show ?thesis by simp
next
  case True
  with assms have "languagePacks svc' =
      updatePack langCode (\<lambda>p. p\<lparr>isDownloaded := True\<rparr>) (languagePacks (loadLanguageDictionary2 svc langCode))"
    by (auto simp: downloadLanguagePack2_def Let_def saveLanguagePackStatus_def
          split: option.splits prod.splits bool.splits)
  then have "map sizeMB (getAvailableLanguagePacks svc') =
             map sizeMB (getAvailableLanguagePacks (loadLanguageDictionary2 svc langCode))"
    by (simp add: getAvailableLanguagePacks_def sizes_updatePack del: map_map)
  then show ?thesis
    by (simp only: sizes_loadLanguageDictionary2)
qed

lemma sizes_fold_status2:
  "map sizeMB (getAvailableLanguagePacks
     (fold (\<lambda>langCode s.
              if storedStatus s langCode = Some True
              then loadLanguageDictionary2
                     (s\<lparr>languagePacks := updatePack langCode (\<lambda>p. p\<lparr>isDownloaded := True\<rparr>) (languagePacks s)\<rparr>)
                     langCode
              else s) codes s)) = map sizeMB (getAvailableLanguagePacks s)"
proof (induction codes arbitrary: s)
  case Nil
  show ?case by simp
next
  case (Cons c codes)
  have "map sizeMB (getAvailableLanguagePacks
          (s\<lparr>languagePacks := updatePack c (\<lambda>p. p\<lparr>isDownloaded := True\<rparr>) (languagePacks s)\<rparr>)) =
        map sizeMB (getAvailableLanguagePacks s)"
    by (simp add: getAvailableLanguagePacks_def sizes_updatePack del: map_map)
  then show ?case
    by (simp add: Cons.IH sizes_loadLanguageDictionary2)
qed

lemma sizes_loadCachedTranslations2:
  "map sizeMB (getAvailableLanguagePacks (loadCachedTranslations2 s)) =
     map sizeMB (getAvailableLanguagePacks s)"
proof -
  have "map sizeMB (getAvailableLanguagePacks (s\<lparr>translationCache := c\<rparr>)) =
        map sizeMB (getAvailableLanguagePacks s)" for c
    by (simp add: getAvailableLanguagePacks_def)
  then show ?thesis
    by (cases "storedCache s") (simp_all add: loadCachedTranslations2_def Let_def sizes_fold_status2)
qed

lemma sizes_newService2:
  "map sizeMB (getAvailableLanguagePacks (newService2 now status cached items)) = [15.5, 12.3, 5.0]"
  by (simp add: newService2_def preloadAllDictionaries_def sizes_loadLanguageDictionary2
        sizes_loadCachedTranslations2)
     (simp add: getAvailableLanguagePacks_def initializeLanguagePacks2_def initializeLanguagePacks_def)

lemma reachable2_sizes:
  "reachable2 svc \<Longrightarrow> map sizeMB (getAvailableLanguagePacks svc) = [15.5, 12.3, 5.0]"
proof (induction rule: reachable2.induct)
  case (start2 now status cached items)
  show ?case by (rule sizes_newService2)
next
  case (preload2 svc lang)
  from sizes_loadLanguageDictionary2 [of svc lang] preload2.IH show ?case by simp
next
  case (asked2 svc langCode answer svc')
  from sizes_isLanguagePackDownloaded2 [of svc langCode] asked2.hyps(2) asked2.IH
  show ?case by simp
next
  case (download2 svc langCode onProgress ok progress svc')
  from sizes_downloadLanguagePack2 [OF download2.hyps(2)] download2.IH show ?case by simp
next
  case (translate2 svc h now input sourceLang targetLang out svc')
  from sizes_translateOffline2 [of h now svc input sourceLang targetLang] translate2.hyps(2) translate2.IH
  show ?case by simp
next
  case (remove2 svc langCode ok svc')
  from sizes_removeLanguagePack [of svc langCode] remove2.hyps(2) remove2.IH show ?case by simp
next
  case (clear2 svc)
  from sizes_clearOfflineData [of svc] clear2.IH show ?case by simp
qed

text \<open>
  Claim C10. In every state either service can reach, the summary of \<^verbatim>\<open>getStorageInfo\<close>
  has a used size of at most the total size and at most as many downloaded packs as
  available packs, and neither size is negative (the two counts are lengths). The sizes
  are sums of the declared sizes, which no method changes and which are positive.
\<close>

theorem storage_summary_invariant:
  "(reachable svc \<longrightarrow>
      usedSize (getStorageInfo svc) \<le> totalSize (getStorageInfo svc)
      \<and> downloadedPacks (getStorageInfo svc) \<le> availablePacks (getStorageInfo svc)
      \<and> 0 \<le> usedSize (getStorageInfo svc) \<and> 0 \<le> totalSize (getStorageInfo svc))
   \<and> (reachable2 svc2 \<longrightarrow>
      usedSize (getStorageInfo svc2) \<le> totalSize (getStorageInfo svc2)
      \<and> downloadedPacks (getStorageInfo svc2) \<le> availablePacks (getStorageInfo svc2)
      \<and> 0 \<le> usedSize (getStorageInfo svc2) \<and> 0 \<le> totalSize (getStorageInfo svc2))"
proof (intro conjI impI)
  assume "reachable svc"
  then have "list_all (\<lambda>x. 0 < x) (map sizeMB (getAvailableLanguagePacks svc))"
    by (simp add: reachable_sizes)
  note b = getStorageInfo_bounds [OF this]
  show "usedSize (getStorageInfo svc) \<le> totalSize (getStorageInfo svc)" by (rule b(1))
  show "downloadedPacks (getStorageInfo svc) \<le> availablePacks (getStorageInfo svc)" by (rule b(2))
  show "0 \<le> usedSize (getStorageInfo svc)" by (rule b(3))
  show "0 \<le> totalSize (getStorageInfo svc)" by (rule b(4))
next
  assume "reachable2 svc2"
  then have "list_all (\<lambda>x. 0 < x) (map sizeMB (getAvailableLanguagePacks svc2))"
    by (simp add: reachable2_sizes)
  note b = getStorageInfo_bounds [OF this]
  show "usedSize (getStorageInfo svc2) \<le> totalSize (getStorageInfo svc2)" by (rule b(1))
  show "downloadedPacks (getStorageInfo svc2) \<le> availablePacks (getStorageInfo svc2)" by (rule b(2))
  show "0 \<le> usedSize (getStorageInfo svc2)" by (rule b(3))
  show "0 \<le> totalSize (getStorageInfo svc2)" by (rule b(4))
qed

theorem storage_summary_invariant_witness:
  "reachable installedNepali \<and> reachable2 removedNepali2
   \<and> usedSize (getStorageInfo installedNepali) \<le> totalSize (getStorageInfo installedNepali)
   \<and> downloadedPacks (getStorageInfo installedNepali) \<le> availablePacks (getStorageInfo installedNepali)
   \<and> 0 \<le> usedSize (getStorageInfo installedNepali) \<and> 0 \<le> totalSize (getStorageInfo installedNepali)
   \<and> usedSize (getStorageInfo removedNepali2) \<le> totalSize (getStorageInfo removedNepali2)
   \<and> downloadedPacks (getStorageInfo removedNepali2) \<le> availablePacks (getStorageInfo removedNepali2)
   \<and> 0 \<le> usedSize (getStorageInfo removedNepali2) \<and> 0 \<le> totalSize (getStorageInfo removedNepali2)"
proof -
  have r1: "reachable installedNepali"
    using reachable.download [OF reachable.start fresh_download [unfolded freshService_def]] .
  have "reachable2 (newService2 0 Map.empty None (\<lambda>k. False))"
    by (rule reachable2.start2)
  then have "reachable2 (loadLanguageDictionary2 (newService2 0 Map.empty None (\<lambda>k. False)) (ascii ''ne''))"
    by (rule reachable2.preload2) (simp add: preloadAllDictionaries_def)
  then have "reachable2 (loadLanguageDictionary2
                (loadLanguageDictionary2 (newService2 0 Map.empty None (\<lambda>k. False)) (ascii ''ne''))
                (ascii ''si''))"
    by (rule reachable2.preload2) (simp add: preloadAllDictionaries_def)
  then have f: "reachable2 freshService2"
    by (simp add: freshService2_def preloaded_def preloadAllDictionaries_def)
  have "removeLanguagePack freshService2 (ascii ''ne'') =
          (fst (removeLanguagePack freshService2 (ascii ''ne'')), removedNepali2)"
    by (simp add: removedNepali2_def)
  from reachable2.remove2 [OF f this] have r2: "reachable2 removedNepali2" .
  from storage_summary_invariant [of installedNepali removedNepali2] r1 r2
  show ?thesis by blast
qed

section \<open>The word translators of the second offline service\<close>

lemma find_upt_first:
  assumes "m \<le> i" and "i < n" and "P i" and "\<forall>j \<in> {m ..< i}. \<not> P j"
  shows "find P [m ..< n] = Some i"
proof -
  have "\<exists>k<length [m ..< n]. P ([m ..< n] ! k) \<and> i = [m ..< n] ! k \<and> (\<forall>j<k. \<not> P ([m ..< n] ! j))"
    using assms by (intro exI [of _ "i - m"]) auto
  then show ?thesis
    by (simp only: find_Some_iff)
qed

lemma find_upt_none: "\<forall>j \<in> {m ..< n}. \<not> P j \<Longrightarrow> find P [m ..< n] = None"
  by (simp add: find_None_iff)

lemma find_first_key:
  assumes "\<forall>(k', v') \<in> set pre. \<not> Q k'" and "Q k"
  shows "find Q (map fst (pre @ (k, v) # post)) = Some k"
  using assms by (induction pre) auto

lemma map_of_first_key:
  assumes "\<forall>(k', v') \<in> set pre. \<not> Q k'" and "Q k"
  shows "map_of (pre @ (k, v) # post) k = Some v"
  using assms by (induction pre) auto

lemma startsWith_decompose: "startsWith s x \<Longrightarrow> s = x @ drop (length x) s"
  by (induction s x rule: startsWith.induct) auto

lemma findSub_decompose: "findSub s x = Some (b, a) \<Longrightarrow> s = b @ x @ a"
proof (induction s arbitrary: b)
  case Nil
  then show ?case by (auto split: if_splits)
next
  case (Cons c cs)
  show ?case
  proof (cases "startsWith (c # cs) x")
    case True
    with Cons.prems have "b = []" and "a = drop (length x) (c # cs)" by auto
    with startsWith_decompose [OF True] show ?thesis by simp
  next
    case False
    with Cons.prems obtain b' where "findSub cs x = Some (b', a)" and "b = c # b'"
      by auto
    with Cons.IH show ?thesis by simp
  qed
qed

lemma includesStr_findSub: "includesStr s x \<Longrightarrow> \<exists>b a. findSub s x = Some (b, a)"
  by (auto simp: includesStr_def)

lemma expandReplacement_plain: "0x24 \<notin> set r \<Longrightarrow> expandReplacement r m b a = r"
  by (induction r m b a rule: expandReplacement.induct) auto

lemma replaceFirst_plain:
  assumes "includesStr s x" and "0x24 \<notin> set r"
  shows "\<exists>before after. s = before @ x @ after \<and> replaceFirst s x r = before @ r @ after"
proof -
  from includesStr_findSub [OF assms(1)] obtain b a where f: "findSub s x = Some (b, a)" by blast
  then have "s = b @ x @ a" by (rule findSub_decompose)
  moreover from f assms(2) have "replaceFirst s x r = b @ r @ a"
    by (simp add: replaceFirst_def expandReplacement_plain)
  ultimately show ?thesis by blast
qed

subsection \<open>A Sinhala word that contains a key\<close>

lemma sinhala_key: "map_of siToEnDict sinhala = Some (ascii ''Sinhala'')"
  unfolding siToEnDict_def map_of_objectLiteral_fold
  unfolding siToEnDict_literal_def sinhala_def ascii_def by simp

lemma sinhalen_entry: "getProperty siToEnDict sinhalen = Undefined"
  unfolding siToEnDict_def getProperty_def map_of_objectLiteral_fold
  unfolding siToEnDict_literal_def sinhalen_def sinhala_def prototypeMembers_def ascii_def by simp

lemma sinhalen_parts:
  "list_all (\<lambda>j. \<not> truthy (getProperty siToEnDict (drop j sinhalen))) [1 ..< length sinhalen]"
  unfolding siToEnDict_def getProperty_def map_of_objectLiteral_fold
  unfolding siToEnDict_literal_def sinhalen_def sinhala_def prototypeMembers_def ascii_def
  by (simp add: upt_rec)

text \<open>
  Claim C8 says that a word without an entry is first decomposed into parts, and then
  translated through a key longer than three characters that it contains, in
  \<^verbatim>\<open>translateSinhalaWordsToEnglish\<close> as in \<^verbatim>\<open>translateNepaliWordsToEnglish\<close>. The Sinhala
  translator has no such second step: the word below has no entry and no decomposition, it
  contains the five-unit key of the Sinhala table, and it is returned unchanged.
\<close>

theorem sinhala_word_keeps_contained_key:
  "map_of siToEnDict sinhala = Some (ascii ''Sinhala'')
   \<and> 3 < length sinhala
   \<and> includesStr sinhalen sinhala
   \<and> \<not> truthy (getProperty siToEnDict sinhalen)
   \<and> compoundSplit latinHost siToEnDict sinhalen = None
   \<and> translateSinhalaWordsToEnglish latinHost sinhalen siToEnDict = sinhalen"
proof -
  have i: "includesStr sinhalen sinhala" and l: "3 < length sinhala"
    unfolding sinhalen_def sinhala_def includesStr_def by simp_all
  have w: "splitWhitespace sinhalen = [sinhalen]"
    unfolding sinhalen_def sinhala_def splitWhitespace_def splitRuns_def by (simp add: isSpace_def)
  have "find (\<lambda>i. truthy (getProperty siToEnDict (take i sinhalen))
                 \<and> truthy (getProperty siToEnDict (drop i sinhalen))) [1 ..< length sinhalen] = None"
    using sinhalen_parts by (auto simp: find_None_iff list_all_iff)
  then have c: "compoundSplit latinHost siToEnDict sinhalen = None"
    by (simp add: compoundSplit_def)
  then have "translateSinhalaWordsToEnglish latinHost sinhalen siToEnDict = sinhalen"
    by (simp add: translateSinhalaWordsToEnglish_def w translateSinhalaWord_def sinhalen_entry)
  with sinhala_key i l c sinhalen_entry show ?thesis by simp
qed

subsection \<open>The order of the fallbacks\<close>

text \<open>
  What the two functions do to a single word that has no entry in the table, neither as
  written nor in lower case.
\<close>

lemma word_translators:
  assumes "\<not> truthy (getProperty table w)"
    and "\<not> truthy (getProperty table (toLowerCase h w))"
  shows "(\<forall>i a b. 1 \<le> i \<and> i < length w
            \<and> map_of table (take i w) = Some a \<and> a \<noteq> []
            \<and> map_of table (drop i w) = Some b \<and> b \<noteq> []
            \<and> (\<forall>j \<in> {1 ..< i}. \<not> (truthy (getProperty table (take j w))
                                     \<and> truthy (getProperty table (drop j w))))
            \<longrightarrow> translateNepaliWord h table w = Str (a @ ascii '' '' @ b)
                \<and> translateSinhalaWord h table w = Str (a @ ascii '' '' @ b))
         \<and> ((\<forall>j \<in> {1 ..< length w}. \<not> (truthy (getProperty table (take j w))
                                          \<and> truthy (getProperty table (drop j w))))
            \<longrightarrow> translateSinhalaWord h table w = Str w
                \<and> (\<forall>pre k v post.
                      table = pre @ (k, v) # post
                      \<and> (\<forall>(k', v') \<in> set pre. \<not> (3 < length k' \<and> includesStr w k'))
                      \<and> 3 < length k \<and> includesStr w k \<and> 0x24 \<notin> set v
                      \<longrightarrow> (\<exists>before after. w = before @ k @ after
                             \<and> translateNepaliWord h table w = Str (before @ v @ after)))
                \<and> ((\<forall>(k, v) \<in> set table. \<not> (3 < length k \<and> includesStr w k))
                      \<longrightarrow> translateNepaliWord h table w = Str w))"
proof (intro conjI allI impI)
  fix i a b
  assume s: "1 \<le> i \<and> i < length w
            \<and> map_of table (take i w) = Some a \<and> a \<noteq> []
            \<and> map_of table (drop i w) = Some b \<and> b \<noteq> []
            \<and> (\<forall>j \<in> {1 ..< i}. \<not> (truthy (getProperty table (take j w))
                                     \<and> truthy (getProperty table (drop j w))))"
  then have ga: "getProperty table (take i w) = Str a" and gb: "getProperty table (drop i w) = Str b"
    by (simp_all add: getProperty_def)
  with s have here: "truthy (getProperty table (take i w)) \<and> truthy (getProperty table (drop i w))"
    by simp
  have "find (\<lambda>i. truthy (getProperty table (take i w)) \<and> truthy (getProperty table (drop i w)))
          [1 ..< length w] = Some i"
    using s here by (intro find_upt_first) auto
  then have c: "compoundSplit h table w = Some (a @ ascii '' '' @ b)"
    by (simp add: compoundSplit_def ga gb)
  show "translateNepaliWord h table w = Str (a @ ascii '' '' @ b)"
    using assms c by (simp add: translateNepaliWord_def)
  show "translateSinhalaWord h table w = Str (a @ ascii '' '' @ b)"
    using assms c by (simp add: translateSinhalaWord_def)
next
  assume n: "\<forall>j \<in> {1 ..< length w}. \<not> (truthy (getProperty table (take j w))
                                          \<and> truthy (getProperty table (drop j w)))"
  then have "find (\<lambda>i. truthy (getProperty table (take i w)) \<and> truthy (getProperty table (drop i w)))
               [1 ..< length w] = None"
    by (rule find_upt_none)
  then have c: "compoundSplit h table w = None"
    by (simp add: compoundSplit_def)
  show "translateSinhalaWord h table w = Str w"
    using assms c by (simp add: translateSinhalaWord_def)
  {
    fix pre k v post
    assume t: "table = pre @ (k, v) # post
               \<and> (\<forall>(k', v') \<in> set pre. \<not> (3 < length k' \<and> includesStr w k'))
               \<and> 3 < length k \<and> includesStr w k \<and> 0x24 \<notin> set v"
    then have tab: "table = pre @ (k, v) # post"
      and early: "\<forall>(k', v') \<in> set pre. \<not> (3 < length k' \<and> includesStr w k')"
      and here: "3 < length k \<and> includesStr w k"
      by simp_all
    have f: "find (\<lambda>dictWord. 3 < length dictWord \<and> includesStr w dictWord) (map fst table) = Some k"
      unfolding tab
      by (rule find_first_key [where Q = "\<lambda>k. 3 < length k \<and> includesStr w k", OF early here])
    have "map_of table k = Some v"
      unfolding tab
      by (rule map_of_first_key [where Q = "\<lambda>k. 3 < length k \<and> includesStr w k", OF early here])
    then have g: "getProperty table k = Str v"
      by (simp add: getProperty_def)
    from t have "includesStr w k" and "0x24 \<notin> set v" by simp_all
    from replaceFirst_plain [OF this] obtain before after
      where "w = before @ k @ after" and "replaceFirst w k v = before @ v @ after" by blast
    moreover have "translateNepaliWord h table w = Str (replaceFirst w k v)"
      using assms c f g by (simp add: translateNepaliWord_def)
    ultimately show "\<exists>before after. w = before @ k @ after
                       \<and> translateNepaliWord h table w = Str (before @ v @ after)"
      by auto
  }
  {
    assume "\<forall>(k, v) \<in> set table. \<not> (3 < length k \<and> includesStr w k)"
    then have "find (\<lambda>dictWord. 3 < length dictWord \<and> includesStr w dictWord) (map fst table) = None"
      by (auto simp: find_None_iff)
    then show "translateNepaliWord h table w = Str w"
      using assms c by (simp add: translateNepaliWord_def)
  }
qed

text \<open>
  \<^verbatim>\<open>translateNepaliWordsToEnglish\<close> comes to its words only when its first pass, over the
  keys that hold a space, leaves the text as it is.
\<close>

lemma nepali_words_by_token:
  assumes "filter (\<lambda>key. includesStr key (ascii '' '') \<and> includesStr text key) (map fst table) = []"
  shows "translateNepaliWordsToEnglish h text table =
           collapseFrom False
             (join (ascii '' '') (map (\<lambda>w. joinStr h (translateNepaliWord h table w)) (splitWhitespace text)))"
  using assms by (simp add: translateNepaliWordsToEnglish_def)

text \<open>
  Claim C8, as amended. For a text in which no key of the dictionary that holds a space
  occurs, \<^verbatim>\<open>translateNepaliWordsToEnglish\<close> returns the results for the words of the text
  (\<^verbatim>\<open>text.split(/\s+/)\<close>) joined by single spaces, with every run of white space in that
  result made one space; \<^verbatim>\<open>translateSinhalaWordsToEnglish\<close> returns the results for the
  words joined by single spaces. The result for a word that has no entry, neither as
  written nor in lower case, is: if the word splits into two parts that both have an entry,
  in both functions the two translations of the first such split, joined by a space. If
  there is no such split, in the Sinhala function the word unchanged; in the Nepali
  function the word with one occurrence of a key replaced by its translation, for the
  first key of the dictionary that is longer than three code units and occurs in the word
  (a translation without a dollar sign), and the word unchanged when no such key occurs in
  it.
\<close>

theorem word_fallback_order:
  assumes "\<forall>key \<in> set (map fst table). includesStr key (ascii '' '') \<longrightarrow> \<not> includesStr text key"
  shows "translateNepaliWordsToEnglish h text table =
           collapseFrom False
             (join (ascii '' '')
                (map (\<lambda>w. joinStr h (translateNepaliWord h table w)) (splitWhitespace text)))
         \<and> translateSinhalaWordsToEnglish h text table =
             join (ascii '' '')
               (map (\<lambda>w. joinStr h (translateSinhalaWord h table w)) (splitWhitespace text))
         \<and> (\<forall>w \<in> set (splitWhitespace text).
               \<not> truthy (getProperty table w) \<and> \<not> truthy (getProperty table (toLowerCase h w)) \<longrightarrow>
               (\<forall>i a b. 1 \<le> i \<and> i < length w
                   \<and> map_of table (take i w) = Some a \<and> a \<noteq> []
                   \<and> map_of table (drop i w) = Some b \<and> b \<noteq> []
                   \<and> (\<forall>j \<in> {1 ..< i}. \<not> (truthy (getProperty table (take j w))
                                            \<and> truthy (getProperty table (drop j w))))
                   \<longrightarrow> translateNepaliWord h table w = Str (a @ ascii '' '' @ b)
                       \<and> translateSinhalaWord h table w = Str (a @ ascii '' '' @ b))
               \<and> ((\<forall>j \<in> {1 ..< length w}. \<not> (truthy (getProperty table (take j w))
                                                 \<and> truthy (getProperty table (drop j w))))
                   \<longrightarrow> translateSinhalaWord h table w = Str w
                       \<and> (\<forall>pre k v post.
                             table = pre @ (k, v) # post
                             \<and> (\<forall>(k', v') \<in> set pre. \<not> (3 < length k' \<and> includesStr w k'))
                             \<and> 3 < length k \<and> includesStr w k \<and> 0x24 \<notin> set v
                             \<longrightarrow> (\<exists>before after. w = before @ k @ after
                                    \<and> translateNepaliWord h table w = Str (before @ v @ after)))
                       \<and> ((\<forall>(k, v) \<in> set table. \<not> (3 < length k \<and> includesStr w k))
                             \<longrightarrow> translateNepaliWord h table w = Str w)))"
proof (intro conjI)
  from assms
  have "filter (\<lambda>key. includesStr key (ascii '' '') \<and> includesStr text key) (map fst table) = []"
    by (auto simp: filter_empty_conv)
  then show "translateNepaliWordsToEnglish h text table =
           collapseFrom False
             (join (ascii '' '')
                (map (\<lambda>w. joinStr h (translateNepaliWord h table w)) (splitWhitespace text)))"
    by (rule nepali_words_by_token)
next
  show "translateSinhalaWordsToEnglish h text table =
          join (ascii '' '')
            (map (\<lambda>w. joinStr h (translateSinhalaWord h table w)) (splitWhitespace text))"
    by (simp add: translateSinhalaWordsToEnglish_def)
next
  have "(\<forall>i a b. 1 \<le> i \<and> i < length w
                   \<and> map_of table (take i w) = Some a \<and> a \<noteq> []
                   \<and> map_of table (drop i w) = Some b \<and> b \<noteq> []
                   \<and> (\<forall>j \<in> {1 ..< i}. \<not> (truthy (getProperty table (take j w))
                                            \<and> truthy (getProperty table (drop j w))))
                   \<longrightarrow> translateNepaliWord h table w = Str (a @ ascii '' '' @ b)
                       \<and> translateSinhalaWord h table w = Str (a @ ascii '' '' @ b))
               \<and> ((\<forall>j \<in> {1 ..< length w}. \<not> (truthy (getProperty table (take j w))
                                                 \<and> truthy (getProperty table (drop j w))))
                   \<longrightarrow> translateSinhalaWord h table w = Str w
                       \<and> (\<forall>pre k v post.
                             table = pre @ (k, v) # post
                             \<and> (\<forall>(k', v') \<in> set pre. \<not> (3 < length k' \<and> includesStr w k'))
                             \<and> 3 < length k \<and> includesStr w k \<and> 0x24 \<notin> set v
                             \<longrightarrow> (\<exists>before after. w = before @ k @ after
                                    \<and> translateNepaliWord h table w = Str (before @ v @ after)))
                       \<and> ((\<forall>(k, v) \<in> set table. \<not> (3 < length k \<and> includesStr w k))
                             \<longrightarrow> translateNepaliWord h table w = Str w))"
    if "\<not> truthy (getProperty table w)" and "\<not> truthy (getProperty table (toLowerCase h w))" for w
    using that by (rule word_translators)
  then show "\<forall>w \<in> set (splitWhitespace text).
               \<not> truthy (getProperty table w) \<and> \<not> truthy (getProperty table (toLowerCase h w)) \<longrightarrow>
               (\<forall>i a b. 1 \<le> i \<and> i < length w
                   \<and> map_of table (take i w) = Some a \<and> a \<noteq> []
                   \<and> map_of table (drop i w) = Some b \<and> b \<noteq> []
                   \<and> (\<forall>j \<in> {1 ..< i}. \<not> (truthy (getProperty table (take j w))
                                            \<and> truthy (getProperty table (drop j w))))
                   \<longrightarrow> translateNepaliWord h table w = Str (a @ ascii '' '' @ b)
                       \<and> translateSinhalaWord h table w = Str (a @ ascii '' '' @ b))
               \<and> ((\<forall>j \<in> {1 ..< length w}. \<not> (truthy (getProperty table (take j w))
                                                 \<and> truthy (getProperty table (drop j w))))
                   \<longrightarrow> translateSinhalaWord h table w = Str w
                       \<and> (\<forall>pre k v post.
                             table = pre @ (k, v) # post
                             \<and> (\<forall>(k', v') \<in> set pre. \<not> (3 < length k' \<and> includesStr w k'))
                             \<and> 3 < length k \<and> includesStr w k \<and> 0x24 \<notin> set v
                             \<longrightarrow> (\<exists>before after. w = before @ k @ after
                                    \<and> translateNepaliWord h table w = Str (before @ v @ after)))
                       \<and> ((\<forall>(k, v) \<in> set table. \<not> (3 < length k \<and> includesStr w k))
                             \<longrightarrow> translateNepaliWord h table w = Str w))"
    by blast
qed

lemma flower_entries:
  "getProperty flowerTable (ascii ''sunflower'') = Undefined"
  "getProperty flowerTable (ascii ''flowers'') = Undefined"
  "getProperty flowerTable (ascii ''moon'') = Undefined"
  unfolding flowerTable_def getProperty_def prototypeMembers_def ascii_def by simp_all

lemma flower_lower:
  "toLowerCase latinHost (ascii ''sunflower'') = ascii ''sunflower''"
  "toLowerCase latinHost (ascii ''flowers'') = ascii ''flowers''"
  "toLowerCase latinHost (ascii ''moon'') = ascii ''moon''"
  unfolding latinHost_def ascii_def by (simp_all add: lowerAscii_def)

lemma flower_splits:
  "\<forall>j \<in> {1 ..< 3}. \<not> (truthy (getProperty flowerTable (take j (ascii ''sunflower'')))
                         \<and> truthy (getProperty flowerTable (drop j (ascii ''sunflower''))))"
  "\<forall>j \<in> {1 ..< length (ascii ''flowers'')}.
      \<not> (truthy (getProperty flowerTable (take j (ascii ''flowers'')))
         \<and> truthy (getProperty flowerTable (drop j (ascii ''flowers''))))"
  "\<forall>j \<in> {1 ..< length (ascii ''moon'')}.
      \<not> (truthy (getProperty flowerTable (take j (ascii ''moon'')))
         \<and> truthy (getProperty flowerTable (drop j (ascii ''moon''))))"
  unfolding flowerTable_def getProperty_def prototypeMembers_def ascii_def
  by (simp_all add: atLeastLessThan_upt upt_rec)

lemma flowerText_words:
  "splitWhitespace flowerText = [ascii ''sunflower'', ascii ''flowers'', ascii ''moon'']"
  unfolding flowerText_def ascii_def splitWhitespace_def splitRuns_def by (simp add: isSpace_def)

lemma flowerTable_keys:
  "\<forall>key \<in> set (map fst flowerTable). includesStr key (ascii '' '') \<longrightarrow> \<not> includesStr flowerText key"
  unfolding flowerTable_def includesStr_def ascii_def by simp

theorem word_fallback_order_witness:
  "\<not> includesStr (ascii ''sun'') (ascii '' '') \<and> \<not> includesStr (ascii ''flower'') (ascii '' '')
   \<and> translateNepaliWordsToEnglish latinHost flowerText flowerTable =
       collapseFrom False
         (join (ascii '' '')
            (map (\<lambda>w. joinStr latinHost (translateNepaliWord latinHost flowerTable w))
                 [ascii ''sunflower'', ascii ''flowers'', ascii ''moon'']))
   \<and> translateSinhalaWordsToEnglish latinHost flowerText flowerTable =
       join (ascii '' '')
         (map (\<lambda>w. joinStr latinHost (translateSinhalaWord latinHost flowerTable w))
              [ascii ''sunflower'', ascii ''flowers'', ascii ''moon''])
   \<and> \<not> truthy (getProperty flowerTable (ascii ''sunflower''))
   \<and> \<not> truthy (getProperty flowerTable (toLowerCase latinHost (ascii ''sunflower'')))
   \<and> translateNepaliWord latinHost flowerTable (ascii ''sunflower'') = Str (ascii ''surya'' @ ascii '' '' @ ascii ''phool'')
   \<and> translateSinhalaWord latinHost flowerTable (ascii ''sunflower'') = Str (ascii ''surya'' @ ascii '' '' @ ascii ''phool'')
   \<and> translateSinhalaWord latinHost flowerTable (ascii ''flowers'') = Str (ascii ''flowers'')
   \<and> (\<exists>before after. ascii ''flowers'' = before @ ascii ''flower'' @ after
         \<and> translateNepaliWord latinHost flowerTable (ascii ''flowers'') = Str (before @ ascii ''phool'' @ after))
   \<and> translateNepaliWord latinHost flowerTable (ascii ''moon'') = Str (ascii ''moon'')"
proof -
  have s: "\<not> includesStr (ascii ''sun'') (ascii '' '')" "\<not> includesStr (ascii ''flower'') (ascii '' '')"
    unfolding includesStr_def ascii_def by simp_all
  have n1: "\<not> truthy (getProperty flowerTable (ascii ''sunflower''))"
    and n2: "\<not> truthy (getProperty flowerTable (ascii ''flowers''))"
    and n3: "\<not> truthy (getProperty flowerTable (ascii ''moon''))"
    by (simp_all add: flower_entries)
  have l1: "\<not> truthy (getProperty flowerTable (toLowerCase latinHost (ascii ''sunflower'')))"
    and l2: "\<not> truthy (getProperty flowerTable (toLowerCase latinHost (ascii ''flowers'')))"
    and l3: "\<not> truthy (getProperty flowerTable (toLowerCase latinHost (ascii ''moon'')))"
    by (simp_all add: flower_lower flower_entries)
  have parts: "1 \<le> (3::nat)" "3 < length (ascii ''sunflower'')"
    "map_of flowerTable (take 3 (ascii ''sunflower'')) = Some (ascii ''surya'')" "ascii ''surya'' \<noteq> []"
    "map_of flowerTable (drop 3 (ascii ''sunflower'')) = Some (ascii ''phool'')" "ascii ''phool'' \<noteq> []"
    unfolding flowerTable_def ascii_def by simp_all
  have key: "flowerTable = [(ascii ''sun'', ascii ''surya'')] @ (ascii ''flower'', ascii ''phool'') # []"
    "\<forall>(k', v') \<in> set [(ascii ''sun'', ascii ''surya'')]. \<not> (3 < length k' \<and> includesStr (ascii ''flowers'') k')"
    "3 < length (ascii ''flower'')" "includesStr (ascii ''flowers'') (ascii ''flower'')"
    "0x24 \<notin> set (ascii ''phool'')"
    unfolding flowerTable_def includesStr_def ascii_def by simp_all
  have none: "\<forall>(k, v) \<in> set flowerTable. \<not> (3 < length k \<and> includesStr (ascii ''moon'') k)"
    unfolding flowerTable_def includesStr_def ascii_def by simp
  note order = word_fallback_order [OF flowerTable_keys, of latinHost, unfolded flowerText_words]
  from order have whole:
    "translateNepaliWordsToEnglish latinHost flowerText flowerTable =
       collapseFrom False
         (join (ascii '' '')
            (map (\<lambda>w. joinStr latinHost (translateNepaliWord latinHost flowerTable w))
                 [ascii ''sunflower'', ascii ''flowers'', ascii ''moon'']))"
    "translateSinhalaWordsToEnglish latinHost flowerText flowerTable =
       join (ascii '' '')
         (map (\<lambda>w. joinStr latinHost (translateSinhalaWord latinHost flowerTable w))
              [ascii ''sunflower'', ascii ''flowers'', ascii ''moon''])"
    by blast+
  from order have word:
     "(\<forall>i a b. 1 \<le> i \<and> i < length w
          \<and> map_of flowerTable (take i w) = Some a \<and> a \<noteq> []
          \<and> map_of flowerTable (drop i w) = Some b \<and> b \<noteq> []
          \<and> (\<forall>j \<in> {1 ..< i}. \<not> (truthy (getProperty flowerTable (take j w))
                                   \<and> truthy (getProperty flowerTable (drop j w))))
          \<longrightarrow> translateNepaliWord latinHost flowerTable w = Str (a @ ascii '' '' @ b)
              \<and> translateSinhalaWord latinHost flowerTable w = Str (a @ ascii '' '' @ b))
      \<and> ((\<forall>j \<in> {1 ..< length w}. \<not> (truthy (getProperty flowerTable (take j w))
                                        \<and> truthy (getProperty flowerTable (drop j w))))
          \<longrightarrow> translateSinhalaWord latinHost flowerTable w = Str w
              \<and> (\<forall>pre k v post.
                    flowerTable = pre @ (k, v) # post
                    \<and> (\<forall>(k', v') \<in> set pre. \<not> (3 < length k' \<and> includesStr w k'))
                    \<and> 3 < length k \<and> includesStr w k \<and> 0x24 \<notin> set v
                    \<longrightarrow> (\<exists>before after. w = before @ k @ after
                           \<and> translateNepaliWord latinHost flowerTable w = Str (before @ v @ after)))
              \<and> ((\<forall>(k, v) \<in> set flowerTable. \<not> (3 < length k \<and> includesStr w k))
                    \<longrightarrow> translateNepaliWord latinHost flowerTable w = Str w))"
    if "w \<in> set [ascii ''sunflower'', ascii ''flowers'', ascii ''moon'']"
      and "\<not> truthy (getProperty flowerTable w)"
      and "\<not> truthy (getProperty flowerTable (toLowerCase latinHost w))" for w
    using that by blast
  have m: "ascii ''sunflower'' \<in> set [ascii ''sunflower'', ascii ''flowers'', ascii ''moon'']"
    "ascii ''flowers'' \<in> set [ascii ''sunflower'', ascii ''flowers'', ascii ''moon'']"
    "ascii ''moon'' \<in> set [ascii ''sunflower'', ascii ''flowers'', ascii ''moon'']"
    by simp_all
  from word [OF m(1) n1 l1] parts flower_splits(1)
  have a: "translateNepaliWord latinHost flowerTable (ascii ''sunflower'') = Str (ascii ''surya'' @ ascii '' '' @ ascii ''phool'')
           \<and> translateSinhalaWord latinHost flowerTable (ascii ''sunflower'') = Str (ascii ''surya'' @ ascii '' '' @ ascii ''phool'')"
    by blast
  from word [OF m(2) n2 l2] flower_splits(2) key
  have b: "translateSinhalaWord latinHost flowerTable (ascii ''flowers'') = Str (ascii ''flowers'')
           \<and> (\<exists>before after. ascii ''flowers'' = before @ ascii ''flower'' @ after
                 \<and> translateNepaliWord latinHost flowerTable (ascii ''flowers'') = Str (before @ ascii ''phool'' @ after))"
    by blast
  from word [OF m(3) n3 l3] flower_splits(3) none
  have c: "translateNepaliWord latinHost flowerTable (ascii ''moon'') = Str (ascii ''moon'')"
    by blast
  from s whole n1 l1 a b c show ?thesis by blast
qed


section \<open>Line breaks in the fallback translation service\<close>

subsection \<open>Splitting into lines and joining them\<close>








lemma cons_head_pieces:
  "\<forall>x \<in> set xs. set x \<subseteq> A \<Longrightarrow>
   \<forall>x \<in> set (case xs of [] \<Rightarrow> [[c]] | t # ts \<Rightarrow> (c # t) # ts). set x \<subseteq> insert c A"
  by (cases xs) auto

lemma cons_head_free:
  "\<forall>x \<in> set xs. d \<notin> set x \<Longrightarrow> c \<noteq> d \<Longrightarrow>
   \<forall>x \<in> set (case xs of [] \<Rightarrow> [[c]] | t # ts \<Rightarrow> (c # t) # ts). d \<notin> set x"
  by (cases xs) auto

lemma splitLines_sub: "\<forall>x \<in> set (splitLines s). set x \<subseteq> set s"
proof (induction s rule: splitLines.induct)
  case 1
  then show ?case by simp
next
  case (2 c cs)
  show ?case
  proof (cases "c = 0xA \<or> (c = 0xD \<and> take 1 cs = [0xA])")
    case True
    with 2 show ?thesis by auto
  next
    case False
    with 2 have "\<forall>x \<in> set (splitLines cs). set x \<subseteq> set cs" by simp
    then have "\<forall>x \<in> set (case splitLines cs of [] \<Rightarrow> [[c]] | t # ts \<Rightarrow> (c # t) # ts).
                 set x \<subseteq> insert c (set cs)"
      by (rule cons_head_pieces)
    with False show ?thesis by auto
  qed
qed

lemma splitLines_free: "\<forall>x \<in> set (splitLines s). 0xA \<notin> set x"
proof (induction s rule: splitLines.induct)
  case 1
  then show ?case by simp
next
  case (2 c cs)
  show ?case
  proof (cases "c = 0xA \<or> (c = 0xD \<and> take 1 cs = [0xA])")
    case True
    with 2 show ?thesis by auto
  next
    case False
    with 2 have "\<forall>x \<in> set (splitLines cs). 0xA \<notin> set x" by simp
    moreover from False have "c \<noteq> 0xA" by simp
    ultimately have "\<forall>x \<in> set (case splitLines cs of [] \<Rightarrow> [[c]] | t # ts \<Rightarrow> (c # t) # ts).
                 0xA \<notin> set x"
      by (rule cons_head_free)
    with False show ?thesis by auto
  qed
qed

lemma splitLines_all: "\<forall>x \<in> set (splitLines s). set x \<subseteq> set s \<and> 0xA \<notin> set x"
  using splitLines_sub splitLines_free by blast

lemma splitLines_pieces: "x \<in> set (splitLines s) \<Longrightarrow> set x \<subseteq> set s \<and> 0xA \<notin> set x"
  using splitLines_all by blast

subsection \<open>Where the code units of a result come from\<close>




















subsection \<open>Results without a line feed\<close>


















subsection \<open>Two words on two lines\<close>













subsection \<open>The lines of a paragraph\<close>








subsection \<open>A paragraph on a pair without a table of its own\<close>

lemma rules_fr_en: "applyPatternRules s (ascii ''fr'') (ascii ''en'') = None"
  unfolding applyPatternRules_def patternRules_def pairKey_def ascii_def by simp

lemma rules_en_de: "applyPatternRules s (ascii ''en'') (ascii ''de'') = None"
  unfolding applyPatternRules_def patternRules_def pairKey_def ascii_def by simp

lemma french_sentences:
  "translateSentence latinHost (ascii ''Bonjour'') lex_fr_en_2 (ascii ''fr'') (ascii ''en'') = ascii ''hello''"
  "translateSentence latinHost (ascii '' Merci'') lex_fr_en_2 (ascii ''fr'') (ascii ''en'') = ascii ''thank you''"
  "translateSentence latinHost (ascii ''Oui'') lex_fr_en_2 (ascii ''fr'') (ascii ''en'') = ascii ''yes''"
  "translateSentence latinHost (ascii '' Non'') lex_fr_en_2 (ascii ''fr'') (ascii ''en'') = ascii ''no''"
  unfolding translateSentence_def rules_fr_en
  unfolding splitIntoMeaningfulChunks_def translatePhrase_def
    lex_fr_en_2_def getProperty_def latinHost_def trim_def includesStr_def splitWhitespace_def
    splitRuns_def ascii_def
  by (simp_all add: lowerAscii_def isSpace_def isDelimiter_def)


lemma frenchNote_lines: "splitLines frenchNote = [ascii ''Bonjour. Merci.'', ascii ''Oui. Non.'']"
  unfolding frenchNote_def ascii_def by simp

lemma french_line_sentences:
  "splitIntoSentences (ascii ''Bonjour. Merci.'') = [ascii ''Bonjour'', ascii '' Merci'']"
  "splitIntoSentences (ascii ''Oui. Non.'') = [ascii ''Oui'', ascii '' Non'']"
  unfolding splitIntoSentences_def splitRuns_def trim_def ascii_def
  by (simp_all add: isSentenceEnder_def isSpace_def)

lemma french_lines:
  "translateLine latinHost (ascii ''Bonjour. Merci.'') lex_fr_en_2 (ascii ''fr'') (ascii ''en'') =
     ascii ''hello thank you''"
  "translateLine latinHost (ascii ''Oui. Non.'') lex_fr_en_2 (ascii ''fr'') (ascii ''en'') = ascii ''yes no''"
  unfolding translateLine_def french_line_sentences
  by (simp_all add: french_sentences) (simp_all add: trim_def isSpace_def ascii_def)

lemma frenchNote_no_key:
  "getProperty lex_fr_en_2 (trim (toLowerCase latinHost frenchNote)) = Undefined"
  "getProperty lex_fr_en_2 (trim frenchNote) = Undefined"
  unfolding lex_fr_en_2_def getProperty_def prototypeMembers_def frenchNote_def latinHost_def
    trim_def ascii_def
  by (simp_all add: lowerAscii_def isSpace_def)

lemma frenchNote_class: "isParagraph frenchNote"
  unfolding isParagraph_def frenchNote_def ascii_def by (simp add: isSentenceEnder_def)

lemma frenchNote_first_step:
  "translateComplexText latinHost (Str frenchNote) lex_fr_en_2 (ascii ''fr'') (ascii ''en'') =
     Inr (Str englishNote)"
  by (simp add: translateComplexText.simps frenchNote_no_key frenchNote_class translateParagraph_def
        frenchNote_lines french_lines englishNote_def)

lemma englishNote_no_key:
  "getProperty lex_en_de (trim (toLowerCase latinHost englishNote)) = Undefined"
  "getProperty lex_en_de (trim englishNote) = Undefined"
  unfolding lex_en_de_def getProperty_def prototypeMembers_def englishNote_def latinHost_def
    trim_def ascii_def
  by (simp_all add: lowerAscii_def isSpace_def)

lemma englishNote_class: "\<not> isParagraph englishNote" "isSentence englishNote"
  unfolding isParagraph_def isSentence_def englishNote_def splitWhitespace_def splitRuns_def trim_def ascii_def
  by (simp_all add: isSentenceEnder_def isSpace_def)

lemma englishNote_chunks:
  "splitIntoMeaningfulChunks englishNote = [ascii ''hello thank you'', ascii ''yes no'']"
  unfolding splitIntoMeaningfulChunks_def englishNote_def splitWhitespace_def splitRuns_def trim_def ascii_def
  by (simp add: isDelimiter_def isSpace_def)

lemma englishNote_long_phrase:
  "find (\<lambda>(phrase, translated). 10 < length phrase \<and> P phrase translated) lex_en_de = None"
  unfolding lex_en_de_def ascii_def by simp

lemma english_phrases:
  "translatePhrase latinHost (ascii ''hello thank you'') lex_en_de (ascii ''en'') (ascii ''de'') =
     Str (ascii ''hallo'')"
  "translatePhrase latinHost (ascii ''yes no'') lex_en_de (ascii ''en'') (ascii ''de'') =
     Str (ascii ''ja nein'')"
  unfolding translatePhrase_def translateWordByWord_def translateWord_def
    lex_en_de_def getProperty_def prototypeMembers_def latinHost_def trim_def includesStr_def
    splitWhitespace_def splitRuns_def ascii_def
  by (simp_all add: lowerAscii_def isSpace_def Let_def)

lemma englishNote_sentence:
  "translateSentence latinHost englishNote lex_en_de (ascii ''en'') (ascii ''de'') = ascii ''hallo ja nein''"
  unfolding translateSentence_def rules_en_de
  by (simp add: englishNote_long_phrase englishNote_chunks english_phrases) (simp add: ascii_def)

text \<open>
  From French to German the service goes through English. The first step keeps the two
  lines of the paragraph and drops its sentence terminators; the second step is then given
  a text without a terminator, translates it as one sentence, and returns one line.
\<close>

lemma pivot_paragraph_on_one_line:
  "translate latinHost (Str frenchNote) (ascii ''fr'') (ascii ''de'') = Inr (Str (ascii ''hallo ja nein''))
   \<and> isParagraph frenchNote \<and> lineBreaks frenchNote = 1 \<and> lineBreaks (ascii ''hallo ja nein'') = 0"
proof -
  have "translate latinHost (Str frenchNote) (ascii ''fr'') (ascii ''de'') = Inr (Str (ascii ''hallo ja nein''))"
    unfolding table_fr_de frenchNote_first_step
    by (simp add: translateComplexText.simps englishNote_no_key englishNote_class englishNote_sentence)
  moreover have "lineBreaks frenchNote = 1" "lineBreaks (ascii ''hallo ja nein'') = 0"
    by (simp_all add: lineBreaks_def frenchNote_def ascii_def)
  ultimately show ?thesis using frenchNote_class by simp
qed

end
